theory Spec2Isabelle
  imports Complex_Main "HOL-Library.Word" "HOL-Library.Log_Nat"
begin

section \<open>Python values and the primitives the handlers use\<close>

text \<open>
  A Python \<open>bytes\<close> object is a list of octets. A Python \<open>str\<close> is a \<open>string\<close>; one
  \<open>char\<close> stands for one character of the \<open>str\<close>, so the model covers the code points
  below 256 (every phrase the program itself contains is ASCII).
\<close>

type_synonym bytes = "8 word list"

text \<open>
  Exceptions are values. Three classes decide which \<open>except\<close> clause of the program
  catches an exception: \<open>ConnectionError\<close> (with its subclasses), \<open>AttributeError\<close> (with
  its subclasses) and every other subclass of \<open>Exception\<close>. The string is \<open>str(e)\<close>.
  For an error the interpreter itself raises (\<open>TypeError\<close>, \<open>KeyError\<close>, \<open>ValueError\<close>,
  \<open>AttributeError\<close>) the text of \<open>str(e)\<close> is the one CPython 3.11 gives.
\<close>

datatype exn_class = ConnectionError | AttributeError | OtherException

datatype exn = Exn exn_class string

fun exn_str :: "exn \<Rightarrow> string" where
  "exn_str (Exn c msg) = msg"

fun exn_cls :: "exn \<Rightarrow> exn_class" where
  "exn_cls (Exn c msg) = c"

text \<open>
  The value of \<open>request.json\<close>, and of every entry of a metrics dictionary. \<open>JInt\<close> is a
  Python \<open>int\<close>; \<open>JNum\<close> is a Python \<open>float\<close>, held as the rational number the double is.
\<close>

datatype jvalue =
    JNull
  | JBool bool
  | JInt int
  | JNum rat
  | JStr string
  | JArr "jvalue list"
  | JObj "(string \<times> jvalue) list"

text \<open>Truth value of an object, as \<open>not data\<close> tests it.\<close>

fun truthy :: "jvalue \<Rightarrow> bool" where
  "truthy JNull = False"
| "truthy (JBool b) = b"
| "truthy (JInt n) = (n \<noteq> 0)"
| "truthy (JNum n) = (n \<noteq> 0)"
| "truthy (JStr s) = (s \<noteq> [])"
| "truthy (JArr xs) = (xs \<noteq> [])"
| "truthy (JObj kvs) = (kvs \<noteq> [])"

text \<open>Truth value of a credential read by \<open>os.getenv\<close>: \<open>None\<close> and \<open>""\<close> are false.\<close>

fun key_set :: "string option \<Rightarrow> bool" where
  "key_set None = False"
| "key_set (Some k) = (k \<noteq> [])"

fun starts_with :: "string \<Rightarrow> string \<Rightarrow> bool" where
  "starts_with [] s = True"
| "starts_with (p # ps) [] = False"
| "starts_with (p # ps) (c # cs) = (p = c \<and> starts_with ps cs)"

text \<open>\<open>p in s\<close> for two strings: \<open>p\<close> occurs in \<open>s\<close> as a substring.\<close>

fun contains :: "string \<Rightarrow> string \<Rightarrow> bool" where
  "contains p [] = (p = [])"
| "contains p (c # cs) = (starts_with p (c # cs) \<or> contains p cs)"

text \<open>The name of the type of a value, and a text between apostrophes.\<close>

fun type_name :: "jvalue \<Rightarrow> string" where
  "type_name JNull = ''NoneType''"
| "type_name (JBool b) = ''bool''"
| "type_name (JInt n) = ''int''"
| "type_name (JNum x) = ''float''"
| "type_name (JStr s) = ''str''"
| "type_name (JArr xs) = ''list''"
| "type_name (JObj kvs) = ''dict''"

definition quoted :: "string \<Rightarrow> string" where
  "quoted s = [CHR 0x27] @ s @ [CHR 0x27]"

text \<open>
  \<open>k in data\<close> for a string \<open>k\<close>: a key of a dictionary, an element of a list, a
  substring of a string; \<open>TypeError\<close> for \<open>None\<close>, a boolean and a number.
\<close>

fun py_in :: "string \<Rightarrow> jvalue \<Rightarrow> exn + bool" where
  "py_in k (JObj kvs) = Inr (map_of kvs k \<noteq> None)"
| "py_in k (JArr xs) = Inr (JStr k \<in> set xs)"
| "py_in k (JStr s) = Inr (contains k s)"
| "py_in k v =
     Inl (Exn OtherException (''argument of type '' @ quoted (type_name v) @ '' is not iterable''))"

text \<open>
  \<open>data[k]\<close> for a string \<open>k\<close>: the value of the key in a dictionary (\<open>KeyError\<close>
  without it), \<open>TypeError\<close> for every other object.
\<close>

fun py_getitem :: "jvalue \<Rightarrow> string \<Rightarrow> exn + jvalue" where
  "py_getitem (JObj kvs) k =
     (case map_of kvs k of
        Some v \<Rightarrow> Inr v
      | None \<Rightarrow> Inl (Exn OtherException (quoted k)))"
| "py_getitem (JArr xs) k =
     Inl (Exn OtherException ''list indices must be integers or slices, not str'')"
| "py_getitem (JStr s) k =
     Inl (Exn OtherException (''string indices must be integers, not '' @ quoted ''str''))"
| "py_getitem v k =
     Inl (Exn OtherException (quoted (type_name v) @ '' object is not subscriptable''))"

text \<open>\<open>data.get(k, default)\<close> of a dictionary.\<close>

fun py_get :: "jvalue \<Rightarrow> string \<Rightarrow> jvalue \<Rightarrow> exn + jvalue" where
  "py_get (JObj kvs) k dflt =
     (case map_of kvs k of
        Some v \<Rightarrow> Inr v
      | None \<Rightarrow> Inr dflt)"
| "py_get v k dflt =
     Inl (Exn AttributeError
       (quoted (type_name v) @ '' object has no attribute '' @ quoted ''get''))"

text \<open>\<open>len(text)\<close>: defined for a string, a list and a dictionary.\<close>

fun py_len :: "jvalue \<Rightarrow> exn + nat" where
  "py_len (JStr s) = Inr (length s)"
| "py_len (JArr xs) = Inr (length xs)"
| "py_len (JObj kvs) = Inr (length kvs)"
| "py_len v =
     Inl (Exn OtherException (''object of type '' @ quoted (type_name v) @ '' has no len()''))"

text \<open>\<open>s.split(sep)\<close> for a separator of one character.\<close>

fun split_on :: "char \<Rightarrow> string \<Rightarrow> string list" where
  "split_on sep [] = [[]]"
| "split_on sep (c # cs) =
     (if c = sep then [] # split_on sep cs
      else (case split_on sep cs of
              [] \<Rightarrow> [[c]]
            | p # ps \<Rightarrow> (c # p) # ps))"

text \<open>\<open>v.split(',')\<close> where \<open>v\<close> came out of the request: only a string has the method.\<close>

fun py_split :: "jvalue \<Rightarrow> char \<Rightarrow> exn + string list" where
  "py_split (JStr s) sep = Inr (split_on sep s)"
| "py_split v sep =
     Inl (Exn AttributeError
       (quoted (type_name v) @ '' object has no attribute '' @ quoted ''split''))"

text \<open>
  \<open>header, base64_data = parts\<close>: exactly two parts, or \<open>ValueError\<close>.
\<close>

fun unpack2 :: "string list \<Rightarrow> exn + string \<times> string" where
  "unpack2 [header, base64_data] = Inr (header, base64_data)"
| "unpack2 [] = Inl (Exn OtherException ''not enough values to unpack (expected 2, got 0)'')"
| "unpack2 [p] = Inl (Exn OtherException ''not enough values to unpack (expected 2, got 1)'')"
| "unpack2 parts = Inl (Exn OtherException ''too many values to unpack (expected 2)'')"

text \<open>
  The characters \<open>str.strip()\<close> removes (\<open>str.isspace\<close>), among the code points below 256.
\<close>

definition py_isspace :: "char \<Rightarrow> bool" where
  "py_isspace c =
     (let n = (of_char c :: nat)
      in (9 \<le> n \<and> n \<le> 13) \<or> (28 \<le> n \<and> n \<le> 32) \<or> n = 133 \<or> n = 160)"

definition strip :: "string \<Rightarrow> string" where
  "strip s = rev (dropWhile py_isspace (rev (dropWhile py_isspace s)))"

text \<open>
  A Python \<open>float\<close> is an IEEE binary64 number. \<open>fl x\<close> is the double nearest to the
  rational \<open>x\<close>, ties to the even significand: with \<open>2 ^ k \<le> |x| < 2 ^ (k + 1)\<close>, the
  multiple of \<open>2 ^ (k - 52)\<close> nearest to \<open>x\<close>. Overflow and subnormal numbers are outside
  the model. \<open>ilog2 x\<close> is that \<open>k\<close> for a positive \<open>x\<close>, found from the bit lengths of the
  numerator and the denominator.
\<close>

definition round_half_even :: "rat \<Rightarrow> int" where
  "round_half_even y =
     (let f = \<lfloor>y\<rfloor>; d = y - of_int f
      in if d < 1 / 2 then f
         else if 1 / 2 < d then f + 1
         else if even f then f else f + 1)"

definition ilog2 :: "rat \<Rightarrow> int" where
  "ilog2 x =
     (case quotient_of x of
        (p, q) \<Rightarrow> (let d = bitlen p - bitlen q in if 2 powi d \<le> x then d else d - 1))"

definition fl :: "rat \<Rightarrow> rat" where
  "fl x =
     (if x = 0 then 0
      else (let e = ilog2 \<bar>x\<bar> - 52
            in of_int (round_half_even (x / 2 powi e)) * 2 powi e))"

text \<open>
  The subtraction and the multiplication of two doubles are the exact results, rounded.
\<close>

definition fsub :: "rat \<Rightarrow> rat \<Rightarrow> rat" where
  "fsub x y = fl (x - y)"

definition fmul :: "rat \<Rightarrow> rat \<Rightarrow> rat" where
  "fmul x y = fl (x * y)"

text \<open>
  \<open>round(x, 2)\<close> of a double: the exact value of \<open>x\<close> is rounded to the nearest multiple
  of 1/100 (at a tie, the one with an even last digit), and the result is the double
  nearest to that decimal.
\<close>

definition py_round2 :: "rat \<Rightarrow> rat" where
  "py_round2 x = fl (of_int (round_half_even (x * 100)) / 100)"

text \<open>
  The same roundings computed on a numerator and a positive denominator, in integer
  arithmetic: \<open>rhe_div a b\<close> rounds \<open>a / b\<close> to the nearest integer, ties to even;
  \<open>ilog2_frac p q\<close> is \<open>ilog2 (p / q)\<close> and \<open>fl_frac p q\<close> is \<open>fl (p / q)\<close>. They are
  proved equal to the definitions above, and concrete values are computed with them.
\<close>

definition rhe_div :: "int \<Rightarrow> int \<Rightarrow> int" where
  "rhe_div a b =
     (let f = a div b; r = a mod b
      in if 2 * r < b then f
         else if b < 2 * r then f + 1
         else if even f then f else f + 1)"

definition ilog2_frac :: "int \<Rightarrow> int \<Rightarrow> int" where
  "ilog2_frac p q =
     (let d = bitlen p - bitlen q
      in if (if 0 \<le> d then q * 2 ^ nat d \<le> p else q \<le> p * 2 ^ nat (- d)) then d else d - 1)"

definition fl_frac :: "int \<Rightarrow> int \<Rightarrow> rat" where
  "fl_frac p q =
     (if p = 0 then 0
      else (let e = ilog2_frac \<bar>p\<bar> q - 52
            in if 0 \<le> e then of_int (rhe_div p (q * 2 ^ nat e) * 2 ^ nat e)
               else Fract (rhe_div (p * 2 ^ nat (- e)) q) (2 ^ nat (- e))))"
section \<open>The environment of the program\<close>

text \<open>
  Every request to a vendor service is recorded, in order, with its arguments: the
  buffer and MIME type of a transcription, the user prompt of a chat completion, the
  text and voice of a synthesis.
\<close>

datatype call =
    TranscribeFile bytes string
  | SyncPrerecorded bytes string
  | ChatCreate string
  | Generate jvalue jvalue
  | Convert string string

text \<open>
  What the handlers read of a chat completion: \<open>choices[0].message.content\<close>, and
  \<open>usage.completion_tokens\<close> when the response has the attribute \<open>usage\<close>.
\<close>

record chat_response =
  content :: string
  usage :: "nat option"

text \<open>
  The vendor services and the library functions are parameters. A service answers a
  request with a value or raises; its answer may depend on the requests made before
  (the first argument), so that a service may fail once and succeed later. The answer of
  a transcription is the transcript the handler extracts from the response object.
  \<open>b64decode\<close>, \<open>b64encode\<close> are \<open>base64\<close>'s; \<open>py_str\<close> is \<open>str()\<close> of a value that a
  formatted string embeds; \<open>to_wave\<close> is \<open>AudioBuffer.to_wave\<close> on the buffered frames.
\<close>

record env =
  transcribe_file :: "call list \<Rightarrow> bytes \<Rightarrow> string \<Rightarrow> exn + string"
  sync_prerecorded :: "call list \<Rightarrow> bytes \<Rightarrow> string \<Rightarrow> exn + string"
  chat_create :: "call list \<Rightarrow> string \<Rightarrow> exn + chat_response"
  generate :: "call list \<Rightarrow> jvalue \<Rightarrow> jvalue \<Rightarrow> exn + bytes"
  convert :: "call list \<Rightarrow> string \<Rightarrow> string \<Rightarrow> exn + bytes"
  b64decode :: "string \<Rightarrow> exn + bytes"
  b64encode :: "bytes \<Rightarrow> string"
  py_str :: "jvalue \<Rightarrow> string"
  to_wave :: "bytes list \<Rightarrow> bytes"

text \<open>
  The module-level names of \<open>app.py\<close> and \<open>agent_helpers.py\<close>. The three \<open>*_client\<close> names
  of \<open>agent_helpers.py\<close> are \<open>None\<close> (here \<open>False\<close>) or a client object (\<open>True\<close>).
\<close>

record globals =
  MODERN_DEEPGRAM :: bool
  DEEPGRAM_AVAILABLE :: bool
  DEEPGRAM_API_KEY :: "string option"
  ELEVENLABS_API_KEY :: "string option"
  GROQ_API_KEY :: "string option"
  ELEVENLABS_VOICE_ID :: string
  deepgram_client :: bool
  groq_client :: bool
  elevenlabs_client :: bool

text \<open>
  \<open>app.py\<close>, lines 14 to 31: the modern SDK is imported in two statements,
  \<open>DeepgramClient\<close> (line 16) and \<open>PrerecordedOptions\<close> (line 17); when one of them fails,
  the legacy \<open>Deepgram\<close> is imported (line 26). The result is \<open>MODERN_DEEPGRAM\<close>,
  \<open>DEEPGRAM_AVAILABLE\<close>, and whether the name \<open>DeepgramClient\<close> is bound, which it is as soon
  as line 16 succeeded.
\<close>

definition import_deepgram :: "bool \<Rightarrow> bool \<Rightarrow> bool \<Rightarrow> bool \<times> bool \<times> bool" where
  "import_deepgram client_import_ok options_import_ok legacy_import_ok =
     (if client_import_ok \<and> options_import_ok then (True, True, True)
      else if legacy_import_ok then (False, True, client_import_ok)
      else (False, False, client_import_ok))"

text \<open>
  \<open>app.py\<close>, lines 66 to 72: \<open>DeepgramClient(DEEPGRAM_API_KEY)\<close> is called when an SDK
  was imported, and any exception clears \<open>DEEPGRAM_AVAILABLE\<close>: the exception of the
  constructor, or \<open>NameError\<close> when the name \<open>DeepgramClient\<close> is not bound.
\<close>

definition init_deepgram :: "bool \<times> bool \<times> bool \<Rightarrow> bool \<Rightarrow> bool" where
  "init_deepgram imported client_ok =
     (case imported of
        (modern, available, client_bound) \<Rightarrow>
          if available then (if client_bound then client_ok else False) else False)"

definition app_init :: "bool \<Rightarrow> bool \<Rightarrow> bool \<Rightarrow> bool \<Rightarrow> globals \<Rightarrow> globals" where
  "app_init client_import_ok options_import_ok legacy_import_ok client_ok g =
     (let imported = import_deepgram client_import_ok options_import_ok legacy_import_ok
      in g\<lparr>MODERN_DEEPGRAM := fst imported,
            DEEPGRAM_AVAILABLE := init_deepgram imported client_ok\<rparr>)"

text \<open>
  A metrics dictionary keeps its keys in insertion order. The state of the web
  application is the metrics log, the requests made to the services, and the
  spreadsheet files written (file name and rows; writing under a name replaces the file).
\<close>

type_synonym metric = "(string \<times> jvalue) list"

record app_state =
  metrics_log :: "metric list"
  calls :: "call list"
  files :: "(string \<times> metric list) list"

text \<open>
  A request: the value of \<open>request.json\<close> (it may raise), the time at the readings of
  the clock in the order the handler takes them (\<open>time_time k\<close> is the time, in seconds, at
  the \<open>k\<close>-th \<open>time.time()\<close>, which returns the double nearest to it: \<open>clock\<close>;
  \<open>now_isoformat k\<close> is the \<open>k\<close>-th \<open>datetime.now().isoformat()\<close>), and
  \<open>datetime.now().strftime('%Y%m%d_%H%M%S')\<close>. A response is the status and the JSON body.
\<close>

record request =
  json :: "exn + jvalue"
  time_time :: "nat \<Rightarrow> rat"
  now_isoformat :: "nat \<Rightarrow> string"
  now_strftime :: string

definition clock :: "request \<Rightarrow> nat \<Rightarrow> rat" where
  "clock rq k = fl (time_time rq k)"

type_synonym response = "nat \<times> jvalue"

definition error_response :: "nat \<Rightarrow> string \<Rightarrow> response" where
  "error_response status msg = (status, JObj [(''error'', JStr msg)])"

definition log_call :: "call \<Rightarrow> app_state \<Rightarrow> app_state" where
  "log_call c w = w\<lparr>calls := calls w @ [c]\<rparr>"

definition write_file :: "string \<Rightarrow> metric list \<Rightarrow> app_state \<Rightarrow> app_state" where
  "write_file filename rows w =
     w\<lparr>files := (filename, rows) # filter (\<lambda>f. fst f \<noteq> filename) (files w)\<rparr>"

definition read_file :: "app_state \<Rightarrow> string \<Rightarrow> metric list option" where
  "read_file w filename = map_of (files w) filename"

definition append_metric :: "metric \<Rightarrow> app_state \<Rightarrow> app_state" where
  "append_metric m w = w\<lparr>metrics_log := metrics_log w @ [m]\<rparr>"

section \<open>Metrics endpoints (\<open>app.py\<close>)\<close>

text \<open>
  \<open>save_metrics_to_excel\<close>: with a non-empty log, one row for each record is written to a
  file named after the current time, and the name is returned; with an empty log
  nothing is written and the result is \<open>None\<close>. Writing the file is taken to succeed.
\<close>

definition save_metrics_to_excel :: "request \<Rightarrow> app_state \<Rightarrow> string option \<times> app_state" where
  "save_metrics_to_excel rq w =
     (if metrics_log w \<noteq> [] then
        (let df = metrics_log w;
             filename = ''metrics_'' @ now_strftime rq @ ''.xlsx''
         in (Some filename, write_file filename df w))
      else (None, w))"

definition get_metrics :: "app_state \<Rightarrow> response \<times> app_state" where
  "get_metrics w = ((200, JArr (map JObj (metrics_log w))), w)"

definition export_metrics :: "request \<Rightarrow> app_state \<Rightarrow> response \<times> app_state" where
  "export_metrics rq w =
     (case save_metrics_to_excel rq w of
        (Some filename, w') \<Rightarrow>
          ((200, JObj [(''status'', JStr ''success''), (''filename'', JStr filename)]), w')
      | (None, w') \<Rightarrow>
          ((200, JObj [(''status'', JStr ''error''), (''message'', JStr ''No metrics to export'')]), w'))"

definition index :: "app_state \<Rightarrow> response \<times> app_state" where
  "index w = ((200, JStr ''VoiceFlow AI Flask Backend is running!''), w)"

section \<open>Request handlers (\<open>app.py\<close>)\<close>

text \<open>
  The body of a \<open>try\<close> block either raises, returns a response early, or goes on with a
  value. \<open>except Exception as e: return jsonify({"error": str(e)}), 500\<close> closes each
  handler.
\<close>

datatype 'a step = Raised exn | Returned response | Value 'a

definition except_Exception :: "(exn + response) \<times> app_state \<Rightarrow> response \<times> app_state" where
  "except_Exception r =
     (case r of
        (Inr resp, w) \<Rightarrow> (resp, w)
      | (Inl ex, w) \<Rightarrow> (error_response 500 (exn_str ex), w))"

text \<open>
  \<open>header.split(':')[1].split(';')[0] if ':' in header else "audio/wav"\<close>
\<close>

definition mime_type_of :: "string \<Rightarrow> string" where
  "mime_type_of header =
     (if CHR '':'' \<in> set header then
        (case split_on CHR '':'' header of
           h0 # h1 # rest \<Rightarrow> (case split_on CHR '';'' h1 of m # ms \<Rightarrow> m | [] \<Rightarrow> [])
         | _ \<Rightarrow> [])
      else ''audio/wav'')"

text \<open>
  The start of \<open>speech_to_text\<close> and of \<open>process_conversation\<close> (the same lines in both):
  the request must carry \<open>audioDataUri\<close>, a data URI with exactly one comma; the part
  after the comma is decoded, the MIME type is read off the part before it.
\<close>

definition decode_audio :: "env \<Rightarrow> request \<Rightarrow> (bytes \<times> string) step" where
  "decode_audio e rq =
     (case json rq of
        Inl ex \<Rightarrow> Raised ex
      | Inr data \<Rightarrow>
          if \<not> truthy data then Returned (error_response 400 ''No audio data provided'')
          else
            (case py_in ''audioDataUri'' data of
               Inl ex \<Rightarrow> Raised ex
             | Inr present \<Rightarrow>
                 if \<not> present then Returned (error_response 400 ''No audio data provided'')
                 else
                   (case py_getitem data ''audioDataUri'' of
                      Inl ex \<Rightarrow> Raised ex
                    | Inr audio_data_uri \<Rightarrow>
                        (case py_split audio_data_uri CHR '','' of
                           Inl ex \<Rightarrow> Raised ex
                         | Inr parts \<Rightarrow>
                             (case unpack2 parts of
                                Inl ex \<Rightarrow> Raised ex
                              | Inr (header, base64_data) \<Rightarrow>
                                  (case b64decode e base64_data of
                                     Inl ex \<Rightarrow> Raised ex
                                   | Inr audio_binary \<Rightarrow>
                                       Value (audio_binary, mime_type_of header)))))))"

text \<open>
  The transcription request, by the modern SDK (\<open>transcribe_file\<close>) or the legacy one
  (\<open>sync_prerecorded\<close>); the same lines in \<open>speech_to_text\<close> and \<open>process_conversation\<close>.
\<close>

definition transcribe ::
  "globals \<Rightarrow> env \<Rightarrow> bytes \<Rightarrow> string \<Rightarrow> app_state \<Rightarrow> (exn + string) \<times> app_state" where
  "transcribe g e audio_binary mime_type w =
     (if MODERN_DEEPGRAM g then
        (transcribe_file e (calls w) audio_binary mime_type,
         log_call (TranscribeFile audio_binary mime_type) w)
      else
        (sync_prerecorded e (calls w) audio_binary mime_type,
         log_call (SyncPrerecorded audio_binary mime_type) w))"

definition speech_to_text_try ::
  "globals \<Rightarrow> env \<Rightarrow> request \<Rightarrow> app_state \<Rightarrow> (exn + response) \<times> app_state" where
  "speech_to_text_try g e rq w =
     (let start_time = clock rq 0 in
      case decode_audio e rq of
        Raised ex \<Rightarrow> (Inl ex, w)
      | Returned r \<Rightarrow> (Inr r, w)
      | Value (audio_binary, mime_type) \<Rightarrow>
          (let deepgram_start = clock rq 1 in
           case transcribe g e audio_binary mime_type w of
             (Inl ex, w1) \<Rightarrow> (Inl ex, w1)
           | (Inr transcript, w1) \<Rightarrow>
               (let deepgram_end = clock rq 2;
                    end_time = clock rq 3;
                    stt_latency = fsub end_time start_time;
                    deepgram_latency = fsub deepgram_end deepgram_start;
                    metric_entry =
                      [(''timestamp'', JStr (now_isoformat rq 0)),
                       (''type'', JStr ''stt''),
                       (''total_latency'', JNum (py_round2 (fmul stt_latency 1000))),
                       (''service_latency'', JNum (py_round2 (fmul deepgram_latency 1000))),
                       (''processing_overhead'',
                          JNum (py_round2 (fmul (fsub stt_latency deepgram_latency) 1000)))]
                in (Inr (200, JObj [(''transcription'', JStr transcript),
                                    (''metrics'', JObj metric_entry)]),
                    append_metric metric_entry w1))))"

definition speech_to_text ::
  "globals \<Rightarrow> env \<Rightarrow> request \<Rightarrow> app_state \<Rightarrow> response \<times> app_state" where
  "speech_to_text g e rq w =
     (if \<not> DEEPGRAM_AVAILABLE g then (error_response 500 ''Deepgram SDK not available'', w)
      else except_Exception (speech_to_text_try g e rq w))"

text \<open>The value a formatted string embeds: a string as it is, another value by \<open>str()\<close>.\<close>

definition format_value :: "env \<Rightarrow> jvalue \<Rightarrow> string" where
  "format_value e v = (case v of JStr s \<Rightarrow> s | _ \<Rightarrow> py_str e v)"

definition app_prompt :: "string \<Rightarrow> string" where
  "app_prompt transcription =
     ''You are a helpful voice assistant for a small business. '' @ [CHR 0x0A] @
     ''        The user said: '' @ [CHR 0x27] @ transcription @ [CHR 0x27] @ [CHR 0x0A] @
     ''        '' @ [CHR 0x0A] @
     ''        Respond naturally and concisely, keeping your response under 3 sentences when possible.''
       @ [CHR 0x0A] @
     ''        ''"

text \<open>\<open>groq_response.usage.completion_tokens if hasattr(groq_response, 'usage') else None\<close>\<close>

definition tokens_of :: "chat_response \<Rightarrow> jvalue" where
  "tokens_of groq_response =
     (case usage groq_response of Some n \<Rightarrow> JInt (int n) | None \<Rightarrow> JNull)"

definition generate_response_try ::
  "env \<Rightarrow> request \<Rightarrow> app_state \<Rightarrow> (exn + response) \<times> app_state" where
  "generate_response_try e rq w =
     (let start_time = clock rq 0 in
      case json rq of
        Inl ex \<Rightarrow> (Inl ex, w)
      | Inr data \<Rightarrow>
          if \<not> truthy data then (Inr (error_response 400 ''No transcription provided''), w)
          else
            (case py_in ''transcription'' data of
               Inl ex \<Rightarrow> (Inl ex, w)
             | Inr present \<Rightarrow>
                 if \<not> present then (Inr (error_response 400 ''No transcription provided''), w)
                 else
                   (case py_getitem data ''transcription'' of
                      Inl ex \<Rightarrow> (Inl ex, w)
                    | Inr transcription \<Rightarrow>
                        (let prompt = app_prompt (format_value e transcription);
                             llm_start = clock rq 1;
                             w1 = log_call (ChatCreate prompt) w
                         in case chat_create e (calls w) prompt of
                              Inl ex \<Rightarrow> (Inl ex, w1)
                            | Inr groq_response \<Rightarrow>
                                (let llm_end = clock rq 2;
                                     response_text = content groq_response;
                                     end_time = clock rq 3;
                                     llm_latency = fsub end_time start_time;
                                     groq_latency = fsub llm_end llm_start;
                                     ttft = (case usage groq_response of
                                               Some n \<Rightarrow> 0 < n
                                             | None \<Rightarrow> True);
                                     metric_entry =
                                       [(''timestamp'', JStr (now_isoformat rq 0)),
                                        (''type'', JStr ''llm''),
                                        (''total_latency'', JNum (py_round2 (fmul llm_latency 1000))),
                                        (''service_latency'', JNum (py_round2 (fmul groq_latency 1000))),
                                        (''processing_overhead'',
                                           JNum (py_round2 (fmul (fsub llm_latency groq_latency) 1000))),
                                        (''ttft'', JBool ttft),
                                        (''tokens'', tokens_of groq_response)]
                                 in (Inr (200, JObj [(''response'', JStr response_text),
                                                     (''metrics'', JObj metric_entry)]),
                                     append_metric metric_entry w1))))))"

definition generate_response :: "env \<Rightarrow> request \<Rightarrow> app_state \<Rightarrow> response \<times> app_state" where
  "generate_response e rq w = except_Exception (generate_response_try e rq w)"

definition text_to_speech_try ::
  "globals \<Rightarrow> env \<Rightarrow> request \<Rightarrow> app_state \<Rightarrow> (exn + response) \<times> app_state" where
  "text_to_speech_try g e rq w =
     (let start_time = clock rq 0 in
      case json rq of
        Inl ex \<Rightarrow> (Inl ex, w)
      | Inr data \<Rightarrow>
          if \<not> truthy data then (Inr (error_response 400 ''No text provided''), w)
          else
            (case py_in ''text'' data of
               Inl ex \<Rightarrow> (Inl ex, w)
             | Inr present \<Rightarrow>
                 if \<not> present then (Inr (error_response 400 ''No text provided''), w)
                 else
                   (case py_getitem data ''text'' of
                      Inl ex \<Rightarrow> (Inl ex, w)
                    | Inr text \<Rightarrow>
                        (case py_get data ''voiceId'' (JStr (ELEVENLABS_VOICE_ID g)) of
                           Inl ex \<Rightarrow> (Inl ex, w)
                         | Inr voice_id \<Rightarrow>
                             (let tts_start = clock rq 1;
                                  w1 = log_call (Generate text voice_id) w
                              in case generate e (calls w) text voice_id of
                                   Inl ex \<Rightarrow> (Inl ex, w1)
                                 | Inr audio \<Rightarrow>
                                     (let tts_end = clock rq 2;
                                          audio_base64 = b64encode e audio;
                                          end_time = clock rq 3;
                                          tts_latency = fsub end_time start_time;
                                          elevenlabs_latency = fsub tts_end tts_start
                                      in case py_len text of
                                           Inl ex \<Rightarrow> (Inl ex, w1)
                                         | Inr text_length \<Rightarrow>
                                             (let metric_entry =
                                                [(''timestamp'', JStr (now_isoformat rq 0)),
                                                 (''type'', JStr ''tts''),
                                                 (''total_latency'',
                                                    JNum (py_round2 (fmul tts_latency 1000))),
                                                 (''service_latency'',
                                                    JNum (py_round2 (fmul elevenlabs_latency 1000))),
                                                 (''processing_overhead'',
                                                    JNum (py_round2
                                                      (fmul (fsub tts_latency elevenlabs_latency) 1000))),
                                                 (''text_length'', JInt (int text_length))]
                                              in (Inr (200, JObj [(''audio'', JStr audio_base64),
                                                                  (''metrics'', JObj metric_entry)]),
                                                  append_metric metric_entry w1))))))))"

definition text_to_speech ::
  "globals \<Rightarrow> env \<Rightarrow> request \<Rightarrow> app_state \<Rightarrow> response \<times> app_state" where
  "text_to_speech g e rq w = except_Exception (text_to_speech_try g e rq w)"

section \<open>The conversation turn (\<open>app.py\<close>, \<open>process_conversation\<close>)\<close>

text \<open>
  The handler runs three sections in order inside one \<open>try\<close> block. Its clock readings,
  in order: 0 \<open>start_time\<close>, 1 \<open>eou_start\<close>, 2 \<open>stt_start\<close>, 3 \<open>deepgram_start\<close>,
  4 \<open>deepgram_end\<close>, 5 \<open>stt_end\<close>, 6 the reading of \<open>eou_time\<close>, 7 \<open>llm_start\<close>,
  8 \<open>groq_start\<close>, 9 \<open>groq_end\<close>, 10 \<open>llm_end\<close>, 11 the reading of \<open>ttft\<close>, 12 \<open>tts_start\<close>,
  13 \<open>elevenlabs_start\<close>, 14 \<open>elevenlabs_end\<close>, 15 \<open>tts_end\<close>, 16 the reading of \<open>ttfb\<close>,
  17 \<open>end_time\<close>.
\<close>

text \<open>Section 1, speech to text: the transcription and \<open>stt_metrics\<close>, appended to the log.\<close>

definition conversation_stt ::
  "globals \<Rightarrow> env \<Rightarrow> request \<Rightarrow> app_state \<Rightarrow> (string \<times> metric) step \<times> app_state" where
  "conversation_stt g e rq w =
     (case decode_audio e rq of
        Raised ex \<Rightarrow> (Raised ex, w)
      | Returned r \<Rightarrow> (Returned r, w)
      | Value (audio_binary, mime_type) \<Rightarrow>
          (let stt_start = clock rq 2;
               deepgram_start = clock rq 3
           in case transcribe g e audio_binary mime_type w of
                (Inl ex, w1) \<Rightarrow> (Raised ex, w1)
              | (Inr transcription, w1) \<Rightarrow>
                  (let deepgram_end = clock rq 4;
                       stt_end = clock rq 5;
                       stt_latency = fsub stt_end stt_start;
                       deepgram_latency = fsub deepgram_end deepgram_start;
                       stt_metrics =
                         [(''timestamp'', JStr (now_isoformat rq 0)),
                          (''type'', JStr ''stt''),
                          (''total_latency'', JNum (py_round2 (fmul stt_latency 1000))),
                          (''service_latency'', JNum (py_round2 (fmul deepgram_latency 1000))),
                          (''processing_overhead'',
                             JNum (py_round2 (fmul (fsub stt_latency deepgram_latency) 1000)))]
                   in (Value (transcription, stt_metrics), append_metric stt_metrics w1))))"

text \<open>
  Section 2, reply generation: the reply, \<open>llm_metrics\<close> (appended to the log) and \<open>ttft\<close>.
\<close>

definition conversation_llm ::
  "env \<Rightarrow> request \<Rightarrow> string \<Rightarrow> app_state \<Rightarrow> (exn + string \<times> metric \<times> rat) \<times> app_state" where
  "conversation_llm e rq transcription w =
     (let llm_start = clock rq 7;
          prompt = app_prompt transcription;
          groq_start = clock rq 8;
          w1 = log_call (ChatCreate prompt) w
      in case chat_create e (calls w) prompt of
           Inl ex \<Rightarrow> (Inl ex, w1)
         | Inr groq_response \<Rightarrow>
             (let groq_end = clock rq 9;
                  response_text = content groq_response;
                  llm_end = clock rq 10;
                  llm_latency = fsub llm_end llm_start;
                  groq_latency = fsub groq_end groq_start;
                  ttft = fsub (clock rq 11) llm_start;
                  llm_metrics =
                    [(''timestamp'', JStr (now_isoformat rq 1)),
                     (''type'', JStr ''llm''),
                     (''total_latency'', JNum (py_round2 (fmul llm_latency 1000))),
                     (''service_latency'', JNum (py_round2 (fmul groq_latency 1000))),
                     (''processing_overhead'',
                        JNum (py_round2 (fmul (fsub llm_latency groq_latency) 1000))),
                     (''ttft'', JBool True),
                     (''tokens'', tokens_of groq_response)]
              in (Inr (response_text, llm_metrics, ttft), append_metric llm_metrics w1)))"

text \<open>
  Section 3, speech synthesis: the audio in base64 and \<open>tts_metrics\<close>, appended to the log.
\<close>

definition conversation_tts ::
  "globals \<Rightarrow> env \<Rightarrow> request \<Rightarrow> string \<Rightarrow> app_state \<Rightarrow> (exn + string \<times> metric) \<times> app_state" where
  "conversation_tts g e rq response_text w =
     (let tts_start = clock rq 12;
          elevenlabs_start = clock rq 13;
          w1 = log_call (Generate (JStr response_text) (JStr (ELEVENLABS_VOICE_ID g))) w
      in case generate e (calls w) (JStr response_text) (JStr (ELEVENLABS_VOICE_ID g)) of
           Inl ex \<Rightarrow> (Inl ex, w1)
         | Inr audio \<Rightarrow>
             (let elevenlabs_end = clock rq 14;
                  audio_base64 = b64encode e audio;
                  tts_end = clock rq 15;
                  tts_latency = fsub tts_end tts_start;
                  elevenlabs_latency = fsub elevenlabs_end elevenlabs_start;
                  tts_metrics =
                    [(''timestamp'', JStr (now_isoformat rq 2)),
                     (''type'', JStr ''tts''),
                     (''total_latency'', JNum (py_round2 (fmul tts_latency 1000))),
                     (''service_latency'', JNum (py_round2 (fmul elevenlabs_latency 1000))),
                     (''processing_overhead'',
                        JNum (py_round2 (fmul (fsub tts_latency elevenlabs_latency) 1000))),
                     (''text_length'', JInt (int (length response_text)))]
              in (Inr (audio_base64, tts_metrics), append_metric tts_metrics w1)))"

text \<open>\<open>stt_metrics['total_latency']\<close> and its two siblings, read back for the combined record.\<close>

definition metric_field :: "metric \<Rightarrow> string \<Rightarrow> jvalue" where
  "metric_field m k = (case map_of m k of Some v \<Rightarrow> v | None \<Rightarrow> JNull)"

definition process_conversation_try ::
  "globals \<Rightarrow> env \<Rightarrow> request \<Rightarrow> app_state \<Rightarrow> (exn + response) \<times> app_state" where
  "process_conversation_try g e rq w =
     (let start_time = clock rq 0;
          eou_start = clock rq 1
      in case conversation_stt g e rq w of
           (Raised ex, w1) \<Rightarrow> (Inl ex, w1)
         | (Returned r, w1) \<Rightarrow> (Inr r, w1)
         | (Value (transcription, stt_metrics), w1) \<Rightarrow>
             (let eou_time = fsub (clock rq 6) eou_start
              in case conversation_llm e rq transcription w1 of
                   (Inl ex, w2) \<Rightarrow> (Inl ex, w2)
                 | (Inr (response_text, llm_metrics, ttft), w2) \<Rightarrow>
                     (case conversation_tts g e rq response_text w2 of
                        (Inl ex, w3) \<Rightarrow> (Inl ex, w3)
                      | (Inr (audio_base64, tts_metrics), w3) \<Rightarrow>
                          (let ttfb = fsub (clock rq 16) start_time;
                               end_time = clock rq 17;
                               total_latency = fsub end_time start_time;
                               full_metrics =
                                 [(''timestamp'', JStr (now_isoformat rq 3)),
                                  (''type'', JStr ''conversation''),
                                  (''total_latency'', JNum (py_round2 (fmul total_latency 1000))),
                                  (''eou_delay'', JNum (py_round2 (fmul eou_time 1000))),
                                  (''ttft'', JNum (py_round2 (fmul ttft 1000))),
                                  (''ttfb'', JNum (py_round2 (fmul ttfb 1000))),
                                  (''stt_latency'', metric_field stt_metrics ''total_latency''),
                                  (''llm_latency'', metric_field llm_metrics ''total_latency''),
                                  (''tts_latency'', metric_field tts_metrics ''total_latency''),
                                  (''text_length'', JInt (int (length response_text)))]
                           in (Inr (200, JObj [(''transcription'', JStr transcription),
                                               (''response'', JStr response_text),
                                               (''audio'', JStr audio_base64),
                                               (''metrics'', JObj full_metrics)]),
                               append_metric full_metrics w3)))))"

definition process_conversation ::
  "globals \<Rightarrow> env \<Rightarrow> request \<Rightarrow> app_state \<Rightarrow> response \<times> app_state" where
  "process_conversation g e rq w =
     (if \<not> DEEPGRAM_AVAILABLE g then (error_response 500 ''Deepgram SDK not available'', w)
      else except_Exception (process_conversation_try g e rq w))"

text \<open>The routes of the application.\<close>

datatype route =
    GET_metrics
  | GET_metrics_export
  | POST_api_stt
  | POST_api_llm
  | POST_api_tts
  | POST_api_conversation
  | GET_index

fun handle :: "globals \<Rightarrow> env \<Rightarrow> route \<Rightarrow> request \<Rightarrow> app_state \<Rightarrow> response \<times> app_state" where
  "handle g e GET_metrics rq w = get_metrics w"
| "handle g e GET_metrics_export rq w = export_metrics rq w"
| "handle g e POST_api_stt rq w = speech_to_text g e rq w"
| "handle g e POST_api_llm rq w = generate_response e rq w"
| "handle g e POST_api_tts rq w = text_to_speech g e rq w"
| "handle g e POST_api_conversation rq w = process_conversation g e rq w"
| "handle g e GET_index rq w = index w"

section \<open>Chunked streaming of synthesized audio (\<open>livekit_agent.py\<close>, \<open>text_stream\<close>)\<close>

definition chunk_size :: nat where
  "chunk_size = 1024"

text \<open>
  \<^verbatim>\<open>for i in range(0, len(audio_binary), chunk_size): yield audio_binary[i:i+chunk_size]\<close>
  The loop variable starts at 0 and advances by \<open>chunk_size\<close> while it is below the length;
  a slice is clipped at the end of the buffer.
\<close>

function chunk_loop :: "nat \<Rightarrow> bytes \<Rightarrow> bytes list" where
  "chunk_loop i audio_binary =
     (if i < length audio_binary
      then take chunk_size (drop i audio_binary) # chunk_loop (i + chunk_size) audio_binary
      else [])"
  by pat_completeness auto
termination
  by (relation "measure (\<lambda>(i, audio_binary). length audio_binary - i)")
     (auto simp: chunk_size_def)

declare chunk_loop.simps [simp del]

definition text_stream :: "bytes \<Rightarrow> bytes list" where
  "text_stream audio_binary = chunk_loop 0 audio_binary"

section \<open>Vendor calls of the realtime agent (\<open>agent_helpers.py\<close>)\<close>

text \<open>
  The agent's state: the frames in its \<open>AudioBuffer\<close> and the requests made to the
  services. The coroutines are run one after the other, each to its end.
\<close>

record agent_state =
  audio_buffer :: "bytes list"
  service_calls :: "call list"

definition log_service_call :: "call \<Rightarrow> agent_state \<Rightarrow> agent_state" where
  "log_service_call c s = s\<lparr>service_calls := service_calls s @ [c]\<rparr>"

text \<open>
  \<open>transcribe_audio_data\<close>: \<open>ConnectionError\<close> without a client; otherwise the request, and
  whatever it raises is raised again.
\<close>

definition transcribe_audio_data ::
  "globals \<Rightarrow> env \<Rightarrow> bytes \<Rightarrow> string \<Rightarrow> agent_state \<Rightarrow> (exn + string) \<times> agent_state" where
  "transcribe_audio_data g e audio_binary mime_type s =
     (if \<not> deepgram_client g then
        (Inl (Exn ConnectionError ''Deepgram client not initialized.''), s)
      else
        (case transcribe_file e (service_calls s) audio_binary mime_type of
           Inr transcript \<Rightarrow>
             (Inr transcript, log_service_call (TranscribeFile audio_binary mime_type) s)
         | Inl ex \<Rightarrow>
             (Inl ex, log_service_call (TranscribeFile audio_binary mime_type) s)))"

definition agent_prompt :: "string \<Rightarrow> string" where
  "agent_prompt transcription =
     ''You are a helpful voice assistant for a small business.'' @ [CHR 0x0A] @
     ''        The user said: '' @ [CHR 0x27] @ transcription @ [CHR 0x27] @ [CHR 0x0A] @
     ''        Respond naturally and concisely, keeping your response under 3 sentences when possible.''"

definition get_llm_response ::
  "globals \<Rightarrow> env \<Rightarrow> string \<Rightarrow> agent_state \<Rightarrow> (exn + string) \<times> agent_state" where
  "get_llm_response g e transcription s =
     (if \<not> groq_client g then
        (Inl (Exn ConnectionError ''Groq client not initialized.''), s)
      else
        (let prompt = agent_prompt transcription
         in case chat_create e (service_calls s) prompt of
              Inr groq_response \<Rightarrow>
                (Inr (content groq_response), log_service_call (ChatCreate prompt) s)
            | Inl ex \<Rightarrow> (Inl ex, log_service_call (ChatCreate prompt) s)))"

text \<open>
  \<open>synthesize_speech\<close>: \<open>ConnectionError\<close> without a client; otherwise
  \<open>text_to_speech.convert(voice_id, text)\<close>. An \<open>AttributeError\<close> whose text mentions
  \<open>text_to_speech\<close> or \<open>convert\<close> is answered by one call of \<open>generate\<close>, whose failure
  becomes a \<open>ConnectionError\<close>; every other exception is raised again.
\<close>

definition synthesize_speech ::
  "globals \<Rightarrow> env \<Rightarrow> string \<Rightarrow> agent_state \<Rightarrow> (exn + bytes) \<times> agent_state" where
  "synthesize_speech g e text s =
     (if \<not> elevenlabs_client g then
        (Inl (Exn ConnectionError ''ElevenLabs client not configured.''), s)
      else
        (let s1 = log_service_call (Convert (ELEVENLABS_VOICE_ID g) text) s
         in case convert e (service_calls s) (ELEVENLABS_VOICE_ID g) text of
              Inr audio_binary \<Rightarrow> (Inr audio_binary, s1)
            | Inl ae \<Rightarrow>
                if exn_cls ae = AttributeError then
                  (if contains ''text_to_speech'' (exn_str ae) \<or> contains ''convert'' (exn_str ae)
                   then
                     (let s2 = log_service_call
                                 (Generate (JStr text) (JStr (ELEVENLABS_VOICE_ID g))) s1
                      in case generate e (service_calls s1)
                                (JStr text) (JStr (ELEVENLABS_VOICE_ID g)) of
                           Inr audio_binary \<Rightarrow> (Inr audio_binary, s2)
                         | Inl e_fallback \<Rightarrow>
                             (Inl (Exn ConnectionError
                                (''ElevenLabs TTS failed after fallback: '' @ exn_str e_fallback)),
                              s2))
                   else (Inl ae, s1))
                else (Inl ae, s1)))"

section \<open>The stages of the realtime agent (\<open>livekit_agent.py\<close>, \<open>VoiceAgent\<close>)\<close>

text \<open>
  \<open>_stt_fn\<close>: without the credential the result is the empty string. Otherwise the buffer
  is reset, every frame of the stream is appended, and the wave data is transcribed;
  \<open>ConnectionError\<close> and every other exception of the transcription become a phrase.
  The frames are a finite list here, and reading them and \<open>to_wave\<close>, which stand outside
  the \<open>try\<close> block, are taken not to raise.
\<close>

definition stt_fn ::
  "globals \<Rightarrow> env \<Rightarrow> bytes list \<Rightarrow> agent_state \<Rightarrow> (exn + string) \<times> agent_state" where
  "stt_fn g e audio_stream s =
     (if \<not> key_set (DEEPGRAM_API_KEY g) then (Inr '''', s)
      else
        (let s1 = s\<lparr>audio_buffer := []\<rparr>;
             s2 = foldl (\<lambda>st frame. st\<lparr>audio_buffer := audio_buffer st @ [frame]\<rparr>) s1 audio_stream;
             audio_data = to_wave e (audio_buffer s2)
         in case transcribe_audio_data g e audio_data ''audio/wav'' s2 of
              (Inr transcription, s3) \<Rightarrow> (Inr transcription, s3)
            | (Inl ex, s3) \<Rightarrow>
                if exn_cls ex = ConnectionError
                then (Inr ''Sorry, I couldn't connect to the transcription service.'', s3)
                else (Inr ''Sorry, I had trouble understanding that.'', s3)))"

text \<open>
  \<open>_llm_fn\<close>: a phrase without the credential; a phrase, and no request, for an empty
  transcription or the phrase of a failed transcription; otherwise the reply of the
  model, or a phrase when the request raises.
\<close>

definition llm_fn ::
  "globals \<Rightarrow> env \<Rightarrow> string \<Rightarrow> agent_state \<Rightarrow> (exn + string) \<times> agent_state" where
  "llm_fn g e transcription s =
     (if \<not> key_set (GROQ_API_KEY g) then
        (Inr ''I'm sorry, I can't process your request right now.'', s)
      else if transcription = [] \<or> strip transcription = ''Sorry, I had trouble understanding that.''
      then (Inr ''I didn't catch that, could you please repeat?'', s)
      else
        (case get_llm_response g e transcription s of
           (Inr response_text, s1) \<Rightarrow> (Inr response_text, s1)
         | (Inl ex, s1) \<Rightarrow>
             if exn_cls ex = ConnectionError
             then (Inr ''Sorry, I couldn't connect to the language model.'', s1)
             else (Inr ''I'm having trouble thinking of a response.'', s1)))"

text \<open>
  \<open>_tts_fn\<close> returns an asynchronous generator: one of the four inner functions of the
  source. \<open>Text_stream\<close> holds the synthesized audio; the other three hold nothing.
\<close>

datatype audio_stream = Empty_stream | Text_stream bytes | Error_stream | Fallback_stream

text \<open>
  Lines 116 to 155: for an empty text, or one of two phrases, a fixed message is
  synthesized first and its audio dropped; when that fails, the stage returns
  \<open>empty_stream()\<close> at once (\<open>Some\<close>), otherwise it goes on (\<open>None\<close>).
\<close>

definition tts_error_text_check ::
  "globals \<Rightarrow> env \<Rightarrow> string \<Rightarrow> agent_state \<Rightarrow> audio_stream option \<times> agent_state" where
  "tts_error_text_check g e text s =
     (if text = []
         \<or> strip text = ''I didn't catch that, could you please repeat?''
         \<or> strip text = ''I'm having trouble thinking of a response.''
      then
        (case synthesize_speech g e ''I'm sorry, there was an issue.'' s of
           (Inr error_audio_binary, s1) \<Rightarrow> (None, s1)
         | (Inl e_tts_fallback, s1) \<Rightarrow> (Some Empty_stream, s1))
      else (None, s))"

definition tts_fn ::
  "globals \<Rightarrow> env \<Rightarrow> string \<Rightarrow> agent_state \<Rightarrow> (exn + audio_stream) \<times> agent_state" where
  "tts_fn g e text s =
     (if \<not> key_set (ELEVENLABS_API_KEY g) then
        (Inl (Exn ConnectionError ''TTS service not configured.''), s)
      else
        (case tts_error_text_check g e text s of
           (Some stream, s1) \<Rightarrow> (Inr stream, s1)
         | (None, s1) \<Rightarrow>
             (case synthesize_speech g e text s1 of
                (Inr audio_binary, s2) \<Rightarrow> (Inr (Text_stream audio_binary), s2)
              | (Inl ex, s2) \<Rightarrow>
                  if exn_cls ex = ConnectionError then (Inr Error_stream, s2)
                  else (Inr Fallback_stream, s2))))"

text \<open>
  The bodies of \<open>error_stream\<close> and \<open>fallback_stream\<close>: a fixed message is synthesized and
  yielded in chunks; when the synthesis raises, nothing is yielded.
\<close>

definition apology_stream ::
  "globals \<Rightarrow> env \<Rightarrow> string \<Rightarrow> agent_state \<Rightarrow> (exn + bytes list) \<times> agent_state" where
  "apology_stream g e message s =
     (case synthesize_speech g e message s of
        (Inr error_audio_binary, s1) \<Rightarrow> (Inr (chunk_loop 0 error_audio_binary), s1)
      | (Inl e_tts_error, s1) \<Rightarrow> (Inr [], s1))"

text \<open>Iterating the generator that \<open>_tts_fn\<close> returned, to its end: the chunks it yields.\<close>

fun run_stream ::
  "globals \<Rightarrow> env \<Rightarrow> audio_stream \<Rightarrow> agent_state \<Rightarrow> (exn + bytes list) \<times> agent_state" where
  "run_stream g e Empty_stream s = (Inr [], s)"
| "run_stream g e (Text_stream audio_binary) s = (Inr (text_stream audio_binary), s)"
| "run_stream g e Error_stream s =
     apology_stream g e ''I'm sorry, I couldn't generate the audio response.'' s"
| "run_stream g e Fallback_stream s =
     apology_stream g e ''There was an error with the speech synthesis.'' s"

section \<open>Reading a metrics record, and concrete environments\<close>

definition metric_type :: "metric \<Rightarrow> jvalue" where
  "metric_type m = metric_field m ''type''"

text \<open>
  One configured installation, and services that answer every request: the transcript
  \<open>hello\<close>, the reply \<open>Hi there\<close> with two completion tokens, three bytes of audio. The
  two base64 functions are those of the library at the arguments the examples use.
\<close>

definition demo_globals :: globals where
  "demo_globals =
     \<lparr>MODERN_DEEPGRAM = True, DEEPGRAM_AVAILABLE = True,
      DEEPGRAM_API_KEY = Some ''dg-key'', ELEVENLABS_API_KEY = Some ''el-key'',
      GROQ_API_KEY = Some ''gq-key'', ELEVENLABS_VOICE_ID = ''21m00Tcm4TlvDq8ikWAM'',
      deepgram_client = True, groq_client = True, elevenlabs_client = True\<rparr>"

definition demo_env :: env where
  "demo_env =
     \<lparr>transcribe_file = (\<lambda>h b m. Inr ''hello''),
      sync_prerecorded = (\<lambda>h b m. Inr ''hello''),
      chat_create = (\<lambda>h p. Inr \<lparr>content = ''Hi there'', usage = Some 2\<rparr>),
      generate = (\<lambda>h t v. Inr [1, 2, 3]),
      convert = (\<lambda>h v t. Inr [1, 2, 3]),
      b64decode = (\<lambda>s. if s = ''AAEC'' then Inr [0, 1, 2]
                        else Inl (Exn OtherException ''Incorrect padding'')),
      b64encode = (\<lambda>b. if b = [1, 2, 3] then ''AQID'' else []),
      py_str = (\<lambda>v. ''None''),
      to_wave = concat\<rparr>"

definition demo_state :: app_state where
  "demo_state = \<lparr>metrics_log = [], calls = [], files = []\<rparr>"

definition demo_agent_state :: agent_state where
  "demo_agent_state = \<lparr>audio_buffer = [], service_calls = []\<rparr>"

text \<open>
  A conversation request with a well-formed data URI. Reading \<open>k\<close> of the clock is
  taken \<open>k\<close> tenths of a second after the first.
\<close>

definition demo_request :: request where
  "demo_request =
     \<lparr>json = Inr (JObj [(''audioDataUri'', JStr ''data:audio/wav;base64,AAEC'')]),
      time_time = (\<lambda>k. of_nat k / 10),
      now_isoformat = (\<lambda>k. ''2025-01-01T00:00:00''),
      now_strftime = ''20250101_000000''\<rparr>"

text \<open>The records a handler appended: what the log holds beyond its former length.\<close>

definition appended :: "app_state \<Rightarrow> app_state \<Rightarrow> metric list" where
  "appended w w' = drop (length (metrics_log w)) (metrics_log w')"

text \<open>
  A record of one stage has the type \<open>stt\<close>, \<open>llm\<close> or \<open>tts\<close>.
  \<open>latency_fields lat svc m\<close>: the record \<open>m\<close> holds what the handlers store for the
  unrounded total latency \<open>lat\<close> and service latency \<open>svc\<close> (in seconds):
  \<open>round(lat * 1000, 2)\<close>, \<open>round(svc * 1000, 2)\<close> and \<open>round((lat - svc) * 1000, 2)\<close>.
\<close>

definition stage_record :: "metric \<Rightarrow> bool" where
  "stage_record m =
     (metric_type m = JStr ''stt'' \<or> metric_type m = JStr ''llm'' \<or> metric_type m = JStr ''tts'')"

definition latency_fields :: "rat \<Rightarrow> rat \<Rightarrow> metric \<Rightarrow> bool" where
  "latency_fields lat svc m =
     (metric_field m ''total_latency'' = JNum (py_round2 (fmul lat 1000))
      \<and> metric_field m ''service_latency'' = JNum (py_round2 (fmul svc 1000))
      \<and> metric_field m ''processing_overhead''
          = JNum (py_round2 (fmul (fsub lat svc) 1000)))"

text \<open>
  \<open>measured rq route m\<close>: the record \<open>m\<close> holds the rounded latencies of the clock
  readings that the handler of \<open>route\<close> takes around its stage and around the call of the
  service. The four single-stage handlers read the clock at the start (reading 0), before
  and after the service call (1 and 2) and at the end (3). The conversation turn reads it
  at 2, 3, 4, 5 for the transcription, at 7, 8, 9, 10 for the reply and at 12, 13, 14, 15
  for the synthesis.
\<close>

definition measured :: "request \<Rightarrow> route \<Rightarrow> metric \<Rightarrow> bool" where
  "measured rq route m =
     (if route = POST_api_conversation then
        (if metric_type m = JStr ''stt'' then
           latency_fields (fsub (clock rq 5) (clock rq 2)) (fsub (clock rq 4) (clock rq 3)) m
         else if metric_type m = JStr ''llm'' then
           latency_fields (fsub (clock rq 10) (clock rq 7)) (fsub (clock rq 9) (clock rq 8)) m
         else
           latency_fields (fsub (clock rq 15) (clock rq 12)) (fsub (clock rq 14) (clock rq 13)) m)
      else
        latency_fields (fsub (clock rq 3) (clock rq 0)) (fsub (clock rq 2) (clock rq 1)) m)"

text \<open>
  A stored number read to two decimal places, in hundredths. \<open>overhead_exact m\<close>: the
  three latencies of the record are numbers, and the overhead is the total minus the
  service latency, as doubles and read to two places. \<open>overhead_close m\<close>: read to two
  places, the overhead is within one hundredth of the total minus the service latency.
\<close>

definition hundredths :: "rat \<Rightarrow> int" where
  "hundredths v = round_half_even (v * 100)"

definition overhead_exact :: "metric \<Rightarrow> bool" where
  "overhead_exact m =
     (case (metric_field m ''processing_overhead'',
            metric_field m ''total_latency'',
            metric_field m ''service_latency'') of
        (JNum po, JNum tot, JNum svc) \<Rightarrow>
          po = fsub tot svc \<and> hundredths po = hundredths tot - hundredths svc
      | _ \<Rightarrow> False)"

definition overhead_close :: "metric \<Rightarrow> bool" where
  "overhead_close m =
     (case (metric_field m ''processing_overhead'',
            metric_field m ''total_latency'',
            metric_field m ''service_latency'') of
        (JNum po, JNum tot, JNum svc) \<Rightarrow>
          \<bar>hundredths po - (hundredths tot - hundredths svc)\<bar> \<le> 1
      | _ \<Rightarrow> False)"

text \<open>
  Services of which one is down: the synthesis refuses the reply \<open>Hi there\<close> and
  answers every other text; the chat completion refuses every request.
\<close>

definition tts_down_env :: env where
  "tts_down_env =
     demo_env\<lparr>generate := (\<lambda>h t v. if t = JStr ''Hi there''
                                     then Inl (Exn OtherException ''quota exceeded'')
                                     else Inr [1, 2, 3])\<rparr>"

definition llm_down_env :: env where
  "llm_down_env =
     demo_env\<lparr>chat_create := (\<lambda>h p. Inl (Exn OtherException ''rate limit exceeded''))\<rparr>"

text \<open>A synthesis that refuses every request, with the same text as the chat completion.\<close>

definition tts_limit_env :: env where
  "tts_limit_env =
     demo_env\<lparr>generate := (\<lambda>h t v. Inl (Exn OtherException ''rate limit exceeded''))\<rparr>"

text \<open>
  A request to \<open>/api/stt\<close> whose clock is read at 0, 0.0003, 0.500306 and 0.500354
  seconds: the transcription takes 500.006 ms of a total of 500.354 ms.
\<close>

definition rounding_request :: request where
  "rounding_request =
     demo_request\<lparr>time_time := (\<lambda>k. if k = 0 then 0
                                      else if k = 1 then 300 / 1000000
                                      else if k = 2 then 500306 / 1000000
                                      else 500354 / 1000000)\<rparr>"

text \<open>A request to \<open>/api/llm\<close> with the empty transcription.\<close>

definition empty_transcription_request :: request where
  "empty_transcription_request =
     demo_request\<lparr>json := Inr (JObj [(''transcription'', JStr '''')])\<rparr>"

text \<open>A conversation request whose data URI carries base64 text of a wrong length.\<close>

definition bad_base64_request :: request where
  "bad_base64_request =
     demo_request\<lparr>json := Inr (JObj [(''audioDataUri'', JStr ''data:audio/wav;base64,AAE'')])\<rparr>"

text \<open>
  Services for the realtime agent: a transcription that times out; a synthesis whose
  \<open>convert\<close> loses the connection for the reply \<open>Hi there\<close> and answers every other text.
\<close>

definition stt_down_env :: env where
  "stt_down_env =
     demo_env\<lparr>transcribe_file := (\<lambda>h b m. Inl (Exn OtherException ''timed out''))\<rparr>"

definition convert_down_env :: env where
  "convert_down_env =
     demo_env\<lparr>convert := (\<lambda>h v t. if t = ''Hi there''
                                    then Inl (Exn ConnectionError ''connection reset'')
                                    else Inr [4, 5, 6])\<rparr>"


text \<open>A synthesis whose \<open>convert\<close> loses the connection for every text.\<close>

definition convert_lost_env :: env where
  "convert_lost_env =
     demo_env\<lparr>convert := (\<lambda>h v t. Inl (Exn ConnectionError ''connection reset''))\<rparr>"
section \<open>Properties of the chunked stream\<close>

lemma concat_chunk_loop: "concat (chunk_loop i ab) = drop i ab"
proof (induction i ab rule: chunk_loop.induct)
  case (1 i ab)
  show ?case
  proof (cases "i < length ab")
    case True
    have "concat (chunk_loop i ab) = take chunk_size (drop i ab) @ drop (i + chunk_size) ab"
      using True "1.IH" by (subst chunk_loop.simps) simp
    also have "drop (i + chunk_size) ab = drop chunk_size (drop i ab)"
      by (simp only: drop_drop add.commute)
    also have "take chunk_size (drop i ab) @ drop chunk_size (drop i ab) = drop i ab"
      by (rule append_take_drop_id)
    finally show ?thesis .
  next
    case False
    then show ?thesis by (subst chunk_loop.simps) simp
  qed
qed

lemma ceil_div_step:
  assumes "i < (L::nat)" "0 < c"
  shows "Suc ((L - (i + c) + (c - 1)) div c) = (L - i + (c - 1)) div c"
proof (cases "i + c \<le> L")
  case True
  define d where "d = L - (i + c)"
  have L: "L = d + i + c" using True by (simp add: d_def)
  have "L - i + (c - 1) = (d + (c - 1)) + c" unfolding L by simp
  then have "(L - i + (c - 1)) div c = (d + (c - 1)) div c + 1"
    using assms(2) by (simp only: div_add_self2)
  then show ?thesis unfolding d_def by (simp only: Suc_eq_plus1)
next
  case False
  then have z: "L - (i + c) = 0" by simp
  have "(c - 1) div c = 0" using assms(2) by simp
  moreover have "(L - i + (c - 1)) div c = 1"
  proof (rule div_nat_eqI)
    show "c * 1 \<le> L - i + (c - 1)" using assms by linarith
    show "L - i + (c - 1) < c * Suc 1" using False assms by simp
  qed
  ultimately show ?thesis unfolding z by simp
qed

lemma length_chunk_loop:
  "length (chunk_loop i ab) = (length ab - i + (chunk_size - 1)) div chunk_size"
proof (induction i ab rule: chunk_loop.induct)
  case (1 i ab)
  have pos: "0 < chunk_size" by (simp add: chunk_size_def)
  show ?case
  proof (cases "i < length ab")
    case True
    have "length (chunk_loop i ab)
          = Suc ((length ab - (i + chunk_size) + (chunk_size - 1)) div chunk_size)"
      using True "1.IH" by (subst chunk_loop.simps) simp
    also have "\<dots> = (length ab - i + (chunk_size - 1)) div chunk_size"
      using True pos by (rule ceil_div_step)
    finally show ?thesis .
  next
    case False
    then have "length ab - i = 0" by simp
    moreover have "(chunk_size - 1) div chunk_size = 0" using pos by simp
    ultimately show ?thesis using False by (subst chunk_loop.simps) simp
  qed
qed

lemma ceiling_div_1024: "\<lceil>real n / 1024\<rceil> = int ((n + 1023) div 1024)"
proof -
  have "\<lceil>real n / 1024\<rceil> = \<lceil>real_of_int (int n) / real_of_int 1024\<rceil>" by simp
  also have "\<dots> = - ((- int n) div 1024)"
    by (simp only: ceiling_divide_eq_div)
  also have "\<dots> = int ((n + 1023) div 1024)"
    by (simp add: zdiv_int)
  finally show ?thesis .
qed

text \<open>
  Claim C1. For every byte string \<open>audio_binary\<close> of length \<open>L\<close> and the chunk size 1024,
  the chunks that \<open>text_stream\<close> yields concatenate to the original bytes, and there are
  \<open>ceil(L / 1024)\<close> of them: the least \<open>n\<close> with \<open>L \<le> 1024 * n\<close>, written
  \<open>(L + 1023) div 1024\<close>, which is 0 when \<open>L = 0\<close>.
\<close>

theorem text_stream_roundtrip_count:
  "concat (text_stream audio_binary) = audio_binary
   \<and> length (text_stream audio_binary) = (length audio_binary + 1023) div 1024
   \<and> int (length (text_stream audio_binary)) = \<lceil>real (length audio_binary) / 1024\<rceil>
   \<and> (if audio_binary = [] then text_stream audio_binary = [] else text_stream audio_binary \<noteq> [])"
proof -
  have c: "concat (text_stream audio_binary) = audio_binary"
    by (simp add: text_stream_def concat_chunk_loop)
  have n: "length (text_stream audio_binary) = (length audio_binary + 1023) div 1024"
    by (simp add: text_stream_def length_chunk_loop chunk_size_def)
  have r: "int (length (text_stream audio_binary)) = \<lceil>real (length audio_binary) / 1024\<rceil>"
    by (simp only: n ceiling_div_1024)
  have e: "if audio_binary = [] then text_stream audio_binary = [] else text_stream audio_binary \<noteq> []"
  proof (cases "audio_binary = []")
    case True
    then show ?thesis by (simp add: text_stream_def chunk_loop.simps)
  next
    case False
    then show ?thesis by (simp add: text_stream_def chunk_loop.simps [of 0])
  qed
  from c n r e show ?thesis by (intro conjI)
qed

theorem text_stream_roundtrip_count_witness:
  "concat (text_stream [1, 2, 3]) = [1, 2, 3] \<and> length (text_stream [1, 2, 3]) = 1
   \<and> text_stream [] = []"
  using text_stream_roundtrip_count [of "[1, 2, 3]"] text_stream_roundtrip_count [of "[]"]
  by simp

section \<open>Rounding: to hundredths, and to the nearest double\<close>

lemma round_half_even_close: "\<bar>of_int (round_half_even y) - y\<bar> \<le> 1 / 2"
proof -
  have lo: "of_int \<lfloor>y\<rfloor> \<le> y" by (rule of_int_floor_le)
  have hi: "y < of_int \<lfloor>y\<rfloor> + 1" by linarith
  show ?thesis
  proof (cases "y - of_int \<lfloor>y\<rfloor> < 1 / 2")
    case True
    then have "round_half_even y = \<lfloor>y\<rfloor>" by (simp add: round_half_even_def Let_def)
    then show ?thesis using lo True by simp
  next
    case False
    note nlt = False
    show ?thesis
    proof (cases "1 / 2 < y - of_int \<lfloor>y\<rfloor>")
      case True
      then have "round_half_even y = \<lfloor>y\<rfloor> + 1"
        using nlt by (simp add: round_half_even_def Let_def)
      then show ?thesis using hi True by simp
    next
      case False
      then have eq: "y - of_int \<lfloor>y\<rfloor> = 1 / 2" using nlt by simp
      have "round_half_even y = \<lfloor>y\<rfloor> \<or> round_half_even y = \<lfloor>y\<rfloor> + 1"
        by (simp add: round_half_even_def Let_def)
      then show ?thesis using eq by auto
    qed
  qed
qed

lemma round_half_even_unique:
  assumes "\<bar>z - of_int k\<bar> < 1 / 2"
  shows "round_half_even z = k"
proof -
  have "\<bar>(of_int (round_half_even z) :: rat) - of_int k\<bar> < 1"
    using round_half_even_close [of z] assms by linarith
  then have "\<bar>(of_int (round_half_even z - k) :: rat)\<bar> < of_int 1" by simp
  then have "(of_int \<bar>round_half_even z - k\<bar> :: rat) < of_int 1" by simp
  then have "\<bar>round_half_even z - k\<bar> < 1" by (simp only: of_int_less_iff)
  then show ?thesis by simp
qed

lemma ilog2_le:
  assumes "0 < x"
  shows "2 powi (ilog2 x) \<le> x"
proof -
  obtain p q where pq: "quotient_of x = (p, q)" by (cases "quotient_of x")
  have q: "0 < q" using pq by (rule quotient_of_denom_pos)
  have x: "x = of_int p / of_int q" using pq by (rule quotient_of_div)
  have p: "0 < p"
  proof (rule ccontr)
    assume "\<not> 0 < p"
    then have "(of_int p :: rat) \<le> 0" by simp
    then have "x \<le> 0" unfolding x using q by (simp add: divide_nonpos_pos)
    then show False using assms by simp
  qed
  define d where "d = bitlen p - bitlen q"
  show ?thesis
  proof (cases "2 powi d \<le> x")
    case True
    then show ?thesis by (simp add: ilog2_def pq d_def Let_def)
  next
    case False
    then have i: "ilog2 x = d - 1" by (simp add: ilog2_def pq d_def Let_def)
    have bp: "2 ^ nat (bitlen p - 1) \<le> p" using bitlen_bounds [OF p] by simp
    have bq: "q < 2 ^ nat (bitlen q)" using bitlen_bounds [OF q] by simp
    have p1: "1 \<le> bitlen p" using p by (auto simp: bitlen_alt_def)
    have q0: "0 \<le> bitlen q" by (rule bitlen_nonneg)
    have np: "(2::rat) powi (bitlen p - 1) = 2 ^ nat (bitlen p - 1)"
      using p1 by (simp add: power_int_def)
    have nq: "(2::rat) powi (bitlen q) = 2 ^ nat (bitlen q)"
      using q0 by (simp add: power_int_def)
    have "(2::rat) powi (d - 1) = 2 powi (bitlen p - 1) / 2 powi (bitlen q)"
      unfolding d_def using power_int_diff [of "2::rat" "bitlen p - 1" "bitlen q"]
      by (simp add: algebra_simps)
    also have "\<dots> = 2 ^ nat (bitlen p - 1) / 2 ^ nat (bitlen q)" by (simp only: np nq)
    also have "\<dots> \<le> of_int p / of_int q"
    proof (rule frac_le)
      show "(0::rat) \<le> of_int p" using p by simp
      have "(of_int (2 ^ nat (bitlen p - 1)) :: rat) \<le> of_int p"
        using bp by (simp only: of_int_le_iff)
      then show "(2::rat) ^ nat (bitlen p - 1) \<le> of_int p" by simp
      show "(0::rat) < of_int q" using q by simp
      have "(of_int q :: rat) < of_int (2 ^ nat (bitlen q))"
        using bq by (simp only: of_int_less_iff)
      then show "(of_int q :: rat) \<le> 2 ^ nat (bitlen q)" by simp
    qed
    finally have le: "(2::rat) powi (d - 1) \<le> of_int p / of_int q" .
    show ?thesis unfolding i by (subst x) (rule le)
  qed
qed

lemma ilog2_less:
  assumes "0 < x"
  shows "x < 2 powi (ilog2 x + 1)"
proof -
  obtain p q where pq: "quotient_of x = (p, q)" by (cases "quotient_of x")
  have q: "0 < q" using pq by (rule quotient_of_denom_pos)
  have x: "x = of_int p / of_int q" using pq by (rule quotient_of_div)
  have p: "0 < p"
  proof (rule ccontr)
    assume "\<not> 0 < p"
    then have "(of_int p :: rat) \<le> 0" by simp
    then have "x \<le> 0" unfolding x using q by (simp add: divide_nonpos_pos)
    then show False using assms by simp
  qed
  define d where "d = bitlen p - bitlen q"
  show ?thesis
  proof (cases "2 powi d \<le> x")
    case False
    then have "ilog2 x = d - 1" by (simp add: ilog2_def pq d_def Let_def)
    then show ?thesis using False by simp
  next
    case True
    then have i: "ilog2 x = d" by (simp add: ilog2_def pq d_def Let_def)
    have bp: "p < 2 ^ nat (bitlen p)" using bitlen_bounds [OF p] by simp
    have bq: "2 ^ nat (bitlen q - 1) \<le> q" using bitlen_bounds [OF q] by simp
    have q1: "1 \<le> bitlen q" using q by (auto simp: bitlen_alt_def)
    have p0: "0 \<le> bitlen p" by (rule bitlen_nonneg)
    have np: "(2::rat) powi (bitlen p) = 2 ^ nat (bitlen p)"
      using p0 by (simp add: power_int_def)
    have nq: "(2::rat) powi (bitlen q - 1) = 2 ^ nat (bitlen q - 1)"
      using q1 by (simp add: power_int_def)
    have P: "(of_int p :: rat) < 2 ^ nat (bitlen p)"
    proof -
      have "(of_int p :: rat) < of_int (2 ^ nat (bitlen p))"
        using bp by (simp only: of_int_less_iff)
      then show ?thesis by simp
    qed
    have Q: "(2::rat) ^ nat (bitlen q - 1) \<le> of_int q"
    proof -
      have "(of_int (2 ^ nat (bitlen q - 1)) :: rat) \<le> of_int q"
        using bq by (simp only: of_int_le_iff)
      then show ?thesis by simp
    qed
    have "(of_int p :: rat) / of_int q < 2 ^ nat (bitlen p) / 2 ^ nat (bitlen q - 1)"
    proof (rule frac_less)
      show "(0::rat) \<le> of_int p" using p by simp
      show "(of_int p :: rat) < 2 ^ nat (bitlen p)" by (rule P)
      show "(0::rat) < 2 ^ nat (bitlen q - 1)" by simp
      show "(2::rat) ^ nat (bitlen q - 1) \<le> of_int q" by (rule Q)
    qed
    also have "\<dots> = 2 powi (bitlen p) / 2 powi (bitlen q - 1)" by (simp only: np nq)
    also have "\<dots> = (2::rat) powi (d + 1)"
      unfolding d_def using power_int_diff [of "2::rat" "bitlen p" "bitlen q - 1"]
      by (simp add: algebra_simps)
    finally have lt: "(of_int p :: rat) / of_int q < 2 powi (d + 1)" .
    show ?thesis unfolding i by (subst x) (rule lt)
  qed
qed

lemma fl_error: "\<bar>fl x - x\<bar> \<le> \<bar>x\<bar> / 2 ^ 53"
proof (cases "x = 0")
  case True
  then show ?thesis by (simp add: fl_def)
next
  case False
  define P :: rat where "P = 2 powi (ilog2 \<bar>x\<bar> - 52)"
  have Ppos: "0 < P" unfolding P_def by simp
  have f: "fl x = of_int (round_half_even (x / P)) * P"
    using False by (simp add: fl_def Let_def P_def)
  have "P = 2 powi (ilog2 \<bar>x\<bar>) / 2 powi 52"
    unfolding P_def using power_int_diff [of "2::rat" "ilog2 \<bar>x\<bar>" 52] by simp
  also have "\<dots> \<le> \<bar>x\<bar> / 2 powi 52"
    using ilog2_le [of "\<bar>x\<bar>"] False by (simp add: divide_right_mono)
  finally have Ple: "P \<le> \<bar>x\<bar> / 2 ^ 52" by simp
  have "fl x - x = (of_int (round_half_even (x / P)) - x / P) * P"
    unfolding f using Ppos by (simp add: algebra_simps)
  then have "\<bar>fl x - x\<bar> = \<bar>of_int (round_half_even (x / P)) - x / P\<bar> * P"
    using Ppos by (simp add: abs_mult)
  also have "\<dots> \<le> (1 / 2) * P"
    using round_half_even_close [of "x / P"] Ppos by (intro mult_right_mono) simp_all
  also have "\<dots> \<le> (1 / 2) * (\<bar>x\<bar> / 2 ^ 52)"
    using Ple by simp
  also have "\<dots> = \<bar>x\<bar> / 2 ^ 53" by simp
  finally show ?thesis .
qed

lemma fl_error_bound:
  assumes "\<bar>x\<bar> \<le> M"
  shows "\<bar>fl x - x\<bar> \<le> M / 2 ^ 53"
proof -
  have "\<bar>x\<bar> / 2 ^ 53 \<le> M / 2 ^ 53" using assms by (simp add: divide_right_mono)
  with fl_error [of x] show ?thesis by linarith
qed

section \<open>The roundings in integer arithmetic\<close>

lemma round_half_even_divide:
  assumes "0 < b"
  shows "round_half_even (of_int a / of_int b) = rhe_div a b"
proof -
  have f: "\<lfloor>(of_int a / of_int b :: rat)\<rfloor> = a div b" by (rule floor_divide_of_int_eq)
  have b: "(of_int b :: rat) \<noteq> 0" using assms by simp
  have "b * (a div b) + a mod b = a" by simp
  then have "(of_int a :: rat) = of_int (b * (a div b) + a mod b)" by (simp only:)
  also have "\<dots> = of_int b * of_int (a div b) + of_int (a mod b)"
    by (simp only: of_int_add of_int_mult)
  finally have "(of_int a :: rat) / of_int b
                  = of_int (a div b) + of_int (a mod b) / of_int b"
    using b by (simp add: field_simps)
  then have d: "(of_int a :: rat) / of_int b - of_int (a div b) = of_int (a mod b) / of_int b"
    by simp
  have lt: "(of_int (a mod b) / of_int b < (1 / 2 :: rat)) = (2 * (a mod b) < b)"
  proof -
    have "(of_int (a mod b) / of_int b < (1 / 2 :: rat))
            = ((of_int (2 * (a mod b)) :: rat) < of_int b)"
      using assms by (simp add: field_simps)
    also have "\<dots> = (2 * (a mod b) < b)" by (simp only: of_int_less_iff)
    finally show ?thesis .
  qed
  have gt: "((1 / 2 :: rat) < of_int (a mod b) / of_int b) = (b < 2 * (a mod b))"
  proof -
    have "((1 / 2 :: rat) < of_int (a mod b) / of_int b)
            = ((of_int b :: rat) < of_int (2 * (a mod b)))"
      using assms by (simp add: field_simps)
    also have "\<dots> = (b < 2 * (a mod b))" by (simp only: of_int_less_iff)
    finally show ?thesis .
  qed
  show ?thesis
    unfolding round_half_even_def rhe_div_def Let_def f d lt gt ..
qed

lemma round_half_even_code [code]:
  "round_half_even y = (case quotient_of y of (a, b) \<Rightarrow> rhe_div a b)"
proof -
  obtain a b where ab: "quotient_of y = (a, b)" by (cases "quotient_of y")
  have b: "0 < b" using ab by (rule quotient_of_denom_pos)
  have y: "y = of_int a / of_int b" using ab by (rule quotient_of_div)
  show ?thesis unfolding ab using round_half_even_divide [OF b, of a] y by simp
qed

lemma powi_le_divide:
  assumes "0 < q"
  shows "((2::rat) powi d \<le> of_int p / of_int q)
           = (if 0 \<le> d then q * 2 ^ nat d \<le> p else q \<le> p * 2 ^ nat (- d))"
proof (cases "0 \<le> d")
  case True
  define N :: int where "N = 2 ^ nat d"
  have pw: "(2::rat) powi d = of_int N" using True by (simp add: power_int_def N_def)
  have "(of_int N \<le> (of_int p :: rat) / of_int q) = ((of_int N :: rat) * of_int q \<le> of_int p)"
    using assms by (simp add: pos_le_divide_eq)
  also have "\<dots> = ((of_int (q * N) :: rat) \<le> of_int p)" by (simp add: mult.commute)
  also have "\<dots> = (q * N \<le> p)" by (simp only: of_int_le_iff)
  finally show ?thesis unfolding pw using True by (simp add: N_def)
next
  case False
  define N :: int where "N = 2 ^ nat (- d)"
  have N: "0 < N" by (simp add: N_def)
  have pw: "(2::rat) powi d = 1 / of_int N"
    using False by (simp add: power_int_def N_def field_simps)
  have "(1 / of_int N \<le> (of_int p :: rat) / of_int q)
          = ((of_int q :: rat) \<le> of_int p * of_int N)"
    using assms N by (simp add: field_simps)
  also have "\<dots> = ((of_int q :: rat) \<le> of_int (p * N))" by simp
  also have "\<dots> = (q \<le> p * N)" by (simp only: of_int_le_iff)
  finally show ?thesis unfolding pw using False by (simp add: N_def)
qed

lemma ilog2_code [code]:
  "ilog2 x = (case quotient_of x of (p, q) \<Rightarrow> ilog2_frac p q)"
proof -
  obtain p q where pq: "quotient_of x = (p, q)" by (cases "quotient_of x")
  have q: "0 < q" using pq by (rule quotient_of_denom_pos)
  have x: "x = of_int p / of_int q" using pq by (rule quotient_of_div)
  have "ilog2 x = (let d = bitlen p - bitlen q
                   in if (2::rat) powi d \<le> of_int p / of_int q then d else d - 1)"
    unfolding ilog2_def pq using x by simp
  then show ?thesis
    unfolding pq ilog2_frac_def Let_def powi_le_divide [OF q] by simp
qed

lemma fl_code [code]:
  "fl x = (case quotient_of x of (p, q) \<Rightarrow> fl_frac p q)"
proof -
  obtain p q where pq: "quotient_of x = (p, q)" by (cases "quotient_of x")
  have q: "0 < q" using pq by (rule quotient_of_denom_pos)
  have x: "x = of_int p / of_int q" using pq by (rule quotient_of_div)
  have qa: "quotient_of \<bar>x\<bar> = (\<bar>p\<bar>, q)" using pq by (simp add: rat_abs_code)
  have il: "ilog2 \<bar>x\<bar> = ilog2_frac \<bar>p\<bar> q" by (simp add: ilog2_code qa)
  show ?thesis
  proof (cases "p = 0")
    case True
    then have "x = 0" using x by simp
    then show ?thesis using True by (simp add: fl_def pq fl_frac_def)
  next
    case False
    then have x0: "x \<noteq> 0" using x q by simp
    define e where "e = ilog2_frac \<bar>p\<bar> q - 52"
    have f: "fl x = of_int (round_half_even (x / 2 powi e)) * 2 powi e"
      using x0 by (simp add: fl_def Let_def il e_def)
    show ?thesis
    proof (cases "0 \<le> e")
      case True
      define N :: int where "N = 2 ^ nat e"
      have N: "0 < N" by (simp add: N_def)
      have pw: "(2::rat) powi e = of_int N" using True by (simp add: power_int_def N_def)
      have "x / 2 powi e = of_int p / of_int (q * N)"
        unfolding pw x by simp
      moreover have "0 < q * N" using q N by simp
      ultimately have "round_half_even (x / 2 powi e) = rhe_div p (q * N)"
        by (simp only: round_half_even_divide)
      then have "fl x = of_int (rhe_div p (q * N) * N)"
        unfolding f pw by simp
      then show ?thesis
        using False True by (simp add: pq fl_frac_def Let_def e_def N_def)
    next
      case neg: False
      define N :: int where "N = 2 ^ nat (- e)"
      have N: "0 < N" by (simp add: N_def)
      have pw: "(2::rat) powi e = 1 / of_int N"
        using neg by (simp add: power_int_def N_def field_simps)
      have "x / 2 powi e = of_int (p * N) / of_int q"
        unfolding pw x by simp
      then have "round_half_even (x / 2 powi e) = rhe_div (p * N) q"
        using q by (simp only: round_half_even_divide)
      then have "fl x = of_int (rhe_div (p * N) q) / of_int N"
        unfolding f pw by simp
      also have "\<dots> = Fract (rhe_div (p * N) q) N"
        by (simp only: Fract_of_int_quotient)
      finally show ?thesis
        using False neg by (simp add: pq fl_frac_def Let_def e_def N_def)
    qed
  qed
qed

text \<open>
  Two values of the model: the double nearest to 1/10, and a reading of 0.000165 s, which
  as a double times 1000 lies above 0.165 and is stored as 0.17.
\<close>

lemma fl_one_tenth: "fl (1 / 10) = 3602879701896397 / 36028797018963968"
  by code_simp

lemma py_round2_above_tie: "py_round2 (fmul (fl (165 / 1000000)) 1000) = fl (17 / 100)"
  by code_simp
section \<open>Rounding to two places, on doubles\<close>

lemma hundredths_py_round2:
  assumes "\<bar>y\<bar> \<le> 2 ^ 44"
  shows "hundredths (py_round2 y) = round_half_even (y * 100)"
proof -
  define k where "k = round_half_even (y * 100)"
  have c: "\<bar>of_int k - y * 100\<bar> \<le> 1 / 2" unfolding k_def by (rule round_half_even_close)
  have "\<bar>(of_int k :: rat)\<bar> \<le> 100 * 2 ^ 44 + 1 / 2"
    using c assms unfolding abs_le_iff abs_less_iff by (simp; linarith?)
  then have "\<bar>(of_int k :: rat) / 100\<bar> \<le> 2 ^ 45"
    unfolding abs_le_iff abs_less_iff by (simp; linarith?)
  from fl_error_bound [OF this]
  have "\<bar>fl (of_int k / 100) - of_int k / 100\<bar> \<le> 2 ^ 45 / 2 ^ 53" .
  then have "\<bar>fl (of_int k / 100) * 100 - of_int k\<bar> < 1 / 2"
    unfolding abs_le_iff abs_less_iff by (simp; linarith?)
  then have "round_half_even (fl (of_int k / 100) * 100) = k" by (rule round_half_even_unique)
  then show ?thesis by (simp add: hundredths_def py_round2_def k_def)
qed

lemma rounded_difference_close:
  assumes lat: "\<bar>lat\<bar> \<le> 2 ^ 32" and svc: "\<bar>svc\<bar> \<le> 2 ^ 32"
  shows "\<bar>hundredths (py_round2 (fmul (fsub lat svc) 1000))
          - (hundredths (py_round2 (fmul lat 1000)) - hundredths (py_round2 (fmul svc 1000)))\<bar>
         \<le> 1"
proof -
  define A where "A = fmul lat 1000"
  define B where "B = fmul svc 1000"
  define D where "D = fsub lat svc"
  define C where "C = fmul D 1000"
  define ka where "ka = round_half_even (A * 100)"
  define kb where "kb = round_half_even (B * 100)"
  define kc where "kc = round_half_even (C * 100)"
  have "\<bar>lat * 1000\<bar> \<le> 1000 * 2 ^ 32"
    using lat unfolding abs_le_iff abs_less_iff by (simp; linarith?)
  from fl_error_bound [OF this]
  have eA: "\<bar>A - lat * 1000\<bar> \<le> 1000 * 2 ^ 32 / 2 ^ 53" by (simp add: A_def fmul_def)
  have "\<bar>svc * 1000\<bar> \<le> 1000 * 2 ^ 32"
    using svc unfolding abs_le_iff abs_less_iff by (simp; linarith?)
  from fl_error_bound [OF this]
  have eB: "\<bar>B - svc * 1000\<bar> \<le> 1000 * 2 ^ 32 / 2 ^ 53" by (simp add: B_def fmul_def)
  have "\<bar>lat - svc\<bar> \<le> 2 ^ 33"
    using lat svc unfolding abs_le_iff abs_less_iff by (simp; linarith?)
  from fl_error_bound [OF this]
  have eD: "\<bar>D - (lat - svc)\<bar> \<le> 2 ^ 33 / 2 ^ 53" by (simp add: D_def fsub_def)
  have bD: "\<bar>D\<bar> \<le> 2 ^ 34"
    using eD lat svc unfolding abs_le_iff abs_less_iff by (simp; linarith?)
  have "\<bar>D * 1000\<bar> \<le> 1000 * 2 ^ 34"
    using bD unfolding abs_le_iff abs_less_iff by (simp; linarith?)
  from fl_error_bound [OF this]
  have eC: "\<bar>C - D * 1000\<bar> \<le> 1000 * 2 ^ 34 / 2 ^ 53" by (simp add: C_def fmul_def)
  have bA: "\<bar>A\<bar> \<le> 2 ^ 44"
    using eA lat unfolding abs_le_iff abs_less_iff by (simp; linarith?)
  have bB: "\<bar>B\<bar> \<le> 2 ^ 44"
    using eB svc unfolding abs_le_iff abs_less_iff by (simp; linarith?)
  have bC: "\<bar>C\<bar> \<le> 2 ^ 44"
    using eC bD unfolding abs_le_iff abs_less_iff by (simp; linarith?)
  have ha: "hundredths (py_round2 A) = ka" unfolding ka_def using bA by (rule hundredths_py_round2)
  have hb: "hundredths (py_round2 B) = kb" unfolding kb_def using bB by (rule hundredths_py_round2)
  have hc: "hundredths (py_round2 C) = kc" unfolding kc_def using bC by (rule hundredths_py_round2)
  have ra: "\<bar>of_int ka - A * 100\<bar> \<le> 1 / 2" unfolding ka_def by (rule round_half_even_close)
  have rb: "\<bar>of_int kb - B * 100\<bar> \<le> 1 / 2" unfolding kb_def by (rule round_half_even_close)
  have rc: "\<bar>of_int kc - C * 100\<bar> \<le> 1 / 2" unfolding kc_def by (rule round_half_even_close)
  have "\<bar>(of_int kc :: rat) - (of_int ka - of_int kb)\<bar> < 2"
    using ra rb rc eA eB eC eD unfolding abs_le_iff abs_less_iff by (simp; linarith?)
  then have "\<bar>(of_int (kc - (ka - kb)) :: rat)\<bar> < 2" by simp
  then have "(of_int \<bar>kc - (ka - kb)\<bar> :: rat) < of_int 2" by simp
  then have "\<bar>kc - (ka - kb)\<bar> < 2" by (simp only: of_int_less_iff)
  then have "\<bar>kc - (ka - kb)\<bar> \<le> 1" by simp
  then show ?thesis
    using ha hb hc by (simp add: A_def B_def C_def D_def)
qed

lemma latency_fields_close:
  assumes "latency_fields lat svc m" "\<bar>lat\<bar> \<le> 2 ^ 32" "\<bar>svc\<bar> \<le> 2 ^ 32"
  shows "overhead_close m"
  using assms(1) rounded_difference_close [OF assms(2,3)]
  by (simp add: latency_fields_def overhead_close_def)

text \<open>
  Clock readings between 0 and 4 * 10^9 seconds (the seconds since 1970 of every day
  until 2096) differ, as doubles, by at most 2^32 seconds.
\<close>

lemma clock_range:
  assumes "0 \<le> time_time rq k" "time_time rq k \<le> 4000000000"
  shows "0 \<le> clock rq k \<and> clock rq k \<le> 4000000001"
proof -
  have "\<bar>time_time rq k\<bar> \<le> 4000000000" using assms by simp
  from fl_error_bound [OF this]
  have "\<bar>clock rq k - time_time rq k\<bar> \<le> 4000000000 / 2 ^ 53" by (simp add: clock_def)
  moreover have "\<bar>clock rq k - time_time rq k\<bar> \<le> \<bar>time_time rq k\<bar> / 2 ^ 53"
    unfolding clock_def by (rule fl_error)
  ultimately show ?thesis
    using assms unfolding abs_le_iff abs_less_iff by (simp; linarith?)
qed

lemma clock_difference:
  assumes "\<forall>k. 0 \<le> time_time rq k \<and> time_time rq k \<le> 4000000000"
  shows "\<bar>fsub (clock rq i) (clock rq j)\<bar> \<le> 2 ^ 32"
proof -
  have i: "0 \<le> clock rq i \<and> clock rq i \<le> 4000000001"
    using assms by (intro clock_range) simp_all
  have j: "0 \<le> clock rq j \<and> clock rq j \<le> 4000000001"
    using assms by (intro clock_range) simp_all
  have "\<bar>clock rq i - clock rq j\<bar> \<le> 4000000001" using i j by (simp add: abs_le_iff)
  from fl_error_bound [OF this]
  have "\<bar>fsub (clock rq i) (clock rq j) - (clock rq i - clock rq j)\<bar> \<le> 4000000001 / 2 ^ 53"
    by (simp add: fsub_def)
  then show ?thesis
    using i j unfolding abs_le_iff abs_less_iff by (simp; linarith?)
qed

lemma measured_close:
  assumes "measured rq route m"
    and "\<forall>k. 0 \<le> time_time rq k \<and> time_time rq k \<le> 4000000000"
  shows "overhead_close m"
  using assms(1) clock_difference [OF assms(2)]
  by (auto simp: measured_def intro: latency_fields_close split: if_splits)
section \<open>The sections of the conversation turn, by the answers of the services\<close>

lemma log_call_simps [simp]:
  "calls (log_call c w) = calls w @ [c]"
  "metrics_log (log_call c w) = metrics_log w"
  "files (log_call c w) = files w"
  by (simp_all add: log_call_def)

lemma append_metric_simps [simp]:
  "calls (append_metric m w) = calls w"
  "metrics_log (append_metric m w) = metrics_log w @ [m]"
  "files (append_metric m w) = files w"
  by (simp_all add: append_metric_def)

lemma metric_type_cons [simp]:
  "metric_type ((''timestamp'', ts) # (''type'', ty) # rest) = ty"
  by (simp add: metric_type_def metric_field_def)

lemma decode_audio_Returned:
  "decode_audio e rq = Returned r \<Longrightarrow> r = error_response 400 ''No audio data provided''"
  by (auto simp: decode_audio_def split: sum.splits if_splits list.splits prod.splits)

lemma decode_audio_missing:
  "json rq = Inr data \<Longrightarrow> \<not> truthy data \<or> py_in ''audioDataUri'' data = Inr False \<Longrightarrow>
     decode_audio e rq = Returned (error_response 400 ''No audio data provided'')"
  by (auto simp: decode_audio_def)

lemma decode_audio_Returned_missing:
  "decode_audio e rq = Returned r \<Longrightarrow>
     \<exists>data. json rq = Inr data
          \<and> (\<not> truthy data \<or> py_in ''audioDataUri'' data = Inr False)"
  by (auto simp: decode_audio_def split: sum.splits if_splits prod.splits)

lemma decode_audio_json_raises:
  "json rq = Inl ex \<Longrightarrow> decode_audio e rq = Raised ex"
  by (simp add: decode_audio_def)

lemma decode_audio_key_raises:
  "json rq = Inr data \<Longrightarrow> truthy data \<Longrightarrow> py_in ''audioDataUri'' data = Inl ex \<Longrightarrow>
     decode_audio e rq = Raised ex"
  by (simp add: decode_audio_def)

lemma decode_audio_split_raises:
  "json rq = Inr data \<Longrightarrow> truthy data \<Longrightarrow> py_in ''audioDataUri'' data = Inr True \<Longrightarrow>
   py_getitem data ''audioDataUri'' = Inr v \<Longrightarrow> py_split v CHR '','' = Inl ex \<Longrightarrow>
     decode_audio e rq = Raised ex"
  by (simp add: decode_audio_def)

lemma decode_audio_unpack_raises:
  "json rq = Inr data \<Longrightarrow> truthy data \<Longrightarrow> py_in ''audioDataUri'' data = Inr True \<Longrightarrow>
   py_getitem data ''audioDataUri'' = Inr v \<Longrightarrow> py_split v CHR '','' = Inr parts \<Longrightarrow>
   unpack2 parts = Inl ex \<Longrightarrow>
     decode_audio e rq = Raised ex"
  by (simp add: decode_audio_def)

lemma decode_audio_b64_raises:
  "json rq = Inr data \<Longrightarrow> truthy data \<Longrightarrow> py_in ''audioDataUri'' data = Inr True \<Longrightarrow>
   py_getitem data ''audioDataUri'' = Inr v \<Longrightarrow> py_split v CHR '','' = Inr parts \<Longrightarrow>
   unpack2 parts = Inr (header, base64_data) \<Longrightarrow> b64decode e base64_data = Inl ex \<Longrightarrow>
     decode_audio e rq = Raised ex"
  by (simp add: decode_audio_def)

lemma transcribe_metrics_log:
  "transcribe g e ab mt w = (res, w1) \<Longrightarrow> metrics_log w1 = metrics_log w"
  by (auto simp: transcribe_def split: if_splits)

lemma conversation_stt_Raised:
  "decode_audio e rq = Raised ex \<Longrightarrow> conversation_stt g e rq w = (Raised ex, w)"
  by (simp add: conversation_stt_def)

lemma conversation_stt_Returned:
  "decode_audio e rq = Returned r \<Longrightarrow> conversation_stt g e rq w = (Returned r, w)"
  by (simp add: conversation_stt_def)

lemma conversation_stt_fail:
  "decode_audio e rq = Value (ab, mt) \<Longrightarrow> transcribe g e ab mt w = (Inl ex, w1) \<Longrightarrow>
     conversation_stt g e rq w = (Raised ex, w1)"
  by (simp add: conversation_stt_def Let_def)

lemma conversation_stt_ok:
  "decode_audio e rq = Value (ab, mt) \<Longrightarrow> transcribe g e ab mt w = (Inr t, w1) \<Longrightarrow>
     \<exists>m1. conversation_stt g e rq w = (Value (t, m1), append_metric m1 w1)
          \<and> metric_type m1 = JStr ''stt''
          \<and> latency_fields (fsub (clock rq 5) (clock rq 2)) (fsub (clock rq 4) (clock rq 3)) m1"
  by (simp add: conversation_stt_def Let_def latency_fields_def metric_field_def)

lemma conversation_llm_fail:
  "chat_create e (calls w) (app_prompt t) = Inl ex \<Longrightarrow>
     conversation_llm e rq t w = (Inl ex, log_call (ChatCreate (app_prompt t)) w)"
  by (simp add: conversation_llm_def Let_def)

lemma conversation_llm_ok:
  "chat_create e (calls w) (app_prompt t) = Inr gr \<Longrightarrow>
     \<exists>m2 tt. conversation_llm e rq t w
               = (Inr (content gr, m2, tt), append_metric m2 (log_call (ChatCreate (app_prompt t)) w))
          \<and> metric_type m2 = JStr ''llm''
          \<and> latency_fields (fsub (clock rq 10) (clock rq 7)) (fsub (clock rq 9) (clock rq 8)) m2"
  by (simp add: conversation_llm_def Let_def latency_fields_def metric_field_def)

lemma conversation_tts_fail:
  "generate e (calls w) (JStr r) (JStr (ELEVENLABS_VOICE_ID g)) = Inl ex \<Longrightarrow>
     conversation_tts g e rq r w
       = (Inl ex, log_call (Generate (JStr r) (JStr (ELEVENLABS_VOICE_ID g))) w)"
  by (simp add: conversation_tts_def Let_def)

lemma conversation_tts_ok:
  "generate e (calls w) (JStr r) (JStr (ELEVENLABS_VOICE_ID g)) = Inr audio \<Longrightarrow>
     \<exists>m3. conversation_tts g e rq r w
             = (Inr (b64encode e audio, m3),
                append_metric m3 (log_call (Generate (JStr r) (JStr (ELEVENLABS_VOICE_ID g))) w))
          \<and> metric_type m3 = JStr ''tts''
          \<and> latency_fields (fsub (clock rq 15) (clock rq 12)) (fsub (clock rq 14) (clock rq 13)) m3"
  by (simp add: conversation_tts_def Let_def latency_fields_def metric_field_def)

lemma process_conversation_unavailable:
  "\<not> DEEPGRAM_AVAILABLE g \<Longrightarrow>
     process_conversation g e rq w = (error_response 500 ''Deepgram SDK not available'', w)"
  by (simp add: process_conversation_def)

lemma process_conversation_raised:
  "DEEPGRAM_AVAILABLE g \<Longrightarrow> decode_audio e rq = Raised ex \<Longrightarrow>
     process_conversation g e rq w = (error_response 500 (exn_str ex), w)"
  by (simp add: process_conversation_def process_conversation_try_def
        conversation_stt_Raised except_Exception_def)

lemma process_conversation_returned:
  "DEEPGRAM_AVAILABLE g \<Longrightarrow> decode_audio e rq = Returned r \<Longrightarrow>
     process_conversation g e rq w = (error_response 400 ''No audio data provided'', w)"
  using decode_audio_Returned [of e rq r]
  by (simp add: process_conversation_def process_conversation_try_def
        conversation_stt_Returned except_Exception_def)

lemma process_conversation_stt_fail:
  "DEEPGRAM_AVAILABLE g \<Longrightarrow> decode_audio e rq = Value (ab, mt) \<Longrightarrow>
   transcribe g e ab mt w = (Inl ex, w1) \<Longrightarrow>
     process_conversation g e rq w = (error_response 500 (exn_str ex), w1)"
  by (simp add: process_conversation_def process_conversation_try_def
        conversation_stt_fail except_Exception_def)

lemma process_conversation_llm_fail:
  assumes "DEEPGRAM_AVAILABLE g" "decode_audio e rq = Value (ab, mt)"
    and "transcribe g e ab mt w = (Inr t, w1)"
    and "chat_create e (calls w1) (app_prompt t) = Inl ex"
  shows "\<exists>m1. process_conversation g e rq w
                 = (error_response 500 (exn_str ex),
                    log_call (ChatCreate (app_prompt t)) (append_metric m1 w1))
              \<and> metric_type m1 = JStr ''stt'' \<and> latency_fields (fsub (clock rq 5) (clock rq 2)) (fsub (clock rq 4) (clock rq 3)) m1"
proof -
  obtain m1 where s: "conversation_stt g e rq w = (Value (t, m1), append_metric m1 w1)"
    and m1: "metric_type m1 = JStr ''stt''" "latency_fields (fsub (clock rq 5) (clock rq 2)) (fsub (clock rq 4) (clock rq 3)) m1"
    using conversation_stt_ok [OF assms(2,3)] by blast
  have l: "conversation_llm e rq t (append_metric m1 w1)
             = (Inl ex, log_call (ChatCreate (app_prompt t)) (append_metric m1 w1))"
    using assms(4) by (intro conversation_llm_fail) simp
  have "process_conversation g e rq w
          = (error_response 500 (exn_str ex),
             log_call (ChatCreate (app_prompt t)) (append_metric m1 w1))"
    using assms(1) by (simp add: process_conversation_def process_conversation_try_def
        s l except_Exception_def)
  with m1 show ?thesis by blast
qed

lemma process_conversation_tts_fail:
  assumes "DEEPGRAM_AVAILABLE g" "decode_audio e rq = Value (ab, mt)"
    and "transcribe g e ab mt w = (Inr t, w1)"
    and "chat_create e (calls w1) (app_prompt t) = Inr gr"
    and "generate e (calls w1 @ [ChatCreate (app_prompt t)])
           (JStr (content gr)) (JStr (ELEVENLABS_VOICE_ID g)) = Inl ex"
  shows "\<exists>m1 m2. process_conversation g e rq w
                 = (error_response 500 (exn_str ex),
                    log_call (Generate (JStr (content gr)) (JStr (ELEVENLABS_VOICE_ID g)))
                      (append_metric m2
                        (log_call (ChatCreate (app_prompt t)) (append_metric m1 w1))))
              \<and> metric_type m1 = JStr ''stt'' \<and> latency_fields (fsub (clock rq 5) (clock rq 2)) (fsub (clock rq 4) (clock rq 3)) m1
              \<and> metric_type m2 = JStr ''llm'' \<and> latency_fields (fsub (clock rq 10) (clock rq 7)) (fsub (clock rq 9) (clock rq 8)) m2"
proof -
  obtain m1 where s: "conversation_stt g e rq w = (Value (t, m1), append_metric m1 w1)"
    and m1: "metric_type m1 = JStr ''stt''" "latency_fields (fsub (clock rq 5) (clock rq 2)) (fsub (clock rq 4) (clock rq 3)) m1"
    using conversation_stt_ok [OF assms(2,3)] by blast
  define w2 where "w2 = log_call (ChatCreate (app_prompt t)) (append_metric m1 w1)"
  have "chat_create e (calls (append_metric m1 w1)) (app_prompt t) = Inr gr"
    using assms(4) by simp
  from conversation_llm_ok [OF this, of rq]
  obtain m2 tt where l: "conversation_llm e rq t (append_metric m1 w1)
                          = (Inr (content gr, m2, tt), append_metric m2 w2)"
    and m2: "metric_type m2 = JStr ''llm''" "latency_fields (fsub (clock rq 10) (clock rq 7)) (fsub (clock rq 9) (clock rq 8)) m2"
    unfolding w2_def by blast
  have "generate e (calls (append_metric m2 w2)) (JStr (content gr))
          (JStr (ELEVENLABS_VOICE_ID g)) = Inl ex"
    using assms(5) by (simp add: w2_def)
  from conversation_tts_fail [OF this, of rq]
  have t: "conversation_tts g e rq (content gr) (append_metric m2 w2)
            = (Inl ex, log_call (Generate (JStr (content gr)) (JStr (ELEVENLABS_VOICE_ID g)))
                        (append_metric m2 w2))" .
  have "process_conversation g e rq w
          = (error_response 500 (exn_str ex),
             log_call (Generate (JStr (content gr)) (JStr (ELEVENLABS_VOICE_ID g)))
               (append_metric m2 w2))"
    using assms(1) by (simp add: process_conversation_def process_conversation_try_def
        s l t except_Exception_def)
  with m1 m2 show ?thesis unfolding w2_def by blast
qed

lemma process_conversation_ok:
  assumes "DEEPGRAM_AVAILABLE g" "decode_audio e rq = Value (ab, mt)"
    and "transcribe g e ab mt w = (Inr t, w1)"
    and "chat_create e (calls w1) (app_prompt t) = Inr gr"
    and "generate e (calls w1 @ [ChatCreate (app_prompt t)])
           (JStr (content gr)) (JStr (ELEVENLABS_VOICE_ID g)) = Inr audio"
  shows "\<exists>m1 m2 m3 m4. process_conversation g e rq w
                 = ((200, JObj [(''transcription'', JStr t),
                                (''response'', JStr (content gr)),
                                (''audio'', JStr (b64encode e audio)),
                                (''metrics'', JObj m4)]),
                    append_metric m4
                     (append_metric m3
                      (log_call (Generate (JStr (content gr)) (JStr (ELEVENLABS_VOICE_ID g)))
                        (append_metric m2
                          (log_call (ChatCreate (app_prompt t)) (append_metric m1 w1))))))
              \<and> metric_type m1 = JStr ''stt'' \<and> latency_fields (fsub (clock rq 5) (clock rq 2)) (fsub (clock rq 4) (clock rq 3)) m1
              \<and> metric_type m2 = JStr ''llm'' \<and> latency_fields (fsub (clock rq 10) (clock rq 7)) (fsub (clock rq 9) (clock rq 8)) m2
              \<and> metric_type m3 = JStr ''tts'' \<and> latency_fields (fsub (clock rq 15) (clock rq 12)) (fsub (clock rq 14) (clock rq 13)) m3
              \<and> metric_type m4 = JStr ''conversation''"
proof -
  obtain m1 where s: "conversation_stt g e rq w = (Value (t, m1), append_metric m1 w1)"
    and m1: "metric_type m1 = JStr ''stt''" "latency_fields (fsub (clock rq 5) (clock rq 2)) (fsub (clock rq 4) (clock rq 3)) m1"
    using conversation_stt_ok [OF assms(2,3)] by blast
  define w2 where "w2 = log_call (ChatCreate (app_prompt t)) (append_metric m1 w1)"
  have "chat_create e (calls (append_metric m1 w1)) (app_prompt t) = Inr gr"
    using assms(4) by simp
  from conversation_llm_ok [OF this, of rq]
  obtain m2 tt where l: "conversation_llm e rq t (append_metric m1 w1)
                          = (Inr (content gr, m2, tt), append_metric m2 w2)"
    and m2: "metric_type m2 = JStr ''llm''" "latency_fields (fsub (clock rq 10) (clock rq 7)) (fsub (clock rq 9) (clock rq 8)) m2"
    unfolding w2_def by blast
  define w3 where
    "w3 = log_call (Generate (JStr (content gr)) (JStr (ELEVENLABS_VOICE_ID g))) (append_metric m2 w2)"
  have "generate e (calls (append_metric m2 w2)) (JStr (content gr))
          (JStr (ELEVENLABS_VOICE_ID g)) = Inr audio"
    using assms(5) by (simp add: w2_def)
  from conversation_tts_ok [OF this, of rq]
  obtain m3 where t: "conversation_tts g e rq (content gr) (append_metric m2 w2)
            = (Inr (b64encode e audio, m3), append_metric m3 w3)"
    and m3: "metric_type m3 = JStr ''tts''" "latency_fields (fsub (clock rq 15) (clock rq 12)) (fsub (clock rq 14) (clock rq 13)) m3"
    unfolding w3_def by blast
  have "\<exists>m4. process_conversation g e rq w
          = ((200, JObj [(''transcription'', JStr t),
                         (''response'', JStr (content gr)),
                         (''audio'', JStr (b64encode e audio)),
                         (''metrics'', JObj m4)]),
             append_metric m4 (append_metric m3 w3))
         \<and> metric_type m4 = JStr ''conversation''"
    using assms(1) by (simp add: process_conversation_def process_conversation_try_def
        s l t except_Exception_def Let_def)
  with m1 m2 m3 show ?thesis unfolding w2_def w3_def by blast
qed

lemma process_conversation_summary:
  assumes pc: "process_conversation g e rq w = ((status, body), w')"
  shows "\<exists>new. metrics_log w' = metrics_log w @ new
           \<and> (\<forall>m\<in>set new. stage_record m \<longrightarrow> measured rq POST_api_conversation m)
           \<and> ((status = 200
                 \<and> (\<exists>t r a m. body = JObj [(''transcription'', JStr t), (''response'', JStr r),
                                            (''audio'', JStr a), (''metrics'', JObj m)])
                 \<and> map metric_type new
                     = [JStr ''stt'', JStr ''llm'', JStr ''tts'', JStr ''conversation''])
              \<or> ((status = 400 \<or> status = 500)
                 \<and> (\<exists>msg. body = JObj [(''error'', JStr msg)])
                 \<and> (map metric_type new = []
                      \<or> map metric_type new = [JStr ''stt'']
                      \<or> map metric_type new = [JStr ''stt'', JStr ''llm''])))"
proof (cases "DEEPGRAM_AVAILABLE g")
  case False
  from process_conversation_unavailable [OF False, of e rq w] pc
  have "status = 500" "body = JObj [(''error'', JStr ''Deepgram SDK not available'')]" "w' = w"
    by (simp_all add: error_response_def)
  then show ?thesis by (intro exI [of _ "[]"]) simp
next
  case avail: True
  show ?thesis
  proof (cases "decode_audio e rq")
    case (Raised ex)
    from process_conversation_raised [OF avail Raised, of w] pc
    have "status = 500" "body = JObj [(''error'', JStr (exn_str ex))]" "w' = w"
      by (simp_all add: error_response_def)
    then show ?thesis by (intro exI [of _ "[]"]) simp
  next
    case (Returned r)
    from process_conversation_returned [OF avail Returned, of w] pc
    have "status = 400" "body = JObj [(''error'', JStr ''No audio data provided'')]" "w' = w"
      by (simp_all add: error_response_def)
    then show ?thesis by (intro exI [of _ "[]"]) simp
  next
    case (Value v)
    obtain ab mt where v: "v = (ab, mt)" by (cases v)
    obtain res w1 where tr: "transcribe g e ab mt w = (res, w1)" by (cases "transcribe g e ab mt w")
    have log1: "metrics_log w1 = metrics_log w" using tr by (rule transcribe_metrics_log)
    note dec = Value [unfolded v]
    show ?thesis
    proof (cases res)
      case (Inl ex)
      from process_conversation_stt_fail [OF avail dec tr [unfolded Inl]] pc
      have "status = 500" "body = JObj [(''error'', JStr (exn_str ex))]" "w' = w1"
        by (simp_all add: error_response_def)
      then show ?thesis using log1 by (intro exI [of _ "[]"]) simp
    next
      case (Inr t)
      note tr' = tr [unfolded Inr]
      show ?thesis
      proof (cases "chat_create e (calls w1) (app_prompt t)")
        case (Inl ex)
        from process_conversation_llm_fail [OF avail dec tr' Inl]
        obtain m1 where r: "process_conversation g e rq w
                 = (error_response 500 (exn_str ex),
                    log_call (ChatCreate (app_prompt t)) (append_metric m1 w1))"
          and m1: "metric_type m1 = JStr ''stt''" "latency_fields (fsub (clock rq 5) (clock rq 2)) (fsub (clock rq 4) (clock rq 3)) m1" by blast
        from r pc
        have "status = 500" "body = JObj [(''error'', JStr (exn_str ex))]"
          "metrics_log w' = metrics_log w @ [m1]"
          using log1 by (auto simp: error_response_def)
        then show ?thesis using m1 by (intro exI [of _ "[m1]"]) (simp add: measured_def)
      next
        case (Inr gr)
        note chat = Inr
        show ?thesis
        proof (cases "generate e (calls w1 @ [ChatCreate (app_prompt t)])
                        (JStr (content gr)) (JStr (ELEVENLABS_VOICE_ID g))")
          case (Inl ex)
          from process_conversation_tts_fail [OF avail dec tr' chat Inl]
          obtain m1 m2 where r: "process_conversation g e rq w
                 = (error_response 500 (exn_str ex),
                    log_call (Generate (JStr (content gr)) (JStr (ELEVENLABS_VOICE_ID g)))
                      (append_metric m2
                        (log_call (ChatCreate (app_prompt t)) (append_metric m1 w1))))"
            and m: "metric_type m1 = JStr ''stt''" "latency_fields (fsub (clock rq 5) (clock rq 2)) (fsub (clock rq 4) (clock rq 3)) m1"
                   "metric_type m2 = JStr ''llm''" "latency_fields (fsub (clock rq 10) (clock rq 7)) (fsub (clock rq 9) (clock rq 8)) m2" by blast
          from r pc
          have "status = 500" "body = JObj [(''error'', JStr (exn_str ex))]"
            "metrics_log w' = metrics_log w @ [m1, m2]"
            using log1 by (auto simp: error_response_def)
          then show ?thesis using m by (intro exI [of _ "[m1, m2]"]) (simp add: measured_def)
        next
          case (Inr audio)
          from process_conversation_ok [OF avail dec tr' chat Inr]
          obtain m1 m2 m3 m4 where r: "process_conversation g e rq w
                 = ((200, JObj [(''transcription'', JStr t),
                                (''response'', JStr (content gr)),
                                (''audio'', JStr (b64encode e audio)),
                                (''metrics'', JObj m4)]),
                    append_metric m4
                     (append_metric m3
                      (log_call (Generate (JStr (content gr)) (JStr (ELEVENLABS_VOICE_ID g)))
                        (append_metric m2
                          (log_call (ChatCreate (app_prompt t)) (append_metric m1 w1))))))"
            and m: "metric_type m1 = JStr ''stt''" "latency_fields (fsub (clock rq 5) (clock rq 2)) (fsub (clock rq 4) (clock rq 3)) m1"
                   "metric_type m2 = JStr ''llm''" "latency_fields (fsub (clock rq 10) (clock rq 7)) (fsub (clock rq 9) (clock rq 8)) m2"
                   "metric_type m3 = JStr ''tts''" "latency_fields (fsub (clock rq 15) (clock rq 12)) (fsub (clock rq 14) (clock rq 13)) m3"
                   "metric_type m4 = JStr ''conversation''" by blast
          from r pc
          have "status = 200" "body = JObj [(''transcription'', JStr t),
                                (''response'', JStr (content gr)),
                                (''audio'', JStr (b64encode e audio)),
                                (''metrics'', JObj m4)]"
            "metrics_log w' = metrics_log w @ [m1, m2, m3, m4]"
            using log1 by auto
          then show ?thesis using m
            by (intro exI [of _ "[m1, m2, m3, m4]"]) (simp add: stage_record_def measured_def)
        qed
      qed
    qed
  qed
qed

lemma process_conversation_status_400:
  assumes pc: "process_conversation g e rq w = ((400, body), w')"
  shows "DEEPGRAM_AVAILABLE g \<and> (\<exists>r. decode_audio e rq = Returned r)
         \<and> body = JObj [(''error'', JStr ''No audio data provided'')] \<and> w' = w"
proof (cases "DEEPGRAM_AVAILABLE g")
  case False
  from process_conversation_unavailable [OF False, of e rq w] pc
  show ?thesis by (simp add: error_response_def)
next
  case avail: True
  show ?thesis
  proof (cases "decode_audio e rq")
    case (Raised ex)
    from process_conversation_raised [OF avail Raised, of w] pc
    show ?thesis by (simp add: error_response_def)
  next
    case (Returned r)
    from process_conversation_returned [OF avail Returned, of w] pc avail Returned
    show ?thesis by (simp add: error_response_def)
  next
    case (Value v)
    obtain ab mt where v: "v = (ab, mt)" by (cases v)
    obtain res w1 where tr: "transcribe g e ab mt w = (res, w1)" by (cases "transcribe g e ab mt w")
    note dec = Value [unfolded v]
    show ?thesis
    proof (cases res)
      case (Inl ex)
      from process_conversation_stt_fail [OF avail dec tr [unfolded Inl]] pc
      show ?thesis by (simp add: error_response_def)
    next
      case (Inr t)
      note tr' = tr [unfolded Inr]
      show ?thesis
      proof (cases "chat_create e (calls w1) (app_prompt t)")
        case (Inl ex)
        from process_conversation_llm_fail [OF avail dec tr' Inl] pc
        show ?thesis by (auto simp: error_response_def)
      next
        case (Inr gr)
        note chat = Inr
        show ?thesis
        proof (cases "generate e (calls w1 @ [ChatCreate (app_prompt t)])
                        (JStr (content gr)) (JStr (ELEVENLABS_VOICE_ID g))")
          case (Inl ex)
          from process_conversation_tts_fail [OF avail dec tr' chat Inl] pc
          show ?thesis by (auto simp: error_response_def)
        next
          case (Inr audio)
          from process_conversation_ok [OF avail dec tr' chat Inr] pc
          show ?thesis by auto
        qed
      qed
    qed
  qed
qed

lemma appended_append: "metrics_log w' = metrics_log w @ new \<Longrightarrow> appended w w' = new"
  by (simp add: appended_def)

section \<open>What each route appends to the metrics log\<close>

lemma speech_to_text_try_log:
  assumes "speech_to_text_try g e rq w = (r, w')"
  shows "metrics_log w' = metrics_log w
         \<or> (\<exists>m. metrics_log w' = metrics_log w @ [m]
               \<and> latency_fields (fsub (clock rq 3) (clock rq 0)) (fsub (clock rq 2) (clock rq 1)) m)"
proof (cases "decode_audio e rq")
  case (Raised ex)
  then show ?thesis using assms by (simp add: speech_to_text_try_def)
next
  case (Returned resp)
  then show ?thesis using assms by (simp add: speech_to_text_try_def)
next
  case (Value v)
  obtain ab mt where v: "v = (ab, mt)" by (cases v)
  obtain res w1 where tr: "transcribe g e ab mt w = (res, w1)" by (cases "transcribe g e ab mt w")
  have l: "metrics_log w1 = metrics_log w" using tr by (rule transcribe_metrics_log)
  show ?thesis
  proof (cases res)
    case (Inl ex)
    then show ?thesis using assms Value v tr l by (simp add: speech_to_text_try_def)
  next
    case (Inr transcript)
    then show ?thesis
      using assms Value v tr l
      by (auto simp: speech_to_text_try_def Let_def latency_fields_def metric_field_def)
  qed
qed

lemma generate_response_try_log:
  assumes "generate_response_try e rq w = (r, w')"
  shows "metrics_log w' = metrics_log w
         \<or> (\<exists>m. metrics_log w' = metrics_log w @ [m]
               \<and> latency_fields (fsub (clock rq 3) (clock rq 0)) (fsub (clock rq 2) (clock rq 1)) m)"
  using assms
  by (auto simp: generate_response_try_def Let_def latency_fields_def metric_field_def
        split: sum.splits if_splits)

lemma text_to_speech_try_log:
  assumes "text_to_speech_try g e rq w = (r, w')"
  shows "metrics_log w' = metrics_log w
         \<or> (\<exists>m. metrics_log w' = metrics_log w @ [m]
               \<and> latency_fields (fsub (clock rq 3) (clock rq 0)) (fsub (clock rq 2) (clock rq 1)) m)"
  using assms
  by (auto simp: text_to_speech_try_def Let_def latency_fields_def metric_field_def
        split: sum.splits if_splits)

lemma except_Exception_log:
  "except_Exception (r, w1) = (resp, w') \<Longrightarrow> w' = w1"
  by (auto simp: except_Exception_def split: sum.splits)

lemma handle_log:
  assumes "handle g e route rq w = (resp, w')"
  shows "\<exists>new. metrics_log w' = metrics_log w @ new
           \<and> (\<forall>m\<in>set new. stage_record m \<longrightarrow> measured rq route m)"
proof (cases route)
  case GET_metrics
  then have "metrics_log w' = metrics_log w" using assms by (auto simp: get_metrics_def)
  then show ?thesis by simp
next
  case GET_metrics_export
  then have "metrics_log w' = metrics_log w"
    using assms
    by (auto simp: export_metrics_def save_metrics_to_excel_def write_file_def Let_def
          split: if_splits)
  then show ?thesis by simp
next
  case POST_api_stt
  show ?thesis
  proof (cases "DEEPGRAM_AVAILABLE g")
    case False
    then have "metrics_log w' = metrics_log w"
      using assms POST_api_stt by (simp add: speech_to_text_def)
    then show ?thesis by simp
  next
    case True
    obtain r w1 where t: "speech_to_text_try g e rq w = (r, w1)"
      by (cases "speech_to_text_try g e rq w")
    have "w' = w1"
      using assms POST_api_stt True t by (simp add: speech_to_text_def except_Exception_log)
    with speech_to_text_try_log [OF t] POST_api_stt show ?thesis by (auto simp: measured_def)
  qed
next
  case POST_api_llm
  obtain r w1 where t: "generate_response_try e rq w = (r, w1)"
    by (cases "generate_response_try e rq w")
  have "w' = w1"
    using assms POST_api_llm t by (simp add: generate_response_def except_Exception_log)
  with generate_response_try_log [OF t] POST_api_llm show ?thesis by (auto simp: measured_def)
next
  case POST_api_tts
  obtain r w1 where t: "text_to_speech_try g e rq w = (r, w1)"
    by (cases "text_to_speech_try g e rq w")
  have "w' = w1"
    using assms POST_api_tts t by (simp add: text_to_speech_def except_Exception_log)
  with text_to_speech_try_log [OF t] POST_api_tts show ?thesis by (auto simp: measured_def)
next
  case POST_api_conversation
  obtain status body where r: "resp = (status, body)" by (cases resp)
  have "process_conversation g e rq w = ((status, body), w')"
    using assms POST_api_conversation r by simp
  from process_conversation_summary [OF this] show ?thesis unfolding POST_api_conversation by blast
next
  case GET_index
  then have "metrics_log w' = metrics_log w" using assms by (auto simp: index_def)
  then show ?thesis by simp
qed

section \<open>The stages of the realtime agent return\<close>

lemma buffer_frames:
  "audio_buffer (foldl (\<lambda>st frame. st\<lparr>audio_buffer := audio_buffer st @ [frame]\<rparr>) s0 frames)
     = audio_buffer s0 @ frames
   \<and> service_calls (foldl (\<lambda>st frame. st\<lparr>audio_buffer := audio_buffer st @ [frame]\<rparr>) s0 frames)
     = service_calls s0"
  by (induction frames arbitrary: s0) simp_all

lemma stt_fn_returns: "\<exists>t s'. stt_fn g e audio_stream s = (Inr t, s')"
  by (simp add: stt_fn_def Let_def split: prod.splits sum.splits)

lemma llm_fn_returns: "\<exists>r s'. llm_fn g e transcription s = (Inr r, s')"
  by (simp add: llm_fn_def split: prod.splits sum.splits)

lemma tts_error_text_check_Some:
  "tts_error_text_check g e text s = (Some stream, s1) \<Longrightarrow>
     stream = Empty_stream
     \<and> (\<exists>ex. synthesize_speech g e ''I'm sorry, there was an issue.'' s = (Inl ex, s1))"
  by (auto simp: tts_error_text_check_def split: if_splits prod.splits sum.splits)

lemma apology_stream_chunks:
  "\<exists>chunks s2. apology_stream g e message s = (Inr chunks, s2)
     \<and> (case fst (synthesize_speech g e message s) of
           Inr apology \<Rightarrow> concat chunks = apology
         | Inl ex \<Rightarrow> chunks = [])"
  by (cases "synthesize_speech g e message s")
     (auto simp: apology_stream_def concat_chunk_loop split: sum.splits)

lemma tts_error_text_check_Some_text:
  "tts_error_text_check g e text s = (Some stream, s1) \<Longrightarrow>
     text = [] \<or> strip text = ''I didn't catch that, could you please repeat?''
     \<or> strip text = ''I'm having trouble thinking of a response.''"
  by (auto simp: tts_error_text_check_def split: if_splits)

lemma tts_fn_unconfigured:
  "\<not> key_set (ELEVENLABS_API_KEY g) \<Longrightarrow>
     tts_fn g e text s = (Inl (Exn ConnectionError ''TTS service not configured.''), s)"
  by (simp add: tts_fn_def)

lemma tts_fn_plain:
  assumes "key_set (ELEVENLABS_API_KEY g)"
    and "\<not> (text = [] \<or> strip text = ''I didn't catch that, could you please repeat?''
             \<or> strip text = ''I'm having trouble thinking of a response.'')"
  shows "tts_fn g e text s
           = (case synthesize_speech g e text s of
                (Inr audio_binary, s2) \<Rightarrow> (Inr (Text_stream audio_binary), s2)
              | (Inl ex, s2) \<Rightarrow>
                  if exn_cls ex = ConnectionError then (Inr Error_stream, s2)
                  else (Inr Fallback_stream, s2))"
  using assms by (simp add: tts_fn_def tts_error_text_check_def)

lemma tts_fn_probe_fails:
  assumes "key_set (ELEVENLABS_API_KEY g)"
    and "text = [] \<or> strip text = ''I didn't catch that, could you please repeat?''
         \<or> strip text = ''I'm having trouble thinking of a response.''"
    and "synthesize_speech g e ''I'm sorry, there was an issue.'' s = (Inl ex, s0)"
  shows "tts_fn g e text s = (Inr Empty_stream, s0)"
  using assms by (auto simp: tts_fn_def tts_error_text_check_def)

lemma tts_fn_probe_ok:
  assumes "key_set (ELEVENLABS_API_KEY g)"
    and "text = [] \<or> strip text = ''I didn't catch that, could you please repeat?''
         \<or> strip text = ''I'm having trouble thinking of a response.''"
    and "synthesize_speech g e ''I'm sorry, there was an issue.'' s = (Inr dropped, s0)"
  shows "tts_fn g e text s
           = (case synthesize_speech g e text s0 of
                (Inr audio_binary, s2) \<Rightarrow> (Inr (Text_stream audio_binary), s2)
              | (Inl ex, s2) \<Rightarrow>
                  if exn_cls ex = ConnectionError then (Inr Error_stream, s2)
                  else (Inr Fallback_stream, s2))"
  using assms by (auto simp: tts_fn_def tts_error_text_check_def)

section \<open>The answers of the concrete services\<close>

lemma demo_decode: "decode_audio demo_env demo_request = Value ([0, 1, 2], ''audio/wav'')"
  by code_simp

lemma demo_decode_tts_down:
  "decode_audio tts_down_env demo_request = Value ([0, 1, 2], ''audio/wav'')"
  by code_simp

lemma demo_transcribe_tts_down:
  "transcribe demo_globals tts_down_env [0, 1, 2] ''audio/wav'' demo_state
     = (Inr ''hello'', log_call (TranscribeFile [0, 1, 2] ''audio/wav'') demo_state)"
  by code_simp

lemma demo_chat_tts_down:
  "chat_create tts_down_env
     (calls (log_call (TranscribeFile [0, 1, 2] ''audio/wav'') demo_state)) (app_prompt ''hello'')
     = Inr \<lparr>content = ''Hi there'', usage = Some 2\<rparr>"
  by code_simp

lemma demo_generate_tts_down:
  "generate tts_down_env
     (calls (log_call (TranscribeFile [0, 1, 2] ''audio/wav'') demo_state)
        @ [ChatCreate (app_prompt ''hello'')])
     (JStr (content \<lparr>content = ''Hi there'', usage = Some 2\<rparr>))
     (JStr (ELEVENLABS_VOICE_ID demo_globals))
     = Inl (Exn OtherException ''quota exceeded'')"
  by code_simp

lemma demo_available: "DEEPGRAM_AVAILABLE demo_globals"
  by code_simp

lemma demo_decode_llm_down:
  "decode_audio llm_down_env demo_request = Value ([0, 1, 2], ''audio/wav'')"
  by code_simp

lemma demo_transcribe_llm_down:
  "transcribe demo_globals llm_down_env [0, 1, 2] ''audio/wav'' demo_state
     = (Inr ''hello'', log_call (TranscribeFile [0, 1, 2] ''audio/wav'') demo_state)"
  by code_simp

lemma demo_chat_llm_down:
  "chat_create llm_down_env
     (calls (log_call (TranscribeFile [0, 1, 2] ''audio/wav'') demo_state)) (app_prompt ''hello'')
     = Inl (Exn OtherException ''rate limit exceeded'')"
  by code_simp

section \<open>The processing overhead of a stage record\<close>

text \<open>
  Claim C2, as the program has it. The claim says that the stored \<open>processing_overhead\<close>
  of every stage record equals the stored \<open>total_latency\<close> minus the stored
  \<open>service_latency\<close>. Each of the three is rounded to two places on its own. For a
  transcription of 500.006 ms within a request of 500.354 ms the record holds the doubles
  nearest to 500.35 (the total), 500.01 (the service latency) and 0.35 (the overhead).
  The overhead is not the double 500.35 - 500.01, and read to two places it is not the
  difference either: 35 hundredths against 50035 - 50001 = 34.
\<close>

theorem overhead_not_the_stored_difference:
  "metrics_log (snd (speech_to_text demo_globals demo_env rounding_request demo_state))
     = [[(''timestamp'', JStr ''2025-01-01T00:00:00''), (''type'', JStr ''stt''),
         (''total_latency'', JNum (fl (50035 / 100))),
         (''service_latency'', JNum (fl (50001 / 100))),
         (''processing_overhead'', JNum (fl (35 / 100)))]]
   \<and> fl (35 / 100) \<noteq> fsub (fl (50035 / 100)) (fl (50001 / 100))
   \<and> hundredths (fl (35 / 100)) = 35
   \<and> hundredths (fl (50035 / 100)) - hundredths (fl (50001 / 100)) = 34
   \<and> \<not> overhead_exact
         [(''timestamp'', JStr ''2025-01-01T00:00:00''), (''type'', JStr ''stt''),
          (''total_latency'', JNum (fl (50035 / 100))),
          (''service_latency'', JNum (fl (50001 / 100))),
          (''processing_overhead'', JNum (fl (35 / 100)))]"
  by code_simp

text \<open>
  Claim C2, amended. The log only grows, and every record that a request appends to the
  metrics log with the type \<open>stt\<close>, \<open>llm\<close> or \<open>tts\<close> holds three rounded doubles: in
  \<open>total_latency\<close> the rounding to two places of the total latency in milliseconds, in
  \<open>service_latency\<close> that of the service latency, and in \<open>processing_overhead\<close> the
  rounding of the difference of the two unrounded latencies, each latency being the
  difference of the two clock readings that the handler takes around the stage and around
  the service call. The stored overhead is therefore not computed from the two stored
  latencies. When every clock reading lies between 0 and 4 * 10^9 seconds, the three
  stored numbers, read to two decimal places, satisfy
  overhead = total - service up to one hundredth of a millisecond.
\<close>

theorem stored_overhead_rounds_the_difference:
  assumes "handle g e route rq w = (resp, w')"
  shows "metrics_log w' = metrics_log w @ appended w w'
    \<and> (\<forall>m\<in>set (appended w w'). stage_record m \<longrightarrow> measured rq route m)
    \<and> ((\<forall>k. 0 \<le> time_time rq k \<and> time_time rq k \<le> 4000000000)
         \<longrightarrow> (\<forall>m\<in>set (appended w w'). stage_record m \<longrightarrow> overhead_close m))"
proof -
  from handle_log [OF assms]
  obtain new where new: "metrics_log w' = metrics_log w @ new"
    and ok: "\<forall>m\<in>set new. stage_record m \<longrightarrow> measured rq route m" by blast
  have app: "appended w w' = new" using new by (rule appended_append)
  show ?thesis unfolding app using new ok by (auto intro: measured_close)
qed

theorem stored_overhead_rounds_the_difference_witness:
  "stage_record
     [(''timestamp'', JStr ''2025-01-01T00:00:00''), (''type'', JStr ''stt''),
      (''total_latency'', JNum (fl (50035 / 100))),
      (''service_latency'', JNum (fl (50001 / 100))),
      (''processing_overhead'', JNum (fl (35 / 100)))]
   \<and> measured rounding_request POST_api_stt
     [(''timestamp'', JStr ''2025-01-01T00:00:00''), (''type'', JStr ''stt''),
      (''total_latency'', JNum (fl (50035 / 100))),
      (''service_latency'', JNum (fl (50001 / 100))),
      (''processing_overhead'', JNum (fl (35 / 100)))]
   \<and> overhead_close
     [(''timestamp'', JStr ''2025-01-01T00:00:00''), (''type'', JStr ''stt''),
      (''total_latency'', JNum (fl (50035 / 100))),
      (''service_latency'', JNum (fl (50001 / 100))),
      (''processing_overhead'', JNum (fl (35 / 100)))]"
proof -
  let ?m = "[(''timestamp'', JStr ''2025-01-01T00:00:00''), (''type'', JStr ''stt''),
      (''total_latency'', JNum (fl (50035 / 100))),
      (''service_latency'', JNum (fl (50001 / 100))),
      (''processing_overhead'', JNum (fl (35 / 100)))]"
  let ?r = "handle demo_globals demo_env POST_api_stt rounding_request demo_state"
  have h: "?r = (fst ?r, snd ?r)" by simp
  have a: "appended demo_state (snd ?r) = [?m]" by code_simp
  have s: "stage_record ?m" by code_simp
  have c: "\<forall>k. 0 \<le> time_time rounding_request k \<and> time_time rounding_request k \<le> 4000000000"
    by (simp add: rounding_request_def demo_request_def)
  from stored_overhead_rounds_the_difference [OF h] a s c show ?thesis by simp
qed
section \<open>A conversation turn whose synthesis fails\<close>

text \<open>
  Claim C3, as the program has it. The claim says that a turn whose transcription and
  reply generation succeed still returns an \<open>audio\<close> field when the synthesis fails and
  an apology could be synthesized. The handler has no fallback: with a synthesis
  service that refuses the reply and would synthesize the apology, the response is
  status 500 with the field \<open>error\<close> and without the field \<open>audio\<close>.
\<close>

theorem conversation_no_audio_fallback:
  "fst (process_conversation demo_globals tts_down_env demo_request demo_state)
     = (500, JObj [(''error'', JStr ''quota exceeded'')])
   \<and> py_in ''audio'' (snd (fst (process_conversation demo_globals tts_down_env
                                    demo_request demo_state))) = Inr False
   \<and> generate tts_down_env
        (calls (snd (process_conversation demo_globals tts_down_env demo_request demo_state)))
        (JStr ''I'm sorry, I couldn't generate the audio response.'')
        (JStr (ELEVENLABS_VOICE_ID demo_globals)) = Inr [1, 2, 3]"
  by code_simp

text \<open>
  Claim C3, amended. When the transcription and the reply generation succeed and the
  synthesis request raises, the response is status 500 with the single field \<open>error\<close>
  holding the text of the exception; it has no field \<open>audio\<close>. The synthesis was
  requested once, for the reply: no apology is synthesized. The records \<open>stt\<close> and \<open>llm\<close>
  of the turn stay in the metrics log.
\<close>

theorem conversation_synthesis_failure:
  assumes "DEEPGRAM_AVAILABLE g"
    and "decode_audio e rq = Value (ab, mt)"
    and "transcribe g e ab mt w = (Inr t, w1)"
    and "chat_create e (calls w1) (app_prompt t) = Inr gr"
    and "generate e (calls w1 @ [ChatCreate (app_prompt t)])
           (JStr (content gr)) (JStr (ELEVENLABS_VOICE_ID g)) = Inl ex"
  shows "fst (process_conversation g e rq w) = (500, JObj [(''error'', JStr (exn_str ex))])
    \<and> py_in ''audio'' (snd (fst (process_conversation g e rq w))) = Inr False
    \<and> calls (snd (process_conversation g e rq w))
        = calls w1 @ [ChatCreate (app_prompt t),
                      Generate (JStr (content gr)) (JStr (ELEVENLABS_VOICE_ID g))]
    \<and> map metric_type (appended w (snd (process_conversation g e rq w)))
        = [JStr ''stt'', JStr ''llm'']"
proof -
  have l: "metrics_log w1 = metrics_log w" using assms(3) by (rule transcribe_metrics_log)
  from process_conversation_tts_fail [OF assms]
  obtain m1 m2 where r: "process_conversation g e rq w
                 = (error_response 500 (exn_str ex),
                    log_call (Generate (JStr (content gr)) (JStr (ELEVENLABS_VOICE_ID g)))
                      (append_metric m2
                        (log_call (ChatCreate (app_prompt t)) (append_metric m1 w1))))"
    and m: "metric_type m1 = JStr ''stt''" "metric_type m2 = JStr ''llm''" by blast
  show ?thesis unfolding r using m l by (simp add: error_response_def appended_def)
qed

theorem conversation_synthesis_failure_witness:
  "fst (process_conversation demo_globals tts_down_env demo_request demo_state)
     = (500, JObj [(''error'', JStr ''quota exceeded'')])
   \<and> calls (snd (process_conversation demo_globals tts_down_env demo_request demo_state))
     = [TranscribeFile [0, 1, 2] ''audio/wav'', ChatCreate (app_prompt ''hello''),
        Generate (JStr ''Hi there'') (JStr ''21m00Tcm4TlvDq8ikWAM'')]"
proof -
  have c: "calls (log_call (TranscribeFile [0, 1, 2] ''audio/wav'') demo_state)
             = [TranscribeFile [0, 1, 2] ''audio/wav'']"
    by (simp add: demo_state_def)
  have v: "ELEVENLABS_VOICE_ID demo_globals = ''21m00Tcm4TlvDq8ikWAM''"
    by (simp add: demo_globals_def)
  show ?thesis
    using conversation_synthesis_failure
            [OF demo_available demo_decode_tts_down demo_transcribe_tts_down demo_chat_tts_down
                demo_generate_tts_down]
    unfolding c v by simp
qed

section \<open>An empty transcription\<close>

text \<open>
  Claim C4, as the program has it. The claim says that for the empty transcript the
  reply generator returns a canned reply and does not call the generation service.
  \<open>POST /api/llm\<close> has no such check: for the transcription \<open>""\<close> it sends the prompt to
  the service and returns the service's reply.
\<close>

theorem generate_response_calls_model_for_empty:
  "calls (snd (generate_response demo_env empty_transcription_request demo_state))
     = [ChatCreate (app_prompt '''')]
   \<and> fst (fst (generate_response demo_env empty_transcription_request demo_state)) = 200
   \<and> py_getitem (snd (fst (generate_response demo_env empty_transcription_request demo_state)))
        ''response'' = Inr (JStr ''Hi there'')"
  by code_simp

text \<open>
  Claim C4, amended. In the realtime agent, \<open>_llm_fn\<close> answers the empty transcript with
  a canned reply and makes no request to the generation service (the state, with the
  requests made, is unchanged): the clarification reply when the Groq credential is
  set, the reply \<open>I'm sorry, I can't process your request right now.\<close> when it is not.
  The handler of \<open>POST /api/llm\<close> sends the prompt built from the empty transcription to
  the service.
\<close>

theorem llm_fn_empty_transcription:
  "llm_fn g e '''' s
     = (Inr (if key_set (GROQ_API_KEY g)
             then ''I didn't catch that, could you please repeat?''
             else ''I'm sorry, I can't process your request right now.''), s)
   \<and> (json rq = Inr (JObj kvs) \<and> map_of kvs ''transcription'' = Some (JStr '''')
        \<longrightarrow> calls (snd (generate_response e rq w)) = calls w @ [ChatCreate (app_prompt '''')])"
proof -
  have a: "llm_fn g e '''' s
     = (Inr (if key_set (GROQ_API_KEY g)
             then ''I didn't catch that, could you please repeat?''
             else ''I'm sorry, I can't process your request right now.''), s)"
    by (simp add: llm_fn_def)
  have b: "json rq = Inr (JObj kvs) \<and> map_of kvs ''transcription'' = Some (JStr '''')
        \<longrightarrow> calls (snd (generate_response e rq w)) = calls w @ [ChatCreate (app_prompt '''')]"
  proof
    assume h: "json rq = Inr (JObj kvs) \<and> map_of kvs ''transcription'' = Some (JStr '''')"
    then have ne: "kvs \<noteq> []" by auto
    show "calls (snd (generate_response e rq w)) = calls w @ [ChatCreate (app_prompt '''')]"
      using h ne
      by (cases "chat_create e (calls w) (app_prompt '''')")
         (simp_all add: generate_response_def generate_response_try_def except_Exception_def
            format_value_def Let_def)
  qed
  from a b show ?thesis by (rule conjI)
qed

theorem llm_fn_empty_transcription_witness:
  "llm_fn demo_globals demo_env '''' demo_agent_state
     = (Inr ''I didn't catch that, could you please repeat?'', demo_agent_state)
   \<and> calls (snd (generate_response demo_env empty_transcription_request demo_state))
     = [ChatCreate (app_prompt '''')]"
proof -
  have k: "key_set (GROQ_API_KEY demo_globals)" by code_simp
  have j: "json empty_transcription_request = Inr (JObj [(''transcription'', JStr '''')])
           \<and> map_of [(''transcription'', JStr '''')] ''transcription'' = Some (JStr '''')"
    by code_simp
  have c: "calls demo_state = []" by code_simp
  show ?thesis
    using llm_fn_empty_transcription
            [of demo_globals demo_env demo_agent_state empty_transcription_request
                "[(''transcription'', JStr '''')]" demo_state] k j c
    by simp
qed

section \<open>The transcription endpoint without a client\<close>

text \<open>
  Claim C5. When the Deepgram client was never constructed (its constructor raised at
  start-up, which clears \<open>DEEPGRAM_AVAILABLE\<close>), every request to \<open>POST /api/stt\<close> is
  answered with status 500 and a body with the field \<open>error\<close>, and the state, with it the
  metrics log, is what it was. The same holds however the flag came to be cleared.
\<close>

theorem speech_to_text_unavailable:
  "speech_to_text (app_init client_import options_import legacy_import False g0) e rq w
     = ((500, JObj [(''error'', JStr ''Deepgram SDK not available'')]), w)
   \<and> metrics_log (snd (speech_to_text
                          (app_init client_import options_import legacy_import False g0) e rq w))
       = metrics_log w
   \<and> (\<not> DEEPGRAM_AVAILABLE g \<longrightarrow>
        speech_to_text g e rq w
          = ((500, JObj [(''error'', JStr ''Deepgram SDK not available'')]), w))"
proof -
  have "\<not> DEEPGRAM_AVAILABLE (app_init client_import options_import legacy_import False g0)"
    by (simp add: app_init_def init_deepgram_def import_deepgram_def Let_def split: prod.splits)
  then show ?thesis
    by (simp add: speech_to_text_def error_response_def)
qed

theorem speech_to_text_unavailable_witness:
  "speech_to_text (app_init True True False False demo_globals) demo_env demo_request demo_state
     = ((500, JObj [(''error'', JStr ''Deepgram SDK not available'')]), demo_state)
   \<and> metrics_log (snd (speech_to_text (demo_globals\<lparr>DEEPGRAM_AVAILABLE := False\<rparr>)
                          demo_env demo_request demo_state)) = []"
proof -
  have h: "\<not> DEEPGRAM_AVAILABLE (demo_globals\<lparr>DEEPGRAM_AVAILABLE := False\<rparr>)" by simp
  have e: "metrics_log demo_state = []" by (simp add: demo_state_def)
  show ?thesis
    using speech_to_text_unavailable
            [of True True False demo_globals demo_env demo_request demo_state
                "demo_globals\<lparr>DEEPGRAM_AVAILABLE := False\<rparr>"] h e
    by simp
qed

section \<open>The response of a failed conversation turn\<close>

text \<open>
  Claim C6, as the program has it. The claim says that the error response of
  \<open>POST /api/conversation\<close> names the failing stage. It does not: when the reply
  generation fails with the text \<open>rate limit exceeded\<close>, the body is the one field \<open>error\<close>
  holding that text, and the response is the same when it is the synthesis that fails
  with this text (one stage later, after three requests to the services and not two).
\<close>

theorem conversation_error_names_no_stage:
  "fst (process_conversation demo_globals llm_down_env demo_request demo_state)
     = (500, JObj [(''error'', JStr ''rate limit exceeded'')])
   \<and> fst (process_conversation demo_globals tts_limit_env demo_request demo_state)
     = fst (process_conversation demo_globals llm_down_env demo_request demo_state)
   \<and> length (calls (snd (process_conversation demo_globals llm_down_env
                            demo_request demo_state))) = 2
   \<and> length (calls (snd (process_conversation demo_globals tts_limit_env
                            demo_request demo_state))) = 3"
  by code_simp

text \<open>
  Claim C6, amended. A response of \<open>POST /api/conversation\<close> is either the full result
  (status 200 with \<open>transcription\<close>, \<open>response\<close>, \<open>audio\<close>, \<open>metrics\<close>) or an error: status
  400 or 500 and a body with the single field \<open>error\<close>, so no partial result, and no name
  of a stage. Without the transcription SDK the answer is 500 with
  \<open>Deepgram SDK not available\<close>. The status is 400, with \<open>No audio data provided\<close>, exactly
  when the SDK is there and the JSON body is empty or has no \<open>audioDataUri\<close>. When reading
  or decoding the request raises (the JSON body, the membership test, the split of the
  data URI at the comma, the unpacking into two parts, the base64 decoding), the status is
  500, the field holds the text of the exception, and nothing changes: no service is
  called and no record is appended. When a service raises, the status is 500, the field
  holds the text of the exception, and no later service is called: the requests made end
  with the one that failed.
\<close>

theorem conversation_error_response:
  assumes "process_conversation g e rq w = ((status, body), w')"
  shows "((status = 200
           \<and> (\<exists>t r a m. body = JObj [(''transcription'', JStr t), (''response'', JStr r),
                                      (''audio'', JStr a), (''metrics'', JObj m)]))
          \<or> ((status = 400 \<or> status = 500) \<and> (\<exists>msg. body = JObj [(''error'', JStr msg)])))
    \<and> (DEEPGRAM_AVAILABLE g \<and> decode_audio e rq = Value (ab, mt)
          \<and> transcribe g e ab mt w = (Inl ex1, w1)
          \<longrightarrow> status = 500 \<and> body = JObj [(''error'', JStr (exn_str ex1))]
              \<and> calls w' = calls w1)
    \<and> (DEEPGRAM_AVAILABLE g \<and> decode_audio e rq = Value (ab, mt)
          \<and> transcribe g e ab mt w = (Inr t, w1)
          \<and> chat_create e (calls w1) (app_prompt t) = Inl ex2
          \<longrightarrow> status = 500 \<and> body = JObj [(''error'', JStr (exn_str ex2))]
              \<and> calls w' = calls w1 @ [ChatCreate (app_prompt t)])
    \<and> (DEEPGRAM_AVAILABLE g \<and> decode_audio e rq = Value (ab, mt)
          \<and> transcribe g e ab mt w = (Inr t, w1)
          \<and> chat_create e (calls w1) (app_prompt t) = Inr gr
          \<and> generate e (calls w1 @ [ChatCreate (app_prompt t)])
                (JStr (content gr)) (JStr (ELEVENLABS_VOICE_ID g)) = Inl ex3
          \<longrightarrow> status = 500 \<and> body = JObj [(''error'', JStr (exn_str ex3))]
              \<and> calls w' = calls w1 @ [ChatCreate (app_prompt t),
                                        Generate (JStr (content gr)) (JStr (ELEVENLABS_VOICE_ID g))])
    \<and> (\<not> DEEPGRAM_AVAILABLE g
          \<longrightarrow> status = 500 \<and> body = JObj [(''error'', JStr ''Deepgram SDK not available'')]
              \<and> w' = w)
    \<and> (DEEPGRAM_AVAILABLE g \<and> json rq = Inr data
          \<and> (\<not> truthy data \<or> py_in ''audioDataUri'' data = Inr False)
          \<longrightarrow> status = 400 \<and> body = JObj [(''error'', JStr ''No audio data provided'')]
              \<and> w' = w)
    \<and> (status = 400
          \<longrightarrow> DEEPGRAM_AVAILABLE g
              \<and> (\<exists>d. json rq = Inr d
                       \<and> (\<not> truthy d \<or> py_in ''audioDataUri'' d = Inr False))
              \<and> body = JObj [(''error'', JStr ''No audio data provided'')] \<and> w' = w)
    \<and> (DEEPGRAM_AVAILABLE g
          \<and> (json rq = Inl ex0
               \<or> (json rq = Inr data \<and> truthy data
                    \<and> (py_in ''audioDataUri'' data = Inl ex0
                         \<or> (py_in ''audioDataUri'' data = Inr True
                              \<and> py_getitem data ''audioDataUri'' = Inr v
                              \<and> (py_split v CHR '','' = Inl ex0
                                   \<or> (py_split v CHR '','' = Inr parts
                                        \<and> (unpack2 parts = Inl ex0
                                             \<or> (unpack2 parts = Inr (header, base64_data)
                                                  \<and> b64decode e base64_data = Inl ex0))))))))
          \<longrightarrow> decode_audio e rq = Raised ex0)
    \<and> (DEEPGRAM_AVAILABLE g \<and> decode_audio e rq = Raised ex0
          \<longrightarrow> status = 500 \<and> body = JObj [(''error'', JStr (exn_str ex0))] \<and> w' = w)"
proof -
  note pc = assms
  from process_conversation_summary [OF pc]
  obtain new where full: "metrics_log w' = metrics_log w @ new
           \<and> (\<forall>m\<in>set new. stage_record m \<longrightarrow> measured rq POST_api_conversation m)
           \<and> ((status = 200
                 \<and> (\<exists>t r a m. body = JObj [(''transcription'', JStr t), (''response'', JStr r),
                                            (''audio'', JStr a), (''metrics'', JObj m)])
                 \<and> map metric_type new
                     = [JStr ''stt'', JStr ''llm'', JStr ''tts'', JStr ''conversation''])
              \<or> ((status = 400 \<or> status = 500)
                 \<and> (\<exists>msg. body = JObj [(''error'', JStr msg)])
                 \<and> (map metric_type new = []
                      \<or> map metric_type new = [JStr ''stt'']
                      \<or> map metric_type new = [JStr ''stt'', JStr ''llm''])))" ..
  have c1: "(status = 200
           \<and> (\<exists>t r a m. body = JObj [(''transcription'', JStr t), (''response'', JStr r),
                                      (''audio'', JStr a), (''metrics'', JObj m)]))
          \<or> ((status = 400 \<or> status = 500) \<and> (\<exists>msg. body = JObj [(''error'', JStr msg)]))"
    using full [THEN conjunct2, THEN conjunct2] by (elim disjE conjE) simp_all
  have c2: "DEEPGRAM_AVAILABLE g \<and> decode_audio e rq = Value (ab, mt)
          \<and> transcribe g e ab mt w = (Inl ex1, w1)
          \<longrightarrow> status = 500 \<and> body = JObj [(''error'', JStr (exn_str ex1))]
              \<and> calls w' = calls w1"
  proof
    assume h: "DEEPGRAM_AVAILABLE g \<and> decode_audio e rq = Value (ab, mt)
          \<and> transcribe g e ab mt w = (Inl ex1, w1)"
    then have "process_conversation g e rq w = (error_response 500 (exn_str ex1), w1)"
      by (blast intro: process_conversation_stt_fail)
    then show "status = 500 \<and> body = JObj [(''error'', JStr (exn_str ex1))] \<and> calls w' = calls w1"
      using pc by (simp add: error_response_def)
  qed
  have c3: "DEEPGRAM_AVAILABLE g \<and> decode_audio e rq = Value (ab, mt)
          \<and> transcribe g e ab mt w = (Inr t, w1)
          \<and> chat_create e (calls w1) (app_prompt t) = Inl ex2
          \<longrightarrow> status = 500 \<and> body = JObj [(''error'', JStr (exn_str ex2))]
              \<and> calls w' = calls w1 @ [ChatCreate (app_prompt t)]"
  proof
    assume h: "DEEPGRAM_AVAILABLE g \<and> decode_audio e rq = Value (ab, mt)
          \<and> transcribe g e ab mt w = (Inr t, w1)
          \<and> chat_create e (calls w1) (app_prompt t) = Inl ex2"
    then obtain m1 where "process_conversation g e rq w
                 = (error_response 500 (exn_str ex2),
                    log_call (ChatCreate (app_prompt t)) (append_metric m1 w1))"
      using process_conversation_llm_fail [of g e rq ab mt w t w1 ex2] by blast
    then show "status = 500 \<and> body = JObj [(''error'', JStr (exn_str ex2))]
              \<and> calls w' = calls w1 @ [ChatCreate (app_prompt t)]"
      using pc by (auto simp: error_response_def)
  qed
  have c4: "DEEPGRAM_AVAILABLE g \<and> decode_audio e rq = Value (ab, mt)
          \<and> transcribe g e ab mt w = (Inr t, w1)
          \<and> chat_create e (calls w1) (app_prompt t) = Inr gr
          \<and> generate e (calls w1 @ [ChatCreate (app_prompt t)])
                (JStr (content gr)) (JStr (ELEVENLABS_VOICE_ID g)) = Inl ex3
          \<longrightarrow> status = 500 \<and> body = JObj [(''error'', JStr (exn_str ex3))]
              \<and> calls w' = calls w1 @ [ChatCreate (app_prompt t),
                                        Generate (JStr (content gr)) (JStr (ELEVENLABS_VOICE_ID g))]"
  proof
    assume h: "DEEPGRAM_AVAILABLE g \<and> decode_audio e rq = Value (ab, mt)
          \<and> transcribe g e ab mt w = (Inr t, w1)
          \<and> chat_create e (calls w1) (app_prompt t) = Inr gr
          \<and> generate e (calls w1 @ [ChatCreate (app_prompt t)])
                (JStr (content gr)) (JStr (ELEVENLABS_VOICE_ID g)) = Inl ex3"
    then obtain m1 m2 where "process_conversation g e rq w
                 = (error_response 500 (exn_str ex3),
                    log_call (Generate (JStr (content gr)) (JStr (ELEVENLABS_VOICE_ID g)))
                      (append_metric m2
                        (log_call (ChatCreate (app_prompt t)) (append_metric m1 w1))))"
      using process_conversation_tts_fail [of g e rq ab mt w t w1 gr ex3] by blast
    then show "status = 500 \<and> body = JObj [(''error'', JStr (exn_str ex3))]
              \<and> calls w' = calls w1 @ [ChatCreate (app_prompt t),
                                        Generate (JStr (content gr)) (JStr (ELEVENLABS_VOICE_ID g))]"
      using pc by (auto simp: error_response_def)
  qed
  have c5: "\<not> DEEPGRAM_AVAILABLE g
          \<longrightarrow> status = 500 \<and> body = JObj [(''error'', JStr ''Deepgram SDK not available'')]
              \<and> w' = w"
  proof
    assume "\<not> DEEPGRAM_AVAILABLE g"
    from process_conversation_unavailable [OF this, of e rq w] pc
    show "status = 500 \<and> body = JObj [(''error'', JStr ''Deepgram SDK not available'')]
              \<and> w' = w"
      by (simp add: error_response_def)
  qed
  have c6: "DEEPGRAM_AVAILABLE g \<and> json rq = Inr data
          \<and> (\<not> truthy data \<or> py_in ''audioDataUri'' data = Inr False)
          \<longrightarrow> status = 400 \<and> body = JObj [(''error'', JStr ''No audio data provided'')]
              \<and> w' = w"
  proof
    assume h: "DEEPGRAM_AVAILABLE g \<and> json rq = Inr data
          \<and> (\<not> truthy data \<or> py_in ''audioDataUri'' data = Inr False)"
    then have "decode_audio e rq = Returned (error_response 400 ''No audio data provided'')"
      by (intro decode_audio_missing [of rq data]) simp_all
    from process_conversation_returned [OF h [THEN conjunct1] this, of w] pc
    show "status = 400 \<and> body = JObj [(''error'', JStr ''No audio data provided'')] \<and> w' = w"
      by (simp add: error_response_def)
  qed
  have c7: "status = 400
          \<longrightarrow> DEEPGRAM_AVAILABLE g
              \<and> (\<exists>d. json rq = Inr d
                       \<and> (\<not> truthy d \<or> py_in ''audioDataUri'' d = Inr False))
              \<and> body = JObj [(''error'', JStr ''No audio data provided'')] \<and> w' = w"
  proof
    assume "status = 400"
    with pc have "process_conversation g e rq w = ((400, body), w')" by simp
    from process_conversation_status_400 [OF this]
    show "DEEPGRAM_AVAILABLE g
              \<and> (\<exists>d. json rq = Inr d
                       \<and> (\<not> truthy d \<or> py_in ''audioDataUri'' d = Inr False))
              \<and> body = JObj [(''error'', JStr ''No audio data provided'')] \<and> w' = w"
      by (blast dest: decode_audio_Returned_missing)
  qed
  have c8: "DEEPGRAM_AVAILABLE g
          \<and> (json rq = Inl ex0
               \<or> (json rq = Inr data \<and> truthy data
                    \<and> (py_in ''audioDataUri'' data = Inl ex0
                         \<or> (py_in ''audioDataUri'' data = Inr True
                              \<and> py_getitem data ''audioDataUri'' = Inr v
                              \<and> (py_split v CHR '','' = Inl ex0
                                   \<or> (py_split v CHR '','' = Inr parts
                                        \<and> (unpack2 parts = Inl ex0
                                             \<or> (unpack2 parts = Inr (header, base64_data)
                                                  \<and> b64decode e base64_data = Inl ex0))))))))
          \<longrightarrow> decode_audio e rq = Raised ex0"
    by (auto intro: decode_audio_json_raises decode_audio_key_raises decode_audio_split_raises
          decode_audio_unpack_raises decode_audio_b64_raises)
  have c9: "DEEPGRAM_AVAILABLE g \<and> decode_audio e rq = Raised ex0
          \<longrightarrow> status = 500 \<and> body = JObj [(''error'', JStr (exn_str ex0))] \<and> w' = w"
  proof
    assume h: "DEEPGRAM_AVAILABLE g \<and> decode_audio e rq = Raised ex0"
    from process_conversation_raised [OF h [THEN conjunct1] h [THEN conjunct2], of w] pc
    show "status = 500 \<and> body = JObj [(''error'', JStr (exn_str ex0))] \<and> w' = w"
      by (simp add: error_response_def)
  qed
  from c1 c2 c3 c4 c5 c6 c7 c8 c9 show ?thesis by (intro conjI)
qed

theorem conversation_error_response_witness:
  "fst (process_conversation demo_globals llm_down_env demo_request demo_state)
     = (500, JObj [(''error'', JStr ''rate limit exceeded'')])
   \<and> calls (snd (process_conversation demo_globals llm_down_env demo_request demo_state))
     = [TranscribeFile [0, 1, 2] ''audio/wav'', ChatCreate (app_prompt ''hello'')]
   \<and> process_conversation demo_globals demo_env empty_transcription_request demo_state
     = ((400, JObj [(''error'', JStr ''No audio data provided'')]), demo_state)
   \<and> process_conversation demo_globals demo_env bad_base64_request demo_state
     = ((500, JObj [(''error'', JStr ''Incorrect padding'')]), demo_state)"
proof -
  let ?bad = "process_conversation demo_globals llm_down_env demo_request demo_state"
  have h: "?bad = ((fst (fst ?bad), snd (fst ?bad)), snd ?bad)" by simp
  have c: "calls (log_call (TranscribeFile [0, 1, 2] ''audio/wav'') demo_state)
             = [TranscribeFile [0, 1, 2] ''audio/wav'']"
    by (simp add: demo_state_def)
  have "fst (fst ?bad) = 500 \<and> snd (fst ?bad) = JObj [(''error'', JStr ''rate limit exceeded'')]
        \<and> calls (snd ?bad)
            = calls (log_call (TranscribeFile [0, 1, 2] ''audio/wav'') demo_state)
                @ [ChatCreate (app_prompt ''hello'')]"
    using conversation_error_response
            [OF h, where ab = "[0, 1, 2]" and mt = "''audio/wav''" and t = "''hello''"
               and ?w1.0 = "log_call (TranscribeFile [0, 1, 2] ''audio/wav'') demo_state"
               and ?ex2.0 = "Exn OtherException ''rate limit exceeded''"]
          demo_available demo_decode_llm_down demo_transcribe_llm_down demo_chat_llm_down
    by simp
  then have a: "fst ?bad = (500, JObj [(''error'', JStr ''rate limit exceeded'')])
                \<and> calls (snd ?bad)
                  = [TranscribeFile [0, 1, 2] ''audio/wav'', ChatCreate (app_prompt ''hello'')]"
    unfolding c by (simp add: prod_eq_iff)
  let ?none = "process_conversation demo_globals demo_env empty_transcription_request demo_state"
  have hn: "?none = ((fst (fst ?none), snd (fst ?none)), snd ?none)" by simp
  have jn: "json empty_transcription_request = Inr (JObj [(''transcription'', JStr [])])"
    by (simp add: empty_transcription_request_def)
  have kn: "py_in ''audioDataUri'' (JObj [(''transcription'', JStr [])]) = Inr False"
    by simp
  have "fst (fst ?none) = 400
        \<and> snd (fst ?none) = JObj [(''error'', JStr ''No audio data provided'')]
        \<and> snd ?none = demo_state"
    using conversation_error_response
            [OF hn, where data = "JObj [(''transcription'', JStr [])]"]
          demo_available jn kn
    by simp
  then have b: "?none = ((400, JObj [(''error'', JStr ''No audio data provided'')]), demo_state)"
    by (simp add: prod_eq_iff)
  let ?dec = "process_conversation demo_globals demo_env bad_base64_request demo_state"
  have hd: "?dec = ((fst (fst ?dec), snd (fst ?dec)), snd ?dec)" by simp
  have jd: "json bad_base64_request
              = Inr (JObj [(''audioDataUri'', JStr ''data:audio/wav;base64,AAE'')])"
    by (simp add: bad_base64_request_def)
  have sd: "py_split (JStr ''data:audio/wav;base64,AAE'') CHR '',''
              = Inr [''data:audio/wav;base64'', ''AAE'']"
    by code_simp
  have bd: "b64decode demo_env ''AAE'' = Inl (Exn OtherException ''Incorrect padding'')"
    by code_simp
  have dd: "decode_audio demo_env bad_base64_request
              = Raised (Exn OtherException ''Incorrect padding'')"
    using conversation_error_response
            [OF hd, where data = "JObj [(''audioDataUri'', JStr ''data:audio/wav;base64,AAE'')]"
               and v = "JStr ''data:audio/wav;base64,AAE''"
               and parts = "[''data:audio/wav;base64'', ''AAE'']"
               and header = "''data:audio/wav;base64''" and base64_data = "''AAE''"
               and ?ex0.0 = "Exn OtherException ''Incorrect padding''"]
          demo_available jd sd bd
    by simp
  have "fst (fst ?dec) = 500
        \<and> snd (fst ?dec) = JObj [(''error'', JStr ''Incorrect padding'')]
        \<and> snd ?dec = demo_state"
    using conversation_error_response
            [OF hd, where ?ex0.0 = "Exn OtherException ''Incorrect padding''"]
          demo_available dd
    by simp
  then have d: "?dec = ((500, JObj [(''error'', JStr ''Incorrect padding'')]), demo_state)"
    by (simp add: prod_eq_iff)
  from a b d show ?thesis by simp
qed
section \<open>Failures of the transcription and generation stages of the realtime agent\<close>

text \<open>
  Claim C7. In the realtime agent the transcription stage \<open>_stt_fn\<close> and the generation
  stage \<open>_llm_fn\<close> always return a text and never raise. When the service is unavailable
  (no credential, or no client) or the request to it raises, the text is a fixed
  substitute: for the transcription, the empty string without the credential, and a
  phrase otherwise; for the generation, a phrase in each case. The next stage receives
  this text.
\<close>

theorem realtime_failures_become_text:
  "(\<exists>t s'. stt_fn g e audio_stream s = (Inr t, s'))
   \<and> (\<not> key_set (DEEPGRAM_API_KEY g) \<longrightarrow> fst (stt_fn g e audio_stream s) = Inr '''')
   \<and> (key_set (DEEPGRAM_API_KEY g) \<and> \<not> deepgram_client g \<longrightarrow>
        fst (stt_fn g e audio_stream s)
          = Inr ''Sorry, I couldn't connect to the transcription service.'')
   \<and> (key_set (DEEPGRAM_API_KEY g) \<and> deepgram_client g
        \<and> transcribe_file e (service_calls s) (to_wave e audio_stream) ''audio/wav'' = Inl ex
        \<longrightarrow> fst (stt_fn g e audio_stream s)
              = Inr (if exn_cls ex = ConnectionError
                     then ''Sorry, I couldn't connect to the transcription service.''
                     else ''Sorry, I had trouble understanding that.''))
   \<and> (\<exists>r s'. llm_fn g e transcription s = (Inr r, s'))
   \<and> (\<not> key_set (GROQ_API_KEY g) \<longrightarrow>
        fst (llm_fn g e transcription s)
          = Inr ''I'm sorry, I can't process your request right now.'')
   \<and> (key_set (GROQ_API_KEY g) \<and> transcription \<noteq> []
        \<and> strip transcription \<noteq> ''Sorry, I had trouble understanding that.''
        \<and> \<not> groq_client g
        \<longrightarrow> fst (llm_fn g e transcription s)
              = Inr ''Sorry, I couldn't connect to the language model.'')
   \<and> (key_set (GROQ_API_KEY g) \<and> transcription \<noteq> []
        \<and> strip transcription \<noteq> ''Sorry, I had trouble understanding that.''
        \<and> groq_client g
        \<and> chat_create e (service_calls s) (agent_prompt transcription) = Inl ex'
        \<longrightarrow> fst (llm_fn g e transcription s)
              = Inr (if exn_cls ex' = ConnectionError
                     then ''Sorry, I couldn't connect to the language model.''
                     else ''I'm having trouble thinking of a response.''))"
proof -
  have s1: "\<exists>t s'. stt_fn g e audio_stream s = (Inr t, s')" by (rule stt_fn_returns)
  have s2: "\<not> key_set (DEEPGRAM_API_KEY g) \<longrightarrow> fst (stt_fn g e audio_stream s) = Inr ''''"
    by (simp add: stt_fn_def)
  have s3: "key_set (DEEPGRAM_API_KEY g) \<and> \<not> deepgram_client g \<longrightarrow>
        fst (stt_fn g e audio_stream s)
          = Inr ''Sorry, I couldn't connect to the transcription service.''"
    by (simp add: stt_fn_def Let_def transcribe_audio_data_def)
  have s4: "key_set (DEEPGRAM_API_KEY g) \<and> deepgram_client g
        \<and> transcribe_file e (service_calls s) (to_wave e audio_stream) ''audio/wav'' = Inl ex
        \<longrightarrow> fst (stt_fn g e audio_stream s)
              = Inr (if exn_cls ex = ConnectionError
                     then ''Sorry, I couldn't connect to the transcription service.''
                     else ''Sorry, I had trouble understanding that.'')"
    using buffer_frames [of "s\<lparr>audio_buffer := []\<rparr>" audio_stream]
    by (simp add: stt_fn_def Let_def transcribe_audio_data_def)
  have l1: "\<exists>r s'. llm_fn g e transcription s = (Inr r, s')" by (rule llm_fn_returns)
  have l2: "\<not> key_set (GROQ_API_KEY g) \<longrightarrow>
        fst (llm_fn g e transcription s)
          = Inr ''I'm sorry, I can't process your request right now.''"
    by (simp add: llm_fn_def)
  have l3: "key_set (GROQ_API_KEY g) \<and> transcription \<noteq> []
        \<and> strip transcription \<noteq> ''Sorry, I had trouble understanding that.''
        \<and> \<not> groq_client g
        \<longrightarrow> fst (llm_fn g e transcription s)
              = Inr ''Sorry, I couldn't connect to the language model.''"
    by (simp add: llm_fn_def get_llm_response_def)
  have l4: "key_set (GROQ_API_KEY g) \<and> transcription \<noteq> []
        \<and> strip transcription \<noteq> ''Sorry, I had trouble understanding that.''
        \<and> groq_client g
        \<and> chat_create e (service_calls s) (agent_prompt transcription) = Inl ex'
        \<longrightarrow> fst (llm_fn g e transcription s)
              = Inr (if exn_cls ex' = ConnectionError
                     then ''Sorry, I couldn't connect to the language model.''
                     else ''I'm having trouble thinking of a response.'')"
    by (simp add: llm_fn_def get_llm_response_def Let_def)
  from s1 s2 s3 s4 l1 l2 l3 l4 show ?thesis by (intro conjI)
qed

theorem realtime_failures_become_text_witness:
  "fst (stt_fn demo_globals stt_down_env [[1, 2], [3]] demo_agent_state)
     = Inr ''Sorry, I had trouble understanding that.''
   \<and> fst (llm_fn demo_globals llm_down_env ''hello'' demo_agent_state)
     = Inr ''I'm having trouble thinking of a response.''
   \<and> fst (stt_fn (demo_globals\<lparr>DEEPGRAM_API_KEY := None\<rparr>) demo_env [[1, 2], [3]]
            demo_agent_state) = Inr ''''"
proof -
  have k: "key_set (DEEPGRAM_API_KEY demo_globals) \<and> deepgram_client demo_globals
           \<and> transcribe_file stt_down_env (service_calls demo_agent_state)
                (to_wave stt_down_env [[1, 2], [3]]) ''audio/wav''
              = Inl (Exn OtherException ''timed out'')"
    by code_simp
  have c: "exn_cls (Exn OtherException ''timed out'') \<noteq> ConnectionError" by simp
  have q: "key_set (GROQ_API_KEY demo_globals) \<and> ''hello'' \<noteq> []
           \<and> strip ''hello'' \<noteq> ''Sorry, I had trouble understanding that.''
           \<and> groq_client demo_globals
           \<and> chat_create llm_down_env (service_calls demo_agent_state) (agent_prompt ''hello'')
              = Inl (Exn OtherException ''rate limit exceeded'')"
    by code_simp
  have c': "exn_cls (Exn OtherException ''rate limit exceeded'') \<noteq> ConnectionError" by simp
  have n: "\<not> key_set (DEEPGRAM_API_KEY (demo_globals\<lparr>DEEPGRAM_API_KEY := None\<rparr>))" by simp
  have a: "fst (stt_fn demo_globals stt_down_env [[1, 2], [3]] demo_agent_state)
     = Inr ''Sorry, I had trouble understanding that.''"
    using realtime_failures_become_text
            [where g = demo_globals and e = stt_down_env and audio_stream = "[[1, 2], [3]]"
               and s = demo_agent_state and ex = "Exn OtherException ''timed out''"] k c
    by simp
  have b: "fst (llm_fn demo_globals llm_down_env ''hello'' demo_agent_state)
     = Inr ''I'm having trouble thinking of a response.''"
    using realtime_failures_become_text
            [where g = demo_globals and e = llm_down_env and transcription = "''hello''"
               and s = demo_agent_state and ex' = "Exn OtherException ''rate limit exceeded''"]
          q c'
    by simp
  have d: "fst (stt_fn (demo_globals\<lparr>DEEPGRAM_API_KEY := None\<rparr>) demo_env [[1, 2], [3]]
            demo_agent_state) = Inr ''''"
    using realtime_failures_become_text
            [where g = "demo_globals\<lparr>DEEPGRAM_API_KEY := None\<rparr>" and e = demo_env
               and audio_stream = "[[1, 2], [3]]" and s = demo_agent_state] n
    by blast
  from a b d show ?thesis by (intro conjI)
qed

section \<open>The synthesis stage of the realtime agent\<close>

text \<open>
  Claim C8, as the program has it. The claim says that no failure ever propagates an
  exception out of \<open>_tts_fn\<close>. Without the ElevenLabs credential the stage raises
  \<open>ConnectionError\<close> itself, before any request.
\<close>

theorem tts_fn_raises_without_credential:
  "tts_fn (demo_globals\<lparr>ELEVENLABS_API_KEY := None\<rparr>) demo_env ''Hi there'' demo_agent_state
     = (Inl (Exn ConnectionError ''TTS service not configured.''), demo_agent_state)"
  by code_simp

text \<open>
  Claim C8, amended. Without the ElevenLabs credential \<open>_tts_fn\<close> raises
  \<open>ConnectionError\<close> with the text \<open>TTS service not configured.\<close>, for every text and before
  any request. With the credential set it raises nothing for any text and any behaviour of
  the synthesis service: it returns a stream, and iterating the stream raises nothing and
  yields a finite list of chunks. For a text that is neither empty nor, stripped, one of
  the two phrases \<open>I didn't catch that, could you please repeat?\<close> and
  \<open>I'm having trouble thinking of a response.\<close>, the text is synthesized at once: the stream
  is \<open>text_stream\<close> when the synthesis succeeded, and its chunks concatenate to that audio;
  \<open>error_stream\<close> when it raised \<open>ConnectionError\<close> and \<open>fallback_stream\<close> when it raised
  another exception, and then the chunks concatenate to the audio of the apology message
  when its synthesis succeeds and are none when it raises too. For an empty text or one
  of the two phrases the message \<open>I'm sorry, there was an issue.\<close> is synthesized first:
  when that raises, the stream is \<open>empty_stream\<close>, with no chunks, and the text is not
  synthesized; when it succeeds its audio is dropped and the text is synthesized as any
  other. \<open>empty_stream\<close> is returned in no other case.
\<close>

theorem tts_fn_raises_only_unconfigured:
  "(\<not> key_set (ELEVENLABS_API_KEY g) \<longrightarrow>
       tts_fn g e text s = (Inl (Exn ConnectionError ''TTS service not configured.''), s))
   \<and> (key_set (ELEVENLABS_API_KEY g) \<longrightarrow>
        (\<exists>stream s1 chunks s2.
           tts_fn g e text s = (Inr stream, s1)
         \<and> run_stream g e stream s1 = (Inr chunks, s2)
         \<and> (case stream of
               Text_stream audio_binary \<Rightarrow>
                 fst (synthesize_speech g e text (snd (tts_error_text_check g e text s)))
                   = Inr audio_binary
                 \<and> concat chunks = audio_binary
                 \<and> length chunks = (length audio_binary + 1023) div 1024
             | Empty_stream \<Rightarrow>
                 chunks = []
                 \<and> (text = [] \<or> strip text = ''I didn't catch that, could you please repeat?''
                      \<or> strip text = ''I'm having trouble thinking of a response.'')
                 \<and> (\<exists>ex. fst (synthesize_speech g e ''I'm sorry, there was an issue.'' s) = Inl ex)
             | Error_stream \<Rightarrow>
                 (\<exists>ex. fst (synthesize_speech g e text (snd (tts_error_text_check g e text s)))
                         = Inl ex \<and> exn_cls ex = ConnectionError)
                 \<and> (case fst (synthesize_speech g e
                                ''I'm sorry, I couldn't generate the audio response.'' s1) of
                       Inr apology \<Rightarrow> concat chunks = apology
                     | Inl ex' \<Rightarrow> chunks = [])
             | Fallback_stream \<Rightarrow>
                 (\<exists>ex. fst (synthesize_speech g e text (snd (tts_error_text_check g e text s)))
                         = Inl ex \<and> exn_cls ex \<noteq> ConnectionError)
                 \<and> (case fst (synthesize_speech g e
                                ''There was an error with the speech synthesis.'' s1) of
                       Inr apology \<Rightarrow> concat chunks = apology
                     | Inl ex' \<Rightarrow> chunks = []))))
   \<and> (key_set (ELEVENLABS_API_KEY g)
       \<and> \<not> (text = [] \<or> strip text = ''I didn't catch that, could you please repeat?''
               \<or> strip text = ''I'm having trouble thinking of a response.'')
       \<longrightarrow> tts_fn g e text s
             = (case synthesize_speech g e text s of
                   (Inr audio_binary, s2) \<Rightarrow> (Inr (Text_stream audio_binary), s2)
                 | (Inl ex, s2) \<Rightarrow>
                     if exn_cls ex = ConnectionError then (Inr Error_stream, s2)
                     else (Inr Fallback_stream, s2)))
   \<and> (key_set (ELEVENLABS_API_KEY g)
       \<and> (text = [] \<or> strip text = ''I didn't catch that, could you please repeat?''
            \<or> strip text = ''I'm having trouble thinking of a response.'')
       \<and> synthesize_speech g e ''I'm sorry, there was an issue.'' s = (Inl ex0, s0)
       \<longrightarrow> tts_fn g e text s = (Inr Empty_stream, s0))
   \<and> (key_set (ELEVENLABS_API_KEY g)
       \<and> (text = [] \<or> strip text = ''I didn't catch that, could you please repeat?''
            \<or> strip text = ''I'm having trouble thinking of a response.'')
       \<and> synthesize_speech g e ''I'm sorry, there was an issue.'' s = (Inr dropped, s0)
       \<longrightarrow> tts_fn g e text s
             = (case synthesize_speech g e text s0 of
                   (Inr audio_binary, s2) \<Rightarrow> (Inr (Text_stream audio_binary), s2)
                 | (Inl ex, s2) \<Rightarrow>
                     if exn_cls ex = ConnectionError then (Inr Error_stream, s2)
                     else (Inr Fallback_stream, s2)))"
proof -
  have a: "key_set (ELEVENLABS_API_KEY g) \<longrightarrow>
        (\<exists>stream s1 chunks s2.
           tts_fn g e text s = (Inr stream, s1)
         \<and> run_stream g e stream s1 = (Inr chunks, s2)
         \<and> (case stream of
               Text_stream audio_binary \<Rightarrow>
                 fst (synthesize_speech g e text (snd (tts_error_text_check g e text s)))
                   = Inr audio_binary
                 \<and> concat chunks = audio_binary
                 \<and> length chunks = (length audio_binary + 1023) div 1024
             | Empty_stream \<Rightarrow>
                 chunks = []
                 \<and> (text = [] \<or> strip text = ''I didn't catch that, could you please repeat?''
                      \<or> strip text = ''I'm having trouble thinking of a response.'')
                 \<and> (\<exists>ex. fst (synthesize_speech g e ''I'm sorry, there was an issue.'' s) = Inl ex)
             | Error_stream \<Rightarrow>
                 (\<exists>ex. fst (synthesize_speech g e text (snd (tts_error_text_check g e text s)))
                         = Inl ex \<and> exn_cls ex = ConnectionError)
                 \<and> (case fst (synthesize_speech g e
                                ''I'm sorry, I couldn't generate the audio response.'' s1) of
                       Inr apology \<Rightarrow> concat chunks = apology
                     | Inl ex' \<Rightarrow> chunks = [])
             | Fallback_stream \<Rightarrow>
                 (\<exists>ex. fst (synthesize_speech g e text (snd (tts_error_text_check g e text s)))
                         = Inl ex \<and> exn_cls ex \<noteq> ConnectionError)
                 \<and> (case fst (synthesize_speech g e
                                ''There was an error with the speech synthesis.'' s1) of
                       Inr apology \<Rightarrow> concat chunks = apology
                     | Inl ex' \<Rightarrow> chunks = [])))"
  proof
    assume assms: "key_set (ELEVENLABS_API_KEY g)"
    show "\<exists>stream s1 chunks s2.
           tts_fn g e text s = (Inr stream, s1)
         \<and> run_stream g e stream s1 = (Inr chunks, s2)
         \<and> (case stream of
               Text_stream audio_binary \<Rightarrow>
                 fst (synthesize_speech g e text (snd (tts_error_text_check g e text s)))
                   = Inr audio_binary
                 \<and> concat chunks = audio_binary
                 \<and> length chunks = (length audio_binary + 1023) div 1024
             | Empty_stream \<Rightarrow>
                 chunks = []
                 \<and> (text = [] \<or> strip text = ''I didn't catch that, could you please repeat?''
                      \<or> strip text = ''I'm having trouble thinking of a response.'')
                 \<and> (\<exists>ex. fst (synthesize_speech g e ''I'm sorry, there was an issue.'' s) = Inl ex)
             | Error_stream \<Rightarrow>
                 (\<exists>ex. fst (synthesize_speech g e text (snd (tts_error_text_check g e text s)))
                         = Inl ex \<and> exn_cls ex = ConnectionError)
                 \<and> (case fst (synthesize_speech g e
                                ''I'm sorry, I couldn't generate the audio response.'' s1) of
                       Inr apology \<Rightarrow> concat chunks = apology
                     | Inl ex' \<Rightarrow> chunks = [])
             | Fallback_stream \<Rightarrow>
                 (\<exists>ex. fst (synthesize_speech g e text (snd (tts_error_text_check g e text s)))
                         = Inl ex \<and> exn_cls ex \<noteq> ConnectionError)
                 \<and> (case fst (synthesize_speech g e
                                ''There was an error with the speech synthesis.'' s1) of
                       Inr apology \<Rightarrow> concat chunks = apology
                     | Inl ex' \<Rightarrow> chunks = []))"
    proof -
      obtain guard s0 where chk: "tts_error_text_check g e text s = (guard, s0)"
        by (cases "tts_error_text_check g e text s")
      show ?thesis
      proof (cases guard)
        case (Some stream)
        from tts_error_text_check_Some [OF chk [unfolded Some]]
        obtain ex where st: "stream = Empty_stream"
          and pr: "synthesize_speech g e ''I'm sorry, there was an issue.'' s = (Inl ex, s0)"
          by blast
        have t: "tts_fn g e text s = (Inr Empty_stream, s0)"
          using assms chk Some st by (simp add: tts_fn_def)
        show ?thesis
          unfolding t using pr tts_error_text_check_Some_text [OF chk [unfolded Some]]
          by (intro exI [of _ Empty_stream] exI [of _ s0] exI [of _ "[]"]) simp
      next
        case None
        obtain res s1 where syn: "synthesize_speech g e text s0 = (res, s1)"
          by (cases "synthesize_speech g e text s0")
        show ?thesis
        proof (cases res)
          case (Inr audio_binary)
          have t: "tts_fn g e text s = (Inr (Text_stream audio_binary), s1)"
            using assms chk None syn Inr by (simp add: tts_fn_def)
          have c: "concat (text_stream audio_binary) = audio_binary"
            by (simp add: text_stream_def concat_chunk_loop)
          have n: "length (text_stream audio_binary) = (length audio_binary + 1023) div 1024"
            by (simp add: text_stream_def length_chunk_loop chunk_size_def)
          show ?thesis
            unfolding t using chk syn Inr c n
            by (intro exI [of _ "Text_stream audio_binary"] exI [of _ s1]
                  exI [of _ "text_stream audio_binary"] exI [of _ s1]) simp
        next
          case (Inl ex)
          show ?thesis
          proof (cases "exn_cls ex = ConnectionError")
            case True
            have t: "tts_fn g e text s = (Inr Error_stream, s1)"
              using assms chk None syn Inl True by (simp add: tts_fn_def)
            from apology_stream_chunks
                   [of g e "''I'm sorry, I couldn't generate the audio response.''" s1]
            obtain chunks s2 where
              "apology_stream g e ''I'm sorry, I couldn't generate the audio response.'' s1
                 = (Inr chunks, s2)"
              and "case fst (synthesize_speech g e
                               ''I'm sorry, I couldn't generate the audio response.'' s1) of
                     Inr apology \<Rightarrow> concat chunks = apology
                   | Inl ex \<Rightarrow> chunks = []"
              by blast
            then show ?thesis
              unfolding t using chk syn Inl True
              by (intro exI [of _ Error_stream] exI [of _ s1] exI [of _ chunks] exI [of _ s2]) simp
          next
            case False
            have t: "tts_fn g e text s = (Inr Fallback_stream, s1)"
              using assms chk None syn Inl False by (simp add: tts_fn_def)
            from apology_stream_chunks
                   [of g e "''There was an error with the speech synthesis.''" s1]
            obtain chunks s2 where
              "apology_stream g e ''There was an error with the speech synthesis.'' s1
                 = (Inr chunks, s2)"
              and "case fst (synthesize_speech g e
                               ''There was an error with the speech synthesis.'' s1) of
                     Inr apology \<Rightarrow> concat chunks = apology
                   | Inl ex \<Rightarrow> chunks = []"
              by blast
            then show ?thesis
              unfolding t using chk syn Inl False
              by (intro exI [of _ Fallback_stream] exI [of _ s1] exI [of _ chunks] exI [of _ s2]) simp
          qed
        qed
      qed
    qed
  qed
  have b: "\<not> key_set (ELEVENLABS_API_KEY g) \<longrightarrow>
       tts_fn g e text s = (Inl (Exn ConnectionError ''TTS service not configured.''), s)"
    by (simp add: tts_fn_unconfigured)
  have c: "key_set (ELEVENLABS_API_KEY g)
       \<and> \<not> (text = [] \<or> strip text = ''I didn't catch that, could you please repeat?''
               \<or> strip text = ''I'm having trouble thinking of a response.'')
       \<longrightarrow> tts_fn g e text s
             = (case synthesize_speech g e text s of
                   (Inr audio_binary, s2) \<Rightarrow> (Inr (Text_stream audio_binary), s2)
                 | (Inl ex, s2) \<Rightarrow>
                     if exn_cls ex = ConnectionError then (Inr Error_stream, s2)
                     else (Inr Fallback_stream, s2))"
    by (blast intro: tts_fn_plain)
  have d: "key_set (ELEVENLABS_API_KEY g)
       \<and> (text = [] \<or> strip text = ''I didn't catch that, could you please repeat?''
            \<or> strip text = ''I'm having trouble thinking of a response.'')
       \<and> synthesize_speech g e ''I'm sorry, there was an issue.'' s = (Inl ex0, s0)
       \<longrightarrow> tts_fn g e text s = (Inr Empty_stream, s0)"
    by (blast intro: tts_fn_probe_fails)
  have e: "key_set (ELEVENLABS_API_KEY g)
       \<and> (text = [] \<or> strip text = ''I didn't catch that, could you please repeat?''
            \<or> strip text = ''I'm having trouble thinking of a response.'')
       \<and> synthesize_speech g e ''I'm sorry, there was an issue.'' s = (Inr dropped, s0)
       \<longrightarrow> tts_fn g e text s
             = (case synthesize_speech g e text s0 of
                   (Inr audio_binary, s2) \<Rightarrow> (Inr (Text_stream audio_binary), s2)
                 | (Inl ex, s2) \<Rightarrow>
                     if exn_cls ex = ConnectionError then (Inr Error_stream, s2)
                     else (Inr Fallback_stream, s2))"
    by (blast intro: tts_fn_probe_ok)
  from b a c d e show ?thesis by (intro conjI)
qed

theorem tts_fn_raises_only_unconfigured_witness:
  "fst (tts_fn demo_globals convert_down_env ''Hi there'' demo_agent_state) = Inr Error_stream
   \<and> fst (run_stream demo_globals convert_down_env Error_stream
            (snd (tts_fn demo_globals convert_down_env ''Hi there'' demo_agent_state)))
       = Inr [[4, 5, 6]]
   \<and> fst (tts_fn demo_globals convert_lost_env [] demo_agent_state) = Inr Empty_stream
   \<and> fst (tts_fn (demo_globals\<lparr>ELEVENLABS_API_KEY := None\<rparr>) demo_env [] demo_agent_state)
       = Inl (Exn ConnectionError ''TTS service not configured.'')"
proof -
  have k: "key_set (ELEVENLABS_API_KEY demo_globals)" by code_simp
  have n: "\<not> key_set (ELEVENLABS_API_KEY (demo_globals\<lparr>ELEVENLABS_API_KEY := None\<rparr>))"
    by code_simp
  have p: "''Hi there'' \<noteq> []
           \<and> strip ''Hi there'' \<noteq> ''I didn't catch that, could you please repeat?''
           \<and> strip ''Hi there'' \<noteq> ''I'm having trouble thinking of a response.''"
    by code_simp
  have sy: "synthesize_speech demo_globals convert_down_env ''Hi there'' demo_agent_state
              = (Inl (Exn ConnectionError ''connection reset''),
                 log_service_call (Convert (ELEVENLABS_VOICE_ID demo_globals) ''Hi there'')
                   demo_agent_state)"
    by code_simp
  have a: "fst (tts_fn demo_globals convert_down_env ''Hi there'' demo_agent_state)
             = Inr Error_stream"
    using tts_fn_raises_only_unconfigured
            [of demo_globals convert_down_env "''Hi there''" demo_agent_state] k p sy
    by simp
  have b: "fst (run_stream demo_globals convert_down_env Error_stream
            (snd (tts_fn demo_globals convert_down_env ''Hi there'' demo_agent_state)))
       = Inr [[4, 5, 6]]"
    by code_simp
  have pr: "synthesize_speech demo_globals convert_lost_env ''I'm sorry, there was an issue.''
              demo_agent_state
              = (Inl (Exn ConnectionError ''connection reset''),
                 log_service_call
                   (Convert (ELEVENLABS_VOICE_ID demo_globals) ''I'm sorry, there was an issue.'')
                   demo_agent_state)"
    by code_simp
  have c: "fst (tts_fn demo_globals convert_lost_env [] demo_agent_state) = Inr Empty_stream"
    using tts_fn_raises_only_unconfigured
            [of demo_globals convert_lost_env "[]" demo_agent_state
                "Exn ConnectionError ''connection reset''"
                "log_service_call
                   (Convert (ELEVENLABS_VOICE_ID demo_globals) ''I'm sorry, there was an issue.'')
                   demo_agent_state"] k pr
    by simp
  have d: "fst (tts_fn (demo_globals\<lparr>ELEVENLABS_API_KEY := None\<rparr>) demo_env [] demo_agent_state)
       = Inl (Exn ConnectionError ''TTS service not configured.'')"
    using tts_fn_raises_only_unconfigured
            [of "demo_globals\<lparr>ELEVENLABS_API_KEY := None\<rparr>" demo_env "[]" demo_agent_state] n
    by simp
  from a b c d show ?thesis by (intro conjI)
qed
section \<open>Exporting the metrics log\<close>

text \<open>
  Claim C9, as the program has it. The claim says that the export of a log of \<open>N\<close>
  records produces a file with those \<open>N\<close> records, for every \<open>N\<close>. For the empty log
  (\<open>N = 0\<close>) the export writes no file and answers with the status \<open>error\<close>.
\<close>

theorem export_empty_log_writes_no_file:
  "metrics_log demo_state = []
   \<and> files (snd (export_metrics demo_request demo_state)) = []
   \<and> fst (export_metrics demo_request demo_state)
       = (200, JObj [(''status'', JStr ''error''), (''message'', JStr ''No metrics to export'')])"
  by code_simp

text \<open>
  Claim C9, amended. For a log of \<open>N \<ge> 1\<close> records, \<open>GET /metrics/export\<close> writes one file,
  named after the time of the call, that holds exactly the \<open>N\<close> records of the log at the
  call, in order, and answers with the status \<open>success\<close> and the name; the log itself is
  unchanged, and a record appended afterwards is not in the file. For the empty log no
  file is written and the answer has the status \<open>error\<close>.
\<close>

theorem export_metrics_snapshot:
  "(metrics_log w \<noteq> [] \<longrightarrow>
      fst (export_metrics rq w)
        = (200, JObj [(''status'', JStr ''success''),
                      (''filename'', JStr (''metrics_'' @ now_strftime rq @ ''.xlsx''))])
      \<and> read_file (snd (export_metrics rq w)) (''metrics_'' @ now_strftime rq @ ''.xlsx'')
          = Some (metrics_log w)
      \<and> metrics_log (snd (export_metrics rq w)) = metrics_log w
      \<and> read_file (append_metric m (snd (export_metrics rq w)))
           (''metrics_'' @ now_strftime rq @ ''.xlsx'')
          = Some (metrics_log w))
   \<and> (metrics_log w = [] \<longrightarrow>
      export_metrics rq w
        = ((200, JObj [(''status'', JStr ''error''), (''message'', JStr ''No metrics to export'')]),
           w))"
  by (simp add: export_metrics_def save_metrics_to_excel_def Let_def write_file_def
        read_file_def append_metric_def)

theorem export_metrics_snapshot_witness:
  "read_file (snd (export_metrics demo_request
                     (snd (process_conversation demo_globals demo_env demo_request demo_state))))
     ''metrics_20250101_000000.xlsx''
     = Some (metrics_log (snd (process_conversation demo_globals demo_env demo_request demo_state)))
   \<and> length (metrics_log (snd (process_conversation demo_globals demo_env
                                  demo_request demo_state))) = 4"
proof -
  let ?w = "snd (process_conversation demo_globals demo_env demo_request demo_state)"
  have n: "length (metrics_log ?w) = 4" by code_simp
  then have ne: "metrics_log ?w \<noteq> []" by auto
  have f: "''metrics_'' @ now_strftime demo_request @ ''.xlsx'' = ''metrics_20250101_000000.xlsx''"
    by (simp add: demo_request_def)
  show ?thesis
    using export_metrics_snapshot [of ?w demo_request] ne n unfolding f by simp
qed

section \<open>The records of a conversation turn\<close>

text \<open>
  Claim C10. A request to \<open>POST /api/conversation\<close> only appends to the metrics log. A
  successful request (status 200) appends four records, of the types \<open>stt\<close>, \<open>llm\<close>,
  \<open>tts\<close>, \<open>conversation\<close>, in this order. A failed request appends the records of the
  stages completed before the failure: none when the request is refused or the
  transcription fails, \<open>stt\<close> when the reply generation fails, \<open>stt\<close> and \<open>llm\<close> when the
  synthesis fails.
\<close>

theorem conversation_appends_in_order:
  assumes "process_conversation g e rq w = ((status, body), w')"
  shows "metrics_log w' = metrics_log w @ appended w w'
    \<and> (status = 200 \<longrightarrow>
          map metric_type (appended w w')
            = [JStr ''stt'', JStr ''llm'', JStr ''tts'', JStr ''conversation''])
    \<and> (status \<noteq> 200 \<longrightarrow>
          map metric_type (appended w w') = []
          \<or> map metric_type (appended w w') = [JStr ''stt'']
          \<or> map metric_type (appended w w') = [JStr ''stt'', JStr ''llm''])
    \<and> (\<not> DEEPGRAM_AVAILABLE g \<or> decode_audio e rq = Raised ex0 \<or> decode_audio e rq = Returned r0
          \<longrightarrow> status \<noteq> 200 \<and> appended w w' = [])
    \<and> (DEEPGRAM_AVAILABLE g \<and> decode_audio e rq = Value (ab, mt)
          \<and> transcribe g e ab mt w = (Inl ex1, w1)
          \<longrightarrow> status \<noteq> 200 \<and> appended w w' = [])
    \<and> (DEEPGRAM_AVAILABLE g \<and> decode_audio e rq = Value (ab, mt)
          \<and> transcribe g e ab mt w = (Inr t, w1)
          \<and> chat_create e (calls w1) (app_prompt t) = Inl ex2
          \<longrightarrow> status \<noteq> 200 \<and> map metric_type (appended w w') = [JStr ''stt''])
    \<and> (DEEPGRAM_AVAILABLE g \<and> decode_audio e rq = Value (ab, mt)
          \<and> transcribe g e ab mt w = (Inr t, w1)
          \<and> chat_create e (calls w1) (app_prompt t) = Inr gr
          \<and> generate e (calls w1 @ [ChatCreate (app_prompt t)])
                (JStr (content gr)) (JStr (ELEVENLABS_VOICE_ID g)) = Inl ex3
          \<longrightarrow> status \<noteq> 200 \<and> map metric_type (appended w w') = [JStr ''stt'', JStr ''llm''])
    \<and> (DEEPGRAM_AVAILABLE g \<and> decode_audio e rq = Value (ab, mt)
          \<and> transcribe g e ab mt w = (Inr t, w1)
          \<and> chat_create e (calls w1) (app_prompt t) = Inr gr
          \<and> generate e (calls w1 @ [ChatCreate (app_prompt t)])
                (JStr (content gr)) (JStr (ELEVENLABS_VOICE_ID g)) = Inr audio
          \<longrightarrow> status = 200)"
proof -
  note pc = assms
  from process_conversation_summary [OF pc]
  obtain new where full: "metrics_log w' = metrics_log w @ new
           \<and> (\<forall>m\<in>set new. stage_record m \<longrightarrow> measured rq POST_api_conversation m)
           \<and> ((status = 200
                 \<and> (\<exists>t r a m. body = JObj [(''transcription'', JStr t), (''response'', JStr r),
                                            (''audio'', JStr a), (''metrics'', JObj m)])
                 \<and> map metric_type new
                     = [JStr ''stt'', JStr ''llm'', JStr ''tts'', JStr ''conversation''])
              \<or> ((status = 400 \<or> status = 500)
                 \<and> (\<exists>msg. body = JObj [(''error'', JStr msg)])
                 \<and> (map metric_type new = []
                      \<or> map metric_type new = [JStr ''stt'']
                      \<or> map metric_type new = [JStr ''stt'', JStr ''llm''])))" ..
  have new: "metrics_log w' = metrics_log w @ new" using full by (rule conjunct1)
  have shape: "(status = 200
                  \<and> map metric_type new
                      = [JStr ''stt'', JStr ''llm'', JStr ''tts'', JStr ''conversation''])
              \<or> ((status = 400 \<or> status = 500)
                  \<and> (map metric_type new = []
                      \<or> map metric_type new = [JStr ''stt'']
                      \<or> map metric_type new = [JStr ''stt'', JStr ''llm'']))"
    using full [THEN conjunct2, THEN conjunct2] by (elim disjE conjE) simp_all
  have app: "appended w w' = new" using new by (rule appended_append)
  have c1: "metrics_log w' = metrics_log w @ appended w w'" using new app by simp
  have c2: "status = 200 \<longrightarrow>
          map metric_type (appended w w')
            = [JStr ''stt'', JStr ''llm'', JStr ''tts'', JStr ''conversation'']"
    using shape app by auto
  have c3: "status \<noteq> 200 \<longrightarrow>
          map metric_type (appended w w') = []
          \<or> map metric_type (appended w w') = [JStr ''stt'']
          \<or> map metric_type (appended w w') = [JStr ''stt'', JStr ''llm'']"
    using shape app by auto
  have c4: "\<not> DEEPGRAM_AVAILABLE g \<or> decode_audio e rq = Raised ex0 \<or> decode_audio e rq = Returned r0
          \<longrightarrow> status \<noteq> 200 \<and> appended w w' = []"
  proof
    assume h: "\<not> DEEPGRAM_AVAILABLE g \<or> decode_audio e rq = Raised ex0
                 \<or> decode_audio e rq = Returned r0"
    show "status \<noteq> 200 \<and> appended w w' = []"
    proof (cases "DEEPGRAM_AVAILABLE g")
      case False
      from process_conversation_unavailable [OF False, of e rq w] pc
      show ?thesis by (simp add: error_response_def appended_def)
    next
      case True
      with h consider "decode_audio e rq = Raised ex0" | "decode_audio e rq = Returned r0"
        by blast
      then show ?thesis
      proof cases
        case 1
        from process_conversation_raised [OF True 1, of w] pc
        show ?thesis by (simp add: error_response_def appended_def)
      next
        case 2
        from process_conversation_returned [OF True 2, of w] pc
        show ?thesis by (simp add: error_response_def appended_def)
      qed
    qed
  qed
  have c5: "DEEPGRAM_AVAILABLE g \<and> decode_audio e rq = Value (ab, mt)
          \<and> transcribe g e ab mt w = (Inl ex1, w1)
          \<longrightarrow> status \<noteq> 200 \<and> appended w w' = []"
  proof
    assume h: "DEEPGRAM_AVAILABLE g \<and> decode_audio e rq = Value (ab, mt)
          \<and> transcribe g e ab mt w = (Inl ex1, w1)"
    then have "metrics_log w1 = metrics_log w" by (blast dest: transcribe_metrics_log)
    moreover from h have "process_conversation g e rq w = (error_response 500 (exn_str ex1), w1)"
      by (blast intro: process_conversation_stt_fail)
    ultimately show "status \<noteq> 200 \<and> appended w w' = []"
      using pc by (simp add: error_response_def appended_def)
  qed
  have c6: "DEEPGRAM_AVAILABLE g \<and> decode_audio e rq = Value (ab, mt)
          \<and> transcribe g e ab mt w = (Inr t, w1)
          \<and> chat_create e (calls w1) (app_prompt t) = Inl ex2
          \<longrightarrow> status \<noteq> 200 \<and> map metric_type (appended w w') = [JStr ''stt'']"
  proof
    assume h: "DEEPGRAM_AVAILABLE g \<and> decode_audio e rq = Value (ab, mt)
          \<and> transcribe g e ab mt w = (Inr t, w1)
          \<and> chat_create e (calls w1) (app_prompt t) = Inl ex2"
    then have l: "metrics_log w1 = metrics_log w" by (blast dest: transcribe_metrics_log)
    from h obtain m1 where "process_conversation g e rq w
                 = (error_response 500 (exn_str ex2),
                    log_call (ChatCreate (app_prompt t)) (append_metric m1 w1))"
      and "metric_type m1 = JStr ''stt''"
      using process_conversation_llm_fail [of g e rq ab mt w t w1 ex2] by blast
    then show "status \<noteq> 200 \<and> map metric_type (appended w w') = [JStr ''stt'']"
      using pc l by (auto simp: error_response_def appended_def)
  qed
  have c7: "DEEPGRAM_AVAILABLE g \<and> decode_audio e rq = Value (ab, mt)
          \<and> transcribe g e ab mt w = (Inr t, w1)
          \<and> chat_create e (calls w1) (app_prompt t) = Inr gr
          \<and> generate e (calls w1 @ [ChatCreate (app_prompt t)])
                (JStr (content gr)) (JStr (ELEVENLABS_VOICE_ID g)) = Inl ex3
          \<longrightarrow> status \<noteq> 200 \<and> map metric_type (appended w w') = [JStr ''stt'', JStr ''llm'']"
  proof
    assume h: "DEEPGRAM_AVAILABLE g \<and> decode_audio e rq = Value (ab, mt)
          \<and> transcribe g e ab mt w = (Inr t, w1)
          \<and> chat_create e (calls w1) (app_prompt t) = Inr gr
          \<and> generate e (calls w1 @ [ChatCreate (app_prompt t)])
                (JStr (content gr)) (JStr (ELEVENLABS_VOICE_ID g)) = Inl ex3"
    then have l: "metrics_log w1 = metrics_log w" by (blast dest: transcribe_metrics_log)
    from h obtain m1 m2 where "process_conversation g e rq w
                 = (error_response 500 (exn_str ex3),
                    log_call (Generate (JStr (content gr)) (JStr (ELEVENLABS_VOICE_ID g)))
                      (append_metric m2
                        (log_call (ChatCreate (app_prompt t)) (append_metric m1 w1))))"
      and "metric_type m1 = JStr ''stt''" "metric_type m2 = JStr ''llm''"
      using process_conversation_tts_fail [of g e rq ab mt w t w1 gr ex3] by blast
    then show "status \<noteq> 200 \<and> map metric_type (appended w w') = [JStr ''stt'', JStr ''llm'']"
      using pc l by (auto simp: error_response_def appended_def)
  qed
  have c8: "DEEPGRAM_AVAILABLE g \<and> decode_audio e rq = Value (ab, mt)
          \<and> transcribe g e ab mt w = (Inr t, w1)
          \<and> chat_create e (calls w1) (app_prompt t) = Inr gr
          \<and> generate e (calls w1 @ [ChatCreate (app_prompt t)])
                (JStr (content gr)) (JStr (ELEVENLABS_VOICE_ID g)) = Inr audio
          \<longrightarrow> status = 200"
  proof
    assume h: "DEEPGRAM_AVAILABLE g \<and> decode_audio e rq = Value (ab, mt)
          \<and> transcribe g e ab mt w = (Inr t, w1)
          \<and> chat_create e (calls w1) (app_prompt t) = Inr gr
          \<and> generate e (calls w1 @ [ChatCreate (app_prompt t)])
                (JStr (content gr)) (JStr (ELEVENLABS_VOICE_ID g)) = Inr audio"
    then obtain m1 m2 m3 m4 where "process_conversation g e rq w
                 = ((200, JObj [(''transcription'', JStr t),
                                (''response'', JStr (content gr)),
                                (''audio'', JStr (b64encode e audio)),
                                (''metrics'', JObj m4)]),
                    append_metric m4
                     (append_metric m3
                      (log_call (Generate (JStr (content gr)) (JStr (ELEVENLABS_VOICE_ID g)))
                        (append_metric m2
                          (log_call (ChatCreate (app_prompt t)) (append_metric m1 w1))))))"
      using process_conversation_ok [of g e rq ab mt w t w1 gr audio] by blast
    then show "status = 200" using pc by simp
  qed
  from c1 c2 c3 c4 c5 c6 c7 c8 show ?thesis by (intro conjI)
qed

theorem conversation_appends_in_order_witness:
  "fst (fst (process_conversation demo_globals demo_env demo_request demo_state)) = 200
   \<and> map metric_type
        (appended demo_state
           (snd (process_conversation demo_globals demo_env demo_request demo_state)))
       = [JStr ''stt'', JStr ''llm'', JStr ''tts'', JStr ''conversation'']
   \<and> fst (fst (process_conversation demo_globals tts_down_env demo_request demo_state)) \<noteq> 200
   \<and> map metric_type
        (appended demo_state
           (snd (process_conversation demo_globals tts_down_env demo_request demo_state)))
       = [JStr ''stt'', JStr ''llm'']"
proof -
  let ?ok = "process_conversation demo_globals demo_env demo_request demo_state"
  let ?bad = "process_conversation demo_globals tts_down_env demo_request demo_state"
  have h1: "?ok = ((fst (fst ?ok), snd (fst ?ok)), snd ?ok)" by simp
  have h2: "?bad = ((fst (fst ?bad), snd (fst ?bad)), snd ?bad)" by simp
  have s: "fst (fst ?ok) = 200" by code_simp
  have a: "map metric_type (appended demo_state (snd ?ok))
             = [JStr ''stt'', JStr ''llm'', JStr ''tts'', JStr ''conversation'']"
    using conversation_appends_in_order [OF h1] s by blast
  have b: "fst (fst ?bad) \<noteq> 200
           \<and> map metric_type (appended demo_state (snd ?bad)) = [JStr ''stt'', JStr ''llm'']"
    using conversation_appends_in_order
            [OF h2, where ab = "[0, 1, 2]" and mt = "''audio/wav''" and t = "''hello''"
               and ?w1.0 = "log_call (TranscribeFile [0, 1, 2] ''audio/wav'') demo_state"
               and gr = "\<lparr>content = ''Hi there'', usage = Some 2\<rparr>"
               and ?ex3.0 = "Exn OtherException ''quota exceeded''"]
          demo_available demo_decode_tts_down demo_transcribe_tts_down demo_chat_tts_down
          demo_generate_tts_down
    by blast
  from s a b show ?thesis by blast
qed

end
